theory Spec2Isabelle
  imports Complex_Main "HOL-Library.Multiset" "HOL-Library.Monad_Syntax"
begin

section \<open>Conversation state (state.py)\<close>

text \<open>
  The two enumerations of \<^verbatim>\<open>state.py\<close>. Both have members called GREETING, CLOSING and
  ERROR; the members of \<^verbatim>\<open>DialogueAct\<close> carry the prefix \<open>DA_\<close> here.
\<close>

datatype ConversationState =
  INITIAL | GREETING | IN_PROGRESS | ASKING_CLARIFICATION | PROVIDING_INFORMATION
  | SEEKING_CONFIRMATION | CLOSING | ERROR

datatype DialogueAct =
  DA_GREETING | DA_QUESTION | DA_STATEMENT | DA_REQUEST | DA_CONFIRMATION
  | DA_CLARIFICATION | DA_ACKNOWLEDGMENT | DA_CLOSING | DA_ERROR

text \<open>The \<^verbatim>\<open>.value\<close> of each member: its string tag.\<close>

fun state_value :: "ConversationState \<Rightarrow> string" where
  "state_value INITIAL = ''initial''"
| "state_value GREETING = ''greeting''"
| "state_value IN_PROGRESS = ''in_progress''"
| "state_value ASKING_CLARIFICATION = ''asking_clarification''"
| "state_value PROVIDING_INFORMATION = ''providing_information''"
| "state_value SEEKING_CONFIRMATION = ''seeking_confirmation''"
| "state_value CLOSING = ''closing''"
| "state_value ERROR = ''error''"

fun act_value :: "DialogueAct \<Rightarrow> string" where
  "act_value DA_GREETING = ''greeting''"
| "act_value DA_QUESTION = ''question''"
| "act_value DA_STATEMENT = ''statement''"
| "act_value DA_REQUEST = ''request''"
| "act_value DA_CONFIRMATION = ''confirmation''"
| "act_value DA_CLARIFICATION = ''clarification''"
| "act_value DA_ACKNOWLEDGMENT = ''acknowledgment''"
| "act_value DA_CLOSING = ''closing''"
| "act_value DA_ERROR = ''error''"

text \<open>
  A naive \<^verbatim>\<open>datetime\<close> (the only kind \<^verbatim>\<open>datetime.now()\<close> without argument returns):
  its seven calendar fields.
\<close>

record datetime =
  year :: nat
  month :: nat
  day :: nat
  hour :: nat
  minute :: nat
  second :: nat
  microsecond :: nat

text \<open>
  Values of Python's dynamically typed containers (\<^verbatim>\<open>Dict[str, Any]\<close>, \<^verbatim>\<open>List[...]\<close>):
  a dictionary is an association list in insertion order.
\<close>

datatype pyval =
  PNone | PBool bool | PInt int | PStr string | PList "pyval list"
  | PDict "(string \<times> pyval) list"

record ConversationContext =
  user_id :: string
  conversation_id :: string
  state :: ConversationState
  previous_state :: ConversationState
  dialogue_act :: DialogueAct
  topic :: string
  entities :: "pyval list"
  user_intent :: string
  last_user_input :: string
  last_agent_response :: string
  turn_count :: int
  created_at :: datetime
  updated_at :: datetime
  metadata :: "(string \<times> pyval) list"

record StateTransition =
  from_state :: ConversationState
  to_state :: ConversationState
  trigger :: string
  timestamp :: datetime

text \<open>
  The attributes of a \<^verbatim>\<open>ConversationStateManager\<close>. The manager's own \<^verbatim>\<open>user_id\<close> and
  \<^verbatim>\<open>conversation_id\<close> are \<open>mgr_user_id\<close> and \<open>mgr_conversation_id\<close>, apart from the
  fields of the same name in its context; its \<^verbatim>\<open>context\<close> is \<open>mgr_context\<close>.
\<close>

record ConversationStateManager =
  mgr_user_id :: string
  mgr_conversation_id :: string
  mgr_context :: ConversationContext
  state_history :: "StateTransition list"
  max_history_length :: nat

text \<open>
  What the code reads from outside: the clock (\<^verbatim>\<open>datetime.now()\<close>), the random generator
  (\<^verbatim>\<open>random.choice\<close>) and \<^verbatim>\<open>uuid.uuid4()\<close>. Each is an infinite sequence of readings
  with the number of readings taken so far; a read returns the next one.
\<close>

record world =
  clock :: "nat \<Rightarrow> datetime"
  clock_reads :: nat
  rng :: "nat \<Rightarrow> nat"
  rng_draws :: nat
  uuids :: "nat \<Rightarrow> string"
  uuid_draws :: nat

definition datetime_now :: "world \<Rightarrow> datetime \<times> world" where
  "datetime_now w = (clock w (clock_reads w), w\<lparr>clock_reads := Suc (clock_reads w)\<rparr>)"

definition generate_conversation_id :: "world \<Rightarrow> string \<times> world" where
  "generate_conversation_id w = (uuids w (uuid_draws w), w\<lparr>uuid_draws := Suc (uuid_draws w)\<rparr>)"

text \<open>
  \<^verbatim>\<open>ConversationContext(user_id=..., conversation_id=...)\<close>: every other field takes its
  default; the two \<^verbatim>\<open>default_factory=datetime.now\<close> fields read the clock, in field order.
\<close>

definition new_context :: "string \<Rightarrow> string \<Rightarrow> world \<Rightarrow> ConversationContext \<times> world" where
  "new_context uid cid w =
     (let (t1, w1) = datetime_now w;
          (t2, w2) = datetime_now w1
      in (\<lparr>user_id = uid, conversation_id = cid, state = INITIAL, previous_state = INITIAL,
           dialogue_act = DA_GREETING, topic = [], entities = [], user_intent = [],
           last_user_input = [], last_agent_response = [], turn_count = 0,
           created_at = t1, updated_at = t2, metadata = []\<rparr>, w2))"

text \<open>\<^verbatim>\<open>ConversationStateManager.__init__\<close>\<close>

definition new_manager :: "string \<Rightarrow> world \<Rightarrow> ConversationStateManager \<times> world" where
  "new_manager uid w =
     (let (cid, w1) = generate_conversation_id w;
          (ctx, w2) = new_context uid cid w1
      in (\<lparr>mgr_user_id = uid, mgr_conversation_id = cid, mgr_context = ctx,
           state_history = [], max_history_length = 10\<rparr>, w2))"

text \<open>
  The slice \<^verbatim>\<open>xs[-n:]\<close> for \<open>n \<ge> 0\<close>: the last \<open>n\<close> elements, and the whole list when
  \<open>n = 0\<close> (since \<^verbatim>\<open>-0\<close> is \<^verbatim>\<open>0\<close>) or when the list is shorter than \<open>n\<close>.
\<close>

definition slice_last :: "nat \<Rightarrow> 'a list \<Rightarrow> 'a list" where
  "slice_last n xs = (if n = 0 then xs else drop (length xs - n) xs)"

text \<open>
  \<^verbatim>\<open>update_state\<close>. The transition's timestamp (a \<^verbatim>\<open>default_factory\<close>) is read when the
  record is built, \<^verbatim>\<open>updated_at\<close> at the end.
\<close>

definition update_state ::
  "ConversationState \<Rightarrow> string \<Rightarrow> ConversationStateManager \<Rightarrow> world
     \<Rightarrow> (bool \<times> ConversationStateManager) \<times> world" where
  "update_state new_state trig m w =
     (if new_state = state (mgr_context m) then ((False, m), w)
      else
        let (t1, w1) = datetime_now w;
            transition = \<lparr>from_state = state (mgr_context m), to_state = new_state,
                          trigger = trig, timestamp = t1\<rparr>;
            hist = state_history m @ [transition];
            hist' = (if length hist > max_history_length m
                     then slice_last (max_history_length m) hist else hist);
            (t2, w2) = datetime_now w1
        in ((True, m\<lparr>state_history := hist',
                      mgr_context := (mgr_context m)\<lparr>previous_state := state (mgr_context m),
                                               state := new_state,
                                               updated_at := t2\<rparr>\<rparr>), w2))"

text \<open>\<^verbatim>\<open>update_dialogue_act\<close>\<close>

definition update_dialogue_act ::
  "DialogueAct \<Rightarrow> ConversationStateManager \<Rightarrow> world
     \<Rightarrow> (bool \<times> ConversationStateManager) \<times> world" where
  "update_dialogue_act act m w =
     (if act = dialogue_act (mgr_context m) then ((False, m), w)
      else
        let (t, w1) = datetime_now w
        in ((True, m\<lparr>mgr_context := (mgr_context m)\<lparr>dialogue_act := act, updated_at := t\<rparr>\<rparr>), w1))"

text \<open>
  One keyword argument of \<^verbatim>\<open>update_context(**kwargs)\<close>: a field of the context with a value
  of the field's type, or a name for which \<^verbatim>\<open>hasattr(self.context, key)\<close> is false
  (\<open>Unknown_field\<close>), which the loop skips. Values of another type than the field's, which
  \<^verbatim>\<open>setattr\<close> would store as they are, and the names of attributes that are not
  fields (the methods every object has) are outside this typed record.
\<close>

datatype field_update =
  Set_user_id string
  | Set_conversation_id string
  | Set_state ConversationState
  | Set_previous_state ConversationState
  | Set_dialogue_act DialogueAct
  | Set_topic string
  | Set_entities "pyval list"
  | Set_user_intent string
  | Set_last_user_input string
  | Set_last_agent_response string
  | Set_turn_count int
  | Set_created_at datetime
  | Set_updated_at datetime
  | Set_metadata "(string \<times> pyval) list"
  | Unknown_field string pyval

fun hasattr_context :: "field_update \<Rightarrow> bool" where
  "hasattr_context (Unknown_field k v) = False"
| "hasattr_context _ = True"

fun setattr_context :: "field_update \<Rightarrow> ConversationContext \<Rightarrow> ConversationContext" where
  "setattr_context (Set_user_id v) c = c\<lparr>user_id := v\<rparr>"
| "setattr_context (Set_conversation_id v) c = c\<lparr>conversation_id := v\<rparr>"
| "setattr_context (Set_state v) c = c\<lparr>state := v\<rparr>"
| "setattr_context (Set_previous_state v) c = c\<lparr>previous_state := v\<rparr>"
| "setattr_context (Set_dialogue_act v) c = c\<lparr>dialogue_act := v\<rparr>"
| "setattr_context (Set_topic v) c = c\<lparr>topic := v\<rparr>"
| "setattr_context (Set_entities v) c = c\<lparr>entities := v\<rparr>"
| "setattr_context (Set_user_intent v) c = c\<lparr>user_intent := v\<rparr>"
| "setattr_context (Set_last_user_input v) c = c\<lparr>last_user_input := v\<rparr>"
| "setattr_context (Set_last_agent_response v) c = c\<lparr>last_agent_response := v\<rparr>"
| "setattr_context (Set_turn_count v) c = c\<lparr>turn_count := v\<rparr>"
| "setattr_context (Set_created_at v) c = c\<lparr>created_at := v\<rparr>"
| "setattr_context (Set_updated_at v) c = c\<lparr>updated_at := v\<rparr>"
| "setattr_context (Set_metadata v) c = c\<lparr>metadata := v\<rparr>"
| "setattr_context (Unknown_field k v) c = c"

text \<open>The loop of \<^verbatim>\<open>update_context\<close> over the keyword arguments, with its flag.\<close>

fun update_context_loop ::
  "field_update list \<Rightarrow> ConversationContext \<Rightarrow> bool \<Rightarrow> ConversationContext \<times> bool" where
  "update_context_loop [] c updated = (c, updated)"
| "update_context_loop (kv # kvs) c updated =
     (if hasattr_context kv then update_context_loop kvs (setattr_context kv c) True
      else update_context_loop kvs c updated)"

definition update_context ::
  "field_update list \<Rightarrow> ConversationStateManager \<Rightarrow> world
     \<Rightarrow> (bool \<times> ConversationStateManager) \<times> world" where
  "update_context kwargs m w =
     (let (c, updated) = update_context_loop kwargs (mgr_context m) False
      in if updated
         then (let (t, w1) = datetime_now w
               in ((True, m\<lparr>mgr_context := c\<lparr>updated_at := t\<rparr>\<rparr>), w1))
         else ((False, m\<lparr>mgr_context := c\<rparr>), w))"

definition get_context :: "ConversationStateManager \<Rightarrow> ConversationContext" where
  "get_context m = mgr_context m"

definition get_state_history :: "ConversationStateManager \<Rightarrow> StateTransition list" where
  "get_state_history m = state_history m"

text \<open>\<^verbatim>\<open>reset_conversation\<close>: a new id, a new context for the manager's user, no history.\<close>

definition reset_conversation ::
  "ConversationStateManager \<Rightarrow> world \<Rightarrow> ConversationStateManager \<times> world" where
  "reset_conversation m w =
     (let (cid, w1) = generate_conversation_id w;
          (ctx, w2) = new_context (mgr_user_id m) cid w1
      in (m\<lparr>mgr_conversation_id := cid, mgr_context := ctx, state_history := []\<rparr>, w2))"

text \<open>A call of one of the four mutating methods, and a sequence of such calls.\<close>

datatype manager_call =
  Update_state ConversationState string
  | Update_dialogue_act DialogueAct
  | Update_context "field_update list"
  | Reset_conversation

fun do_call :: "manager_call \<Rightarrow> ConversationStateManager \<Rightarrow> world
                  \<Rightarrow> ConversationStateManager \<times> world" where
  "do_call (Update_state s trig) m w = (let ((b, m'), w') = update_state s trig m w in (m', w'))"
| "do_call (Update_dialogue_act a) m w = (let ((b, m'), w') = update_dialogue_act a m w in (m', w'))"
| "do_call (Update_context kw) m w = (let ((b, m'), w') = update_context kw m w in (m', w'))"
| "do_call Reset_conversation m w = reset_conversation m w"

fun do_calls :: "manager_call list \<Rightarrow> ConversationStateManager \<Rightarrow> world
                   \<Rightarrow> ConversationStateManager \<times> world" where
  "do_calls [] m w = (m, w)"
| "do_calls (c # cs) m w = (let (m', w') = do_call c m w in do_calls cs m' w')"

text \<open>
  The record of what a call sequence did, kept beside the run and never cut: every
  transition that \<^verbatim>\<open>update_state\<close> accepted (it returned true), in order, and how many of
  them came after the last reset.
\<close>

fun accepted :: "manager_call \<Rightarrow> ConversationStateManager \<Rightarrow> world \<Rightarrow> StateTransition list" where
  "accepted (Update_state s trig) m w =
     (if fst (fst (update_state s trig m w))
      then [\<lparr>from_state = state (mgr_context m), to_state = s, trigger = trig,
              timestamp = fst (datetime_now w)\<rparr>]
      else [])"
| "accepted _ m w = []"

fun transition_log ::
  "manager_call list \<Rightarrow> ConversationStateManager \<Rightarrow> world \<Rightarrow> StateTransition list" where
  "transition_log [] m w = []"
| "transition_log (c # cs) m w =
     accepted c m w @ (let (m', w') = do_call c m w in transition_log cs m' w')"

fun since_reset ::
  "manager_call list \<Rightarrow> ConversationStateManager \<Rightarrow> world \<Rightarrow> nat \<Rightarrow> nat" where
  "since_reset [] m w k = k"
| "since_reset (c # cs) m w k =
     (let (m', w') = do_call c m w
      in since_reset cs m' w' (if c = Reset_conversation then 0 else k + length (accepted c m w)))"

section \<open>Python strings and regular expressions\<close>

text \<open>
  A Python \<^verbatim>\<open>str\<close> is a \<open>string\<close> here: a list of 8-bit characters, read as the code
  points 0 to 255 (Latin-1). On these, \<^verbatim>\<open>str.isspace\<close>, \<^verbatim>\<open>str.lower\<close> and the
  class \<^verbatim>\<open>\w\<close> of \<^verbatim>\<open>re\<close> are the following.
\<close>

definition py_isspace :: "char \<Rightarrow> bool" where
  "py_isspace c = (let n = (of_char c :: nat)
                   in (9 \<le> n \<and> n \<le> 13) \<or> (28 \<le> n \<and> n \<le> 32) \<or> n = 133 \<or> n = 160)"

definition py_lower_char :: "char \<Rightarrow> char" where
  "py_lower_char c = (let n = (of_char c :: nat)
                      in if (65 \<le> n \<and> n \<le> 90) \<or> (192 \<le> n \<and> n \<le> 222 \<and> n \<noteq> 215)
                         then char_of (n + 32) else c)"

definition py_lower :: "string \<Rightarrow> string" where
  "py_lower s = map py_lower_char s"

definition py_strip :: "string \<Rightarrow> string" where
  "py_strip s = rev (dropWhile py_isspace (rev (dropWhile py_isspace s)))"

definition is_word_char :: "char \<Rightarrow> bool" where
  "is_word_char c = (let n = (of_char c :: nat)
     in (48 \<le> n \<and> n \<le> 57) \<or> (65 \<le> n \<and> n \<le> 90) \<or> n = 95 \<or> (97 \<le> n \<and> n \<le> 122)
        \<or> n = 170 \<or> n = 178 \<or> n = 179 \<or> n = 181 \<or> n = 185 \<or> n = 186
        \<or> (188 \<le> n \<and> n \<le> 190) \<or> (192 \<le> n \<and> n \<le> 214) \<or> (216 \<le> n \<and> n \<le> 246)
        \<or> (248 \<le> n \<and> n \<le> 255))"

text \<open>
  The same three functions on the eight bits of a character (\<open>b0\<close> the lowest): decision
  trees, for evaluating the model on concrete text without arithmetic. An uppercase letter
  becomes its lowercase letter by setting bit 5.
\<close>

definition isspace_bits :: "bool \<Rightarrow> bool \<Rightarrow> bool \<Rightarrow> bool \<Rightarrow> bool \<Rightarrow> bool \<Rightarrow> bool \<Rightarrow> bool \<Rightarrow> bool" where
  "isspace_bits b0 b1 b2 b3 b4 b5 b6 b7 =
     (if b7 then (\<not> b6 \<and> (if b5 then (\<not> b4 \<and> (\<not> b3 \<and> (\<not> b2
     \<and> (\<not> b1 \<and> \<not> b0)))) else (\<not> b4 \<and> (\<not> b3 \<and> (b2
     \<and> (\<not> b1 \<and> b0)))))) else (\<not> b6 \<and> (if b5 then (\<not> b4 \<and>
     (\<not> b3 \<and> (\<not> b2 \<and> (\<not> b1 \<and> \<not> b0)))) else (if b4 then (b3
     \<and> b2) else (b3 \<and> (if b2 then \<not> b1 else (b1 \<or> b0)))))))"

definition isupper_bits :: "bool \<Rightarrow> bool \<Rightarrow> bool \<Rightarrow> bool \<Rightarrow> bool \<Rightarrow> bool \<Rightarrow> bool \<Rightarrow> bool \<Rightarrow> bool" where
  "isupper_bits b0 b1 b2 b3 b4 b5 b6 b7 =
     (if b7 then (b6 \<and> (\<not> b5 \<and> (\<not> b4 \<or> (if b3 then (\<not> b2 \<or>
     (\<not> b1 \<or> \<not> b0)) else (\<not> b2 \<or> (\<not> b1 \<or> \<not> b0)))))) else
     (b6 \<and> (\<not> b5 \<and> (if b4 then (\<not> b3 \<or> (\<not> b2 \<and> (\<not> b1
     \<or> \<not> b0))) else (b3 \<or> (b2 \<or> (b1 \<or> b0)))))))"

definition is_word_bits :: "bool \<Rightarrow> bool \<Rightarrow> bool \<Rightarrow> bool \<Rightarrow> bool \<Rightarrow> bool \<Rightarrow> bool \<Rightarrow> bool \<Rightarrow> bool" where
  "is_word_bits b0 b1 b2 b3 b4 b5 b6 b7 =
     (if b7 then (if b6 then (if b5 then (\<not> b4 \<or> (b3 \<or> (\<not> b2 \<or> (\<not>
     b1 \<or> \<not> b0)))) else (\<not> b4 \<or> (b3 \<or> (\<not> b2 \<or> (\<not> b1 \<or>
     \<not> b0))))) else (b5 \<and> (if b4 then (if b3 then (if b2 then (\<not> b1 \<or>
     \<not> b0) else (if b1 then \<not> b0 else b0)) else (if b2 then (\<not> b1 \<and> b0)
     else b1)) else (b3 \<and> (\<not> b2 \<and> (b1 \<and> \<not> b0)))))) else (if b6 then
     (if b5 then (if b4 then (\<not> b3 \<or> (\<not> b2 \<and> (\<not> b1 \<or> \<not> b0)))
     else (b3 \<or> (b2 \<or> (b1 \<or> b0)))) else (if b4 then (\<not> b3 \<or> (if b2 then
     (b1 \<and> b0) else (\<not> b1 \<or> \<not> b0))) else (b3 \<or> (b2 \<or> (b1 \<or>
     b0))))) else (b5 \<and> (b4 \<and> (\<not> b3 \<or> (\<not> b2 \<and> \<not> b1))))))"

text \<open>\<^verbatim>\<open>s.endswith(t)\<close>, \<^verbatim>\<open>t in s\<close>, \<^verbatim>\<open>s.find(t)\<close> and the slice \<^verbatim>\<open>s[i:j]\<close> for \<open>0 \<le> i\<close>, \<open>0 \<le> j\<close>.\<close>

definition py_endswith :: "string \<Rightarrow> string \<Rightarrow> bool" where
  "py_endswith s t = (length t \<le> length s \<and> drop (length s - length t) s = t)"

fun find_from :: "string \<Rightarrow> string \<Rightarrow> nat \<Rightarrow> int" where
  "find_from t [] pos = (if t = [] then int pos else - 1)"
| "find_from t (c # cs) pos =
     (if take (length t) (c # cs) = t then int pos else find_from t cs (Suc pos))"

definition py_find :: "string \<Rightarrow> string \<Rightarrow> int" where
  "py_find s t = find_from t s 0"

definition py_in :: "string \<Rightarrow> string \<Rightarrow> bool" where
  "py_in t s = (py_find s t \<noteq> - 1)"

definition py_slice :: "string \<Rightarrow> nat \<Rightarrow> nat \<Rightarrow> string" where
  "py_slice s i j = take (j - i) (drop i s)"

text \<open>
  The regular expressions of the pattern tables, as syntax trees: \<open>Str\<close> a sequence of
  literal characters, \<open>Dot\<close> is \<^verbatim>\<open>.\<close>, \<open>Space\<close> is \<^verbatim>\<open>\s\<close>, \<open>WordB\<close> is \<^verbatim>\<open>\b\<close>, \<open>Eol\<close> is
  \<^verbatim>\<open>$\<close>, \<open>Star\<close>, \<open>Plus\<close> and \<open>Opt\<close> are the greedy \<^verbatim>\<open>*\<close>, \<^verbatim>\<open>+\<close> and \<^verbatim>\<open>?\<close>.
\<close>

datatype regex =
  Eps | Str string | Dot | Space | WordB | Eol
  | Seq regex regex | Alt regex regex | Star regex | Plus regex | Opt regex

text \<open>
  A position of the matcher in the subject: the character before it, if any, and the rest
  of the subject from it.
\<close>

type_synonym mstate = "char option \<times> string"

text \<open>Literal characters, compared without case as under \<^verbatim>\<open>re.IGNORECASE\<close>.\<close>

fun match_str :: "string \<Rightarrow> mstate \<Rightarrow> mstate list" where
  "match_str [] st = [st]"
| "match_str (c # cs) (p, []) = []"
| "match_str (c # cs) (p, x # xs) =
     (if py_lower_char x = py_lower_char c then match_str cs (Some x, xs) else [])"

text \<open>
  Greedy repetition: after each way of matching the body once more (it must consume a
  character), the further repetitions, and last the way that stops here. The number of
  rounds is bounded by the length of the rest of the subject, which each round shortens.
\<close>

fun star_iter :: "(mstate \<Rightarrow> mstate list) \<Rightarrow> nat \<Rightarrow> mstate \<Rightarrow> mstate list" where
  "star_iter step 0 st = [st]"
| "star_iter step (Suc n) st =
     concat (map (\<lambda>st'. if length (snd st') < length (snd st) then star_iter step n st' else [])
                 (step st)) @ [st]"

definition at_boundary :: "mstate \<Rightarrow> bool" where
  "at_boundary st =
     ((case fst st of None \<Rightarrow> False | Some c \<Rightarrow> is_word_char c)
      \<noteq> (case snd st of [] \<Rightarrow> False | c # cs \<Rightarrow> is_word_char c))"

text \<open>
  The backtracking matcher: every position at which a match of the expression that starts
  at the given position can end, in the order in which backtracking tries them (first
  alternative first, longest repetition first).
\<close>

fun rmatch :: "regex \<Rightarrow> mstate \<Rightarrow> mstate list" where
  "rmatch Eps st = [st]"
| "rmatch (Str s) st = match_str s st"
| "rmatch Dot st =
     (case snd st of [] \<Rightarrow> [] | x # xs \<Rightarrow> if x = CHR 0x0A then [] else [(Some x, xs)])"
| "rmatch Space st =
     (case snd st of [] \<Rightarrow> [] | x # xs \<Rightarrow> if py_isspace x then [(Some x, xs)] else [])"
| "rmatch WordB st = (if at_boundary st then [st] else [])"
| "rmatch Eol st = (if snd st = [] \<or> snd st = [CHR 0x0A] then [st] else [])"
| "rmatch (Seq a b) st = concat (map (rmatch b) (rmatch a st))"
| "rmatch (Alt a b) st = rmatch a st @ rmatch b st"
| "rmatch (Star a) st = star_iter (rmatch a) (length (snd st)) st"
| "rmatch (Plus a) st =
     concat (map (\<lambda>st'. star_iter (rmatch a) (length (snd st')) st') (rmatch a st))"
| "rmatch (Opt a) st = rmatch a st @ [st]"

text \<open>
  The leftmost match at or after a position: how many characters are skipped before it
  and how long it is.
\<close>

fun search_from :: "regex \<Rightarrow> char option \<Rightarrow> string \<Rightarrow> (nat \<times> nat) option" where
  "search_from r prev cs =
     (case rmatch r (prev, cs) of
        st # _ \<Rightarrow> Some (0, length cs - length (snd st))
      | [] \<Rightarrow> (case cs of
                 [] \<Rightarrow> None
               | c # cs' \<Rightarrow> map_option (\<lambda>(k, l). (Suc k, l)) (search_from r (Some c) cs')))"

text \<open>\<^verbatim>\<open>re.search(p, s)\<close> and \<^verbatim>\<open>re.fullmatch(p, s)\<close>, as the truth value of their result.\<close>

definition re_search :: "regex \<Rightarrow> string \<Rightarrow> bool" where
  "re_search r s = (search_from r None s \<noteq> None)"

definition re_fullmatch :: "regex \<Rightarrow> string \<Rightarrow> bool" where
  "re_fullmatch r s = list_ex (\<lambda>st. snd st = []) (rmatch r (None, s))"

definition prev_at :: "string \<Rightarrow> nat \<Rightarrow> char option" where
  "prev_at s pos = (if pos = 0 then None else Some (s ! (pos - 1)))"

text \<open>
  \<^verbatim>\<open>re.finditer(p, s)\<close>: the spans of the successive non-overlapping matches, each search
  resuming where the last match ended (one character further after an empty match).
\<close>

function finditer_at :: "regex \<Rightarrow> string \<Rightarrow> nat \<Rightarrow> (nat \<times> nat) list" where
  "finditer_at r s pos =
     (if length s < pos then []
      else case search_from r (prev_at s pos) (drop pos s) of
             None \<Rightarrow> []
           | Some (k, l) \<Rightarrow>
               (pos + k, pos + k + l) # finditer_at r s (pos + k + (if l = 0 then 1 else l)))"
  by pat_completeness auto
termination
  by (relation "measure (\<lambda>(r, s, pos). Suc (length s) - pos)") auto

declare finditer_at.simps [simp del]

definition re_finditer :: "regex \<Rightarrow> string \<Rightarrow> (nat \<times> nat) list" where
  "re_finditer r s = finditer_at r s 0"

text \<open>Concatenation and alternation of several expressions, and an alternation of words.\<close>

definition cat :: "regex list \<Rightarrow> regex" where
  "cat rs = foldr Seq rs Eps"

fun alts :: "regex list \<Rightarrow> regex" where
  "alts [] = Eps"
| "alts [r] = r"
| "alts (r # rs) = Alt r (alts rs)"

definition words :: "string list \<Rightarrow> regex" where
  "words ws = alts (map Str ws)"

section \<open>Dialogue act recognition (dialogue_act.py)\<close>

text \<open>
  The pattern table of \<^verbatim>\<open>DialogueActRecognizer.__init__\<close>, in the dictionary's insertion
  order. Confidences are rational numbers here: the code's floats are the literals
  0.0, 0.1, 0.7 and 0.9, which it only compares.
\<close>

definition dialogue_patterns :: "(DialogueAct \<times> regex list) list" where
  "dialogue_patterns =
     [(DA_GREETING,
         [cat [WordB, alts [Str ''hello'', Str ''hi'', Str ''hey'',
                            cat [Str ''good'', Plus Space,
                                 words [''morning'', ''afternoon'', ''evening'']]], WordB],
          cat [WordB, Str ''howdy'', WordB],
          cat [WordB, Str ''what'', Opt (Str [CHR 0x27]), Str ''s'', Plus Space, Str ''up'',
               WordB]]),
      (DA_CLOSING,
         [cat [WordB, alts [Str ''bye'', Str ''goodbye'',
                            cat [Str ''see'', Plus Space, Str ''you''],
                            Str ''farewell'', Str ''quit'', Str ''exit''], WordB],
          cat [WordB, alts [cat [Str ''that'', Opt (Str [CHR 0x27]), Str ''s'', Plus Space,
                                 Str ''all''],
                            cat [Str ''that'', Opt (Str [CHR 0x27]), Str ''s'', Plus Space,
                                 Str ''it'']], WordB]]),
      (DA_QUESTION,
         [cat [WordB, words [''what'', ''where'', ''when'', ''why'', ''how'', ''who'', ''which'',
                             ''whose'', ''whom''], WordB, Star Dot, Str ''?''],
          cat [WordB, words [''could'', ''would'', ''can'', ''will'', ''shall'', ''do'', ''does'',
                             ''did'', ''is'', ''are'', ''was'', ''were''], WordB, Star Dot,
               Str ''?''],
          cat [Star Dot, Str ''?'', Eol]]),
      (DA_REQUEST,
         [cat [WordB, words [''please'', ''could you'', ''would you'', ''can you'', ''help me''],
               WordB],
          cat [WordB, words [''i need'', ''i want'', ''i would like''], WordB],
          cat [WordB, words [''tell me'', ''show me'', ''give me'', ''find me''], WordB]]),
      (DA_CONFIRMATION,
         [cat [WordB, words [''yes'', ''yeah'', ''yep'', ''sure'', ''ok'', ''okay'', ''right'',
                             ''correct'', ''affirmative''], WordB],
          cat [WordB, words [''no'', ''nope'', ''negative''], WordB]]),
      (DA_CLARIFICATION,
         [cat [WordB, words [''what do you mean'', ''can you explain'', ''what exactly'',
                             ''sorry''], WordB],
          cat [WordB, alts [cat [Str ''i don'', Opt (Str [CHR 0x27]), Str ''t understand''],
                            cat [Str ''i'', Opt (Str [CHR 0x27]), Str ''m confused'']], WordB]]),
      (DA_ACKNOWLEDGMENT,
         [cat [WordB, words [''i see'', ''i understand'', ''got it'', ''okay'', ''ok'', ''right''],
               WordB],
          cat [WordB, words [''thanks'', ''thank you'', ''appreciate it''], WordB]])]"

text \<open>\<^verbatim>\<open>_calculate_pattern_score\<close>: the loop returns at the first pattern that is found.\<close>

fun calculate_pattern_score :: "string \<Rightarrow> regex list \<Rightarrow> rat" where
  "calculate_pattern_score text [] = 0"
| "calculate_pattern_score text (pattern # patterns) =
     (if re_search pattern text
      then (if re_fullmatch pattern text then 9 / 10 else 7 / 10)
      else calculate_pattern_score text patterns)"

text \<open>The loop of \<^verbatim>\<open>recognize_act\<close> over the table, with the best pair so far.\<close>

fun recognize_loop ::
  "(DialogueAct \<times> regex list) list \<Rightarrow> string \<Rightarrow> DialogueAct \<times> rat \<Rightarrow> DialogueAct \<times> rat" where
  "recognize_loop [] text best = best"
| "recognize_loop ((act, patterns) # rest) text (best_act, best_score) =
     (let score = calculate_pattern_score text patterns
      in if score > best_score then recognize_loop rest text (act, score)
         else recognize_loop rest text (best_act, best_score))"

definition recognize_act :: "string \<Rightarrow> DialogueAct \<times> rat" where
  "recognize_act text =
     (let text_lower = py_strip (py_lower text)
      in if text_lower = [] then (DA_ERROR, 0)
         else recognize_loop dialogue_patterns text_lower (DA_STATEMENT, 1 / 10))"

text \<open>The patterns of one act (\<^verbatim>\<open>self.patterns.get(act, [])\<close>), and the members of the enumeration.\<close>

definition patterns_of :: "DialogueAct \<Rightarrow> regex list" where
  "patterns_of act = (case map_of dialogue_patterns act of Some ps \<Rightarrow> ps | None \<Rightarrow> [])"

definition all_dialogue_acts :: "DialogueAct list" where
  "all_dialogue_acts = [DA_GREETING, DA_QUESTION, DA_STATEMENT, DA_REQUEST, DA_CONFIRMATION,
                        DA_CLARIFICATION, DA_ACKNOWLEDGMENT, DA_CLOSING, DA_ERROR]"

section \<open>Floating-point numbers\<close>

text \<open>
  A Python \<^verbatim>\<open>float\<close> is an IEEE 754 double. Here it is the rational number that the double
  denotes, so that comparisons are those of the doubles, and every literal, sum and
  difference of the code is rounded to the nearest double, to the even significand at a
  tie. Overflow and subnormal numbers, which the code's values between 0 and 1 never reach,
  are not modelled.
\<close>

text \<open>The number of binary digits of a positive integer (Python's \<^verbatim>\<open>int.bit_length\<close>).\<close>

function bit_length :: "int \<Rightarrow> int" where
  "bit_length n = (if n \<le> 0 then 0 else 1 + bit_length (n div 2))"
  by pat_completeness auto
termination
  by (relation "measure nat") auto

declare bit_length.simps [simp del]

text \<open>The power \<open>2 ^ k\<close> of a natural exponent \<open>k\<close>.\<close>

function pow2 :: "int \<Rightarrow> int" where
  "pow2 k = (if k \<le> 0 then 1 else 2 * pow2 (k - 1))"
  by pat_completeness auto
termination
  by (relation "measure nat") auto

declare pow2.simps [simp del]

text \<open>
  For positive \<open>p\<close> and \<open>q\<close>, the exponent \<open>e\<close> with \<open>2 ^ e \<le> p / q < 2 ^ (e + 1)\<close>: the
  difference \<open>d\<close> of the bit lengths, or \<open>d - 1\<close>.
\<close>

definition binary_exponent :: "int \<Rightarrow> int \<Rightarrow> int" where
  "binary_exponent p q =
     (let d = bit_length p - bit_length q
      in if (if 0 \<le> d then q * pow2 d \<le> p else q \<le> p * pow2 (- d)) then d else d - 1)"

text \<open>For \<open>n \<ge> 0\<close> and \<open>d > 0\<close>, the integer nearest to \<open>n / d\<close>, the even one at a tie.\<close>

definition round_half_even :: "int \<Rightarrow> int \<Rightarrow> int" where
  "round_half_even n d =
     (let f = n div d; r = n mod d
      in if 2 * r < d then f else if d < 2 * r then f + 1 else if even f then f else f + 1)"

text \<open>The number \<open>m * 2 ^ k\<close>.\<close>

definition scale :: "int \<Rightarrow> int \<Rightarrow> rat" where
  "scale m k = (if 0 \<le> k then of_int (m * pow2 k) else Fract m (pow2 (- k)))"

text \<open>
  The nearest double of a rational number \<open>p / q\<close>: with \<open>e\<close> its binary exponent, the doubles
  around it are the multiples of \<open>2 ^ (e - 52)\<close>, those with a significand of 53 bits.
\<close>

definition round_double :: "rat \<Rightarrow> rat" where
  "round_double x =
     (let (p, q) = quotient_of x
      in if p = 0 then 0
         else (let a = \<bar>p\<bar>; k = binary_exponent a q - 52;
                   m = (if 0 \<le> k then round_half_even a (q * pow2 k)
                        else round_half_even (a * pow2 (- k)) q)
               in scale (sgn p * m) k))"

text \<open>A decimal literal, the sum and the difference of two doubles.\<close>

definition fl :: "rat \<Rightarrow> rat" where
  "fl r = round_double r"

definition fadd :: "rat \<Rightarrow> rat \<Rightarrow> rat" where
  "fadd x y = round_double (x + y)"

definition fsub :: "rat \<Rightarrow> rat \<Rightarrow> rat" where
  "fsub x y = round_double (x - y)"

section \<open>Ambiguity detection (ambiguity_detector.py)\<close>

datatype AmbiguityType =
  ENTITY_AMBIGUITY | SCOPE_AMBIGUITY | INTENT_AMBIGUITY | TEMPORAL_AMBIGUITY
  | QUANTIFIER_AMBIGUITY | REFERENCE_AMBIGUITY | CONTEXT_AMBIGUITY

fun ambiguity_value :: "AmbiguityType \<Rightarrow> string" where
  "ambiguity_value ENTITY_AMBIGUITY = ''entity_ambiguity''"
| "ambiguity_value SCOPE_AMBIGUITY = ''scope_ambiguity''"
| "ambiguity_value INTENT_AMBIGUITY = ''intent_ambiguity''"
| "ambiguity_value TEMPORAL_AMBIGUITY = ''temporal_ambiguity''"
| "ambiguity_value QUANTIFIER_AMBIGUITY = ''quantifier_ambiguity''"
| "ambiguity_value REFERENCE_AMBIGUITY = ''reference_ambiguity''"
| "ambiguity_value CONTEXT_AMBIGUITY = ''context_ambiguity''"

text \<open>
  The dataclass \<^verbatim>\<open>AmbiguityDetection\<close>; its field \<^verbatim>\<open>type\<close> is \<open>amb_type\<close>. The confidence
  is a double: every literal of the code is rounded by \<open>fl\<close>, and every sum and difference
  by \<open>fadd\<close> and \<open>fsub\<close>, so that \<^verbatim>\<open>0.7 + 0.1\<close> is the double below \<^verbatim>\<open>0.8\<close>, as in the code.
\<close>

record AmbiguityDetection =
  amb_type :: AmbiguityType
  confidence :: rat
  description :: string
  position :: "int \<times> int"
  suggested_clarification :: string

text \<open>The pattern table of \<^verbatim>\<open>AmbiguityDetector.__init__\<close>, in insertion order.\<close>

definition ambiguity_patterns :: "(AmbiguityType \<times> regex list) list" where
  "ambiguity_patterns =
     [(ENTITY_AMBIGUITY,
         [cat [WordB, words [''it'', ''this'', ''that'', ''these'', ''those''], WordB],
          cat [WordB, words [''he'', ''she'', ''they'', ''them'', ''we'', ''us''], WordB],
          cat [WordB, words [''the thing'', ''the stuff'', ''this one'', ''that one''], WordB]]),
      (SCOPE_AMBIGUITY,
         [cat [WordB, words [''all'', ''everything'', ''everywhere''], WordB],
          cat [WordB, words [''some'', ''a few'', ''several''], WordB, Star Dot, WordB,
               cat [Str ''of '', words [''them'', ''it'', ''this'']], WordB],
          cat [WordB, words [''part of'', ''some of'', ''a bit of''], WordB],
          cat [WordB, Str ''a few of those things'', WordB]]),
      (INTENT_AMBIGUITY,
         [cat [WordB, words [''help me'', ''can you'', ''could you'', ''would you''], WordB,
               Star Dot, Str ''?'', Eol],
          cat [WordB, words [''i need'', ''i want''], WordB, Star Dot, Str ''?'', Eol],
          cat [WordB, words [''what about'', ''how about''], WordB],
          cat [WordB, Str ''i need help with this'', WordB]]),
      (TEMPORAL_AMBIGUITY,
         [cat [WordB, words [''sometimes'', ''often'', ''usually'', ''occasionally''], WordB],
          cat [WordB, words [''later'', ''soon'', ''in a bit'', ''in a moment''], WordB],
          cat [WordB, words [''when'', ''whenever'', ''while''], WordB, Star Dot, Str ''?''],
          cat [WordB, words [''recently'', ''lately'', ''before'', ''afterwards''], WordB]]),
      (QUANTIFIER_AMBIGUITY,
         [cat [WordB, words [''a lot of'', ''a bunch of'', ''a lot'', ''many'', ''much''], WordB],
          cat [WordB, words [''few'', ''a few'', ''several'', ''some''], WordB],
          cat [WordB, words [''enough'', ''too much'', ''too many''], WordB]]),
      (REFERENCE_AMBIGUITY,
         [cat [WordB, words [''this'', ''that'', ''these'', ''those''], WordB, Star Dot,
               Str ''?''],
          cat [WordB, words [''he'', ''she'', ''it'', ''they'', ''them''], WordB, Star Dot,
               Str ''?''],
          cat [WordB, words [''one'', ''ones''], WordB, Star Dot, WordB,
               words [''refer to'', ''mean'', ''talking about''], WordB]]),
      (CONTEXT_AMBIGUITY,
         [cat [WordB, words [''in that case'', ''given that'', ''considering that''], WordB],
          cat [WordB, words [''as we discussed'', ''as mentioned'', ''like before''], WordB],
          cat [WordB, words [''based on'', ''according to''], WordB, Star Dot, WordB,
               words [''you'', ''your'', ''previous''], WordB]])]"

text \<open>The two entries of \<^verbatim>\<open>ambiguity_indicators\<close> that the detector reads.\<close>

definition vague_terms :: "string list" where
  "vague_terms = [''thing'', ''stuff'', ''something'', ''someone'', ''somewhere'', ''somehow'']"

definition incomplete_phrases :: "string list" where
  "incomplete_phrases = [''i want'', ''i need'', ''help me'', ''can you'', ''could you'']"

text \<open>\<^verbatim>\<open>_calculate_confidence\<close>\<close>

fun base_confidence :: "AmbiguityType \<Rightarrow> rat" where
  "base_confidence ENTITY_AMBIGUITY = fl (7 / 10)"
| "base_confidence SCOPE_AMBIGUITY = fl (6 / 10)"
| "base_confidence INTENT_AMBIGUITY = fl (8 / 10)"
| "base_confidence TEMPORAL_AMBIGUITY = fl (6 / 10)"
| "base_confidence QUANTIFIER_AMBIGUITY = fl (5 / 10)"
| "base_confidence REFERENCE_AMBIGUITY = fl (7 / 10)"
| "base_confidence CONTEXT_AMBIGUITY = fl (6 / 10)"

definition calculate_confidence :: "AmbiguityType \<Rightarrow> string \<Rightarrow> string \<Rightarrow> rat" where
  "calculate_confidence ambiguity_type matched_text text_lower =
     (let adjustment0 = fl 0;
          adjustment1 = (if py_endswith text_lower matched_text \<and> py_in ''?'' text_lower
                         then fadd adjustment0 (fl (1 / 10)) else adjustment0);
          adjustment2 = (if length text_lower < 10 then fsub adjustment1 (fl (2 / 10))
                         else adjustment1);
          c = fadd (base_confidence ambiguity_type) adjustment2
      in max (fl 0) (min (fl 1) c))"

text \<open>\<^verbatim>\<open>_generate_description_and_clarification\<close>\<close>

fun generate_description_and_clarification ::
  "AmbiguityType \<Rightarrow> string \<Rightarrow> string \<times> string" where
  "generate_description_and_clarification ENTITY_AMBIGUITY mt =
     (''Unclear reference to '' @ [CHR 0x27] @ mt @ [CHR 0x27],
      ''Could you be more specific about what you're referring to?'')"
| "generate_description_and_clarification SCOPE_AMBIGUITY mt =
     (''Unclear scope with '' @ [CHR 0x27] @ mt @ [CHR 0x27],
      ''Could you clarify what you mean by that?'')"
| "generate_description_and_clarification INTENT_AMBIGUITY mt =
     (''Unclear intent with '' @ [CHR 0x27] @ mt @ [CHR 0x27],
      ''What exactly would you like me to help you with?'')"
| "generate_description_and_clarification TEMPORAL_AMBIGUITY mt =
     (''Unclear timing with '' @ [CHR 0x27] @ mt @ [CHR 0x27],
      ''When are you referring to?'')"
| "generate_description_and_clarification QUANTIFIER_AMBIGUITY mt =
     (''Unclear quantity with '' @ [CHR 0x27] @ mt @ [CHR 0x27],
      ''How much or how many are you referring to?'')"
| "generate_description_and_clarification REFERENCE_AMBIGUITY mt =
     (''Unclear reference to '' @ [CHR 0x27] @ mt @ [CHR 0x27],
      ''What specifically are you referring to?'')"
| "generate_description_and_clarification CONTEXT_AMBIGUITY mt =
     (''Missing context with '' @ [CHR 0x27] @ mt @ [CHR 0x27],
      ''Could you provide more context for your request?'')"

text \<open>
  \<^verbatim>\<open>_create_ambiguity_detection\<close>, from the span of the match. The span is one of the
  lowercased trimmed text; the matched text is cut from the original text.
\<close>

definition create_ambiguity_detection ::
  "AmbiguityType \<Rightarrow> nat \<times> nat \<Rightarrow> string \<Rightarrow> string \<Rightarrow> AmbiguityDetection" where
  "create_ambiguity_detection ambiguity_type match_span text text_lower =
     (let (start, end) = match_span;
          matched_text = py_slice text start end;
          c = calculate_confidence ambiguity_type matched_text text_lower;
          (d, clarification) = generate_description_and_clarification ambiguity_type matched_text
      in \<lparr>amb_type = ambiguity_type, confidence = c, description = d,
          position = (int start, int end), suggested_clarification = clarification\<rparr>)"

text \<open>The three nested loops over the table, the patterns of a type and the matches.\<close>

definition detect_pattern_ambiguities :: "string \<Rightarrow> string \<Rightarrow> AmbiguityDetection list" where
  "detect_pattern_ambiguities text text_lower =
     concat (map (\<lambda>(ambiguity_type, patterns).
               concat (map (\<lambda>pattern.
                         map (\<lambda>m. create_ambiguity_detection ambiguity_type m text text_lower)
                             (re_finditer pattern text_lower))
                       patterns))
             ambiguity_patterns)"

text \<open>\<^verbatim>\<open>_detect_keyword_ambiguities\<close>\<close>

definition detect_keyword_ambiguities :: "string \<Rightarrow> AmbiguityDetection list" where
  "detect_keyword_ambiguities text_lower =
     concat (map (\<lambda>term.
               if py_in term text_lower
               then (let start = py_find text_lower term; end = start + int (length term)
                     in [\<lparr>amb_type = ENTITY_AMBIGUITY, confidence = fl (6 / 10),
                          description = ''Vague term '' @ [CHR 0x27] @ term @ [CHR 0x27] @ '' used'',
                          position = (start, end),
                          suggested_clarification =
                            ''Could you be more specific about what you mean?''\<rparr>])
               else [])
             vague_terms)
     @ concat (map (\<lambda>phrase.
               if py_endswith text_lower phrase
               then (let start = py_find text_lower phrase; end = start + int (length phrase)
                     in [\<lparr>amb_type = INTENT_AMBIGUITY, confidence = fl (8 / 10),
                          description = ''Incomplete request ending with '' @ [CHR 0x27] @ phrase
                                        @ [CHR 0x27],
                          position = (start, end),
                          suggested_clarification =
                            ''What specifically would you like me to do?''\<rparr>])
               else [])
             incomplete_phrases)"

text \<open>\<^verbatim>\<open>_detect_dialogue_act_ambiguity\<close>\<close>

definition detect_dialogue_act_ambiguity :: "string \<Rightarrow> AmbiguityDetection option" where
  "detect_dialogue_act_ambiguity text =
     (let text_lower = py_strip (py_lower text)
      in if py_endswith text_lower ''?''
            \<and> list_ex (\<lambda>indicator. py_in indicator text_lower) [''what'', ''how'', ''which'']
            \<and> \<not> list_ex (\<lambda>term. py_in term text_lower)
                   [''name'', ''date'', ''time'', ''place'', ''number'', ''amount'']
         then Some \<lparr>amb_type = INTENT_AMBIGUITY, confidence = fl (7 / 10),
                    description = ''General question without specific details'',
                    position = (0, int (length text)),
                    suggested_clarification =
                      ''Could you be more specific about what information you're looking for?''\<rparr>
         else None)"

text \<open>\<^verbatim>\<open>_remove_duplicates\<close>: the loop with its set of seen keys and its result list.\<close>

definition pos_key :: "AmbiguityDetection \<Rightarrow> int \<times> int \<times> string" where
  "pos_key a = (fst (position a), snd (position a), ambiguity_value (amb_type a))"

fun remove_duplicates_loop ::
  "AmbiguityDetection list \<Rightarrow> (int \<times> int \<times> string) set \<Rightarrow> AmbiguityDetection list
     \<Rightarrow> AmbiguityDetection list" where
  "remove_duplicates_loop [] seen_positions unique_ambiguities = unique_ambiguities"
| "remove_duplicates_loop (ambiguity # rest) seen_positions unique_ambiguities =
     (if pos_key ambiguity \<notin> seen_positions
      then remove_duplicates_loop rest (insert (pos_key ambiguity) seen_positions)
             (unique_ambiguities @ [ambiguity])
      else remove_duplicates_loop rest seen_positions unique_ambiguities)"

definition remove_duplicates :: "AmbiguityDetection list \<Rightarrow> AmbiguityDetection list" where
  "remove_duplicates ambiguities = remove_duplicates_loop ambiguities {} []"

text \<open>
  The list \<^verbatim>\<open>ambiguities\<close> of \<^verbatim>\<open>detect_ambiguities\<close> before duplicates are removed: the
  detections of the three scans, one after the other.
\<close>

definition collect_ambiguities :: "string \<Rightarrow> AmbiguityDetection list" where
  "collect_ambiguities text =
     (let text_lower = py_strip (py_lower text)
      in detect_pattern_ambiguities text text_lower
         @ detect_keyword_ambiguities text_lower
         @ (case detect_dialogue_act_ambiguity text of None \<Rightarrow> [] | Some a \<Rightarrow> [a]))"

text \<open>
  \<^verbatim>\<open>list.sort(key=lambda x: x.confidence, reverse=True)\<close>: a stable sort, largest
  confidence first.
\<close>

definition sort_by_confidence :: "AmbiguityDetection list \<Rightarrow> AmbiguityDetection list" where
  "sort_by_confidence xs = sort_key (\<lambda>a. - confidence a) xs"

definition detect_ambiguities :: "string \<Rightarrow> AmbiguityDetection list" where
  "detect_ambiguities text = sort_by_confidence (remove_duplicates (collect_ambiguities text))"

section \<open>Exceptions, random choice and string formatting\<close>

text \<open>The exceptions that the modelled code can raise, as values.\<close>

datatype py_error = IndexError | KeyError | ValueError | TypeError

text \<open>
  \<^verbatim>\<open>random.choice(seq)\<close>: IndexError on an empty sequence, else the element at a random
  index below the length, drawn from the generator.
\<close>

definition random_choice :: "'a list \<Rightarrow> world \<Rightarrow> (py_error + 'a) \<times> world" where
  "random_choice xs w =
     (if xs = [] then (Inl IndexError, w)
      else (Inr (xs ! (rng w (rng_draws w) mod length xs)), w\<lparr>rng_draws := Suc (rng_draws w)\<rparr>))"

text \<open>
  \<^verbatim>\<open>s.replace(old, new)\<close>: every occurrence of \<open>old\<close>, found from left to right without
  overlap; an empty \<open>old\<close> matches before every character and at the end.
\<close>

function py_replace :: "string \<Rightarrow> string \<Rightarrow> string \<Rightarrow> string" where
  "py_replace s old new =
     (if old = [] then new @ concat (map (\<lambda>c. c # new) s)
      else case s of
             [] \<Rightarrow> []
           | c # cs \<Rightarrow>
               if take (length old) s = old then new @ py_replace (drop (length old) s) old new
               else c # py_replace cs old new)"
  by pat_completeness auto
termination
  by (relation "measure (\<lambda>(s, old, new). length s)") auto

declare py_replace.simps [simp del]

text \<open>\<^verbatim>\<open>sep.join(xs)\<close> and \<^verbatim>\<open>str(n)\<close> for an integer.\<close>

fun py_join :: "string \<Rightarrow> string list \<Rightarrow> string" where
  "py_join sep [] = []"
| "py_join sep [x] = x"
| "py_join sep (x # xs) = x @ sep @ py_join sep xs"

definition digit_char :: "nat \<Rightarrow> char" where
  "digit_char d = ''0123456789'' ! d"

function str_nat :: "nat \<Rightarrow> string" where
  "str_nat n = (if n < 10 then [digit_char n] else str_nat (n div 10) @ [digit_char (n mod 10)])"
  by pat_completeness auto
termination
  by (relation "measure id") auto

declare str_nat.simps [simp del]

definition py_str :: "int \<Rightarrow> string" where
  "py_str i = (if i < 0 then ''-'' @ str_nat (nat (- i)) else str_nat (nat i))"

section \<open>Question generation (question_generator.py)\<close>

text \<open>The template tables of \<^verbatim>\<open>QuestionGenerator.__init__\<close>.\<close>

definition question_templates :: "(AmbiguityType \<times> string list) list" where
  "question_templates =
     [(ENTITY_AMBIGUITY,
         [''Could you be more specific about what you're referring to?'',
          ''What exactly are you talking about?'',
          ''Can you clarify what you mean by that?'',
          ''Which specific {entity} are you referring to?'',
          ''I'm not sure what you mean. Could you provide more details?'']),
      (SCOPE_AMBIGUITY,
         [''Could you clarify what you mean by that?'',
          ''What specifically are you referring to?'',
          ''Can you be more specific about the scope?'',
          ''Are you referring to all of them or just some?'',
          ''What exactly do you mean by '{scope}'?'']),
      (INTENT_AMBIGUITY,
         [''What exactly would you like me to help you with?'',
          ''Could you clarify what you're trying to accomplish?'',
          ''What specifically are you looking for?'',
          ''Can you tell me more about what you need?'',
          ''I'd like to help, but I'm not sure what you want. Could you explain?'']),
      (TEMPORAL_AMBIGUITY,
         [''When are you referring to?'',
          ''Could you be more specific about the timing?'',
          ''What time period are you asking about?'',
          ''Are you referring to now, in the past, or in the future?'',
          ''Can you clarify when you mean?'']),
      (QUANTIFIER_AMBIGUITY,
         [''How much or how many are you referring to?'',
          ''Could you be more specific about the quantity?'',
          ''What amount are you asking about?'',
          ''Can you give me a specific number?'',
          ''How many exactly?'']),
      (REFERENCE_AMBIGUITY,
         [''What specifically are you referring to?'',
          ''Could you clarify what you mean by that?'',
          ''Which one are you talking about?'',
          ''I'm not sure what you're referring to. Could you be more specific?'',
          ''Can you tell me more about what you mean?'']),
      (CONTEXT_AMBIGUITY,
         [''Could you provide more context for your request?'',
          ''Can you give me more background information?'',
          ''I'm not sure I understand the context. Could you explain more?'',
          ''What situation are you referring to?'',
          ''Could you clarify the circumstances you're asking about?''])]"

definition question_fallback_templates :: "string list" where
  "question_fallback_templates =
     [''Could you clarify what you mean?'',
      ''I'm not sure I understand. Could you explain more?'',
      ''Can you be more specific about what you're asking?'',
      ''Could you provide more details?'',
      ''I'd like to help, but I need a bit more information. What exactly do you mean?'']"

definition contextual_templates :: "(string \<times> string list) list" where
  "contextual_templates =
     [(''default'',
         [''To better assist you, could you clarify: {question}'',
          ''I want to make sure I understand correctly. {question}'',
          ''Could you help me understand what you mean by that? {question}'',
          ''To provide the best response, I need a bit more information: {question}'',
          ''Could you elaborate on that point? {question}''])]"

text \<open>
  An optional dictionary argument (\<^verbatim>\<open>Optional[Dict]\<close>) and its truth value in an
  \<^verbatim>\<open>if\<close>: neither \<^verbatim>\<open>None\<close> nor empty.
\<close>

type_synonym py_dict = "(string \<times> pyval) list"

definition dict_truthy :: "py_dict option \<Rightarrow> bool" where
  "dict_truthy d = (case d of None \<Rightarrow> False | Some kvs \<Rightarrow> kvs \<noteq> [])"

text \<open>\<^verbatim>\<open>_customize_template\<close> returns the template as it is.\<close>

definition customize_template :: "string \<Rightarrow> AmbiguityDetection \<Rightarrow> string" where
  "customize_template template ambiguity = template"

text \<open>\<^verbatim>\<open>_add_context_to_question\<close>\<close>

definition add_context_to_question ::
  "string \<Rightarrow> py_dict \<Rightarrow> world \<Rightarrow> (py_error + string) \<times> world" where
  "add_context_to_question question ctx w =
     (let templates = (case map_of contextual_templates ''default'' of
                         Some ts \<Rightarrow> ts | None \<Rightarrow> [''{question}''])
      in case random_choice templates w of
           (Inl e, w1) \<Rightarrow> (Inl e, w1)
         | (Inr contextual_template, w1) \<Rightarrow>
             (Inr (py_replace contextual_template ''{question}'' question), w1))"

text \<open>\<^verbatim>\<open>generate_clarification_question\<close>\<close>

definition generate_clarification_question ::
  "AmbiguityDetection \<Rightarrow> py_dict option \<Rightarrow> world \<Rightarrow> (py_error + string) \<times> world" where
  "generate_clarification_question ambiguity ctx w =
     (let templates = (case map_of question_templates (amb_type ambiguity) of
                         Some ts \<Rightarrow> ts | None \<Rightarrow> question_fallback_templates)
      in case random_choice templates w of
           (Inl e, w1) \<Rightarrow> (Inl e, w1)
         | (Inr template, w1) \<Rightarrow>
             (let question = customize_template template ambiguity
              in if dict_truthy ctx
                 then add_context_to_question question
                        (case ctx of Some kvs \<Rightarrow> kvs | None \<Rightarrow> []) w1
                 else (Inr question, w1)))"

text \<open>
  \<^verbatim>\<open>generate_multiple_questions\<close>: the loop over the \<open>max_questions\<close> detections of
  highest confidence (\<^verbatim>\<open>sorted\<close> is stable), collecting one question for each.
\<close>

fun generate_questions_loop ::
  "AmbiguityDetection list \<Rightarrow> py_dict option \<Rightarrow> string list \<Rightarrow> world
     \<Rightarrow> (py_error + string list) \<times> world" where
  "generate_questions_loop [] ctx questions w = (Inr questions, w)"
| "generate_questions_loop (ambiguity # rest) ctx questions w =
     (case generate_clarification_question ambiguity ctx w of
        (Inl e, w1) \<Rightarrow> (Inl e, w1)
      | (Inr question, w1) \<Rightarrow> generate_questions_loop rest ctx (questions @ [question]) w1)"

definition generate_multiple_questions ::
  "AmbiguityDetection list \<Rightarrow> nat \<Rightarrow> py_dict option \<Rightarrow> world
     \<Rightarrow> (py_error + string list) \<times> world" where
  "generate_multiple_questions ambiguities max_questions ctx w =
     (let sorted_ambiguities = sort_by_confidence ambiguities;
          top_ambiguities = take max_questions sorted_ambiguities
      in generate_questions_loop top_ambiguities ctx [] w)"

text \<open>
  Every question that \<^verbatim>\<open>generate_clarification_question\<close> can return for an ambiguity of
  a given type when it is given a context: one of the type's templates, put into one of the
  framing templates.
\<close>

definition question_pool :: "AmbiguityType \<Rightarrow> string list" where
  "question_pool ty =
     concat (map (\<lambda>frame.
                    map (\<lambda>template. py_replace frame ''{question}'' template)
                        (case map_of question_templates ty of
                           Some ts \<Rightarrow> ts | None \<Rightarrow> question_fallback_templates))
                 (case map_of contextual_templates ''default'' of
                    Some ts \<Rightarrow> ts | None \<Rightarrow> [''{question}'']))"

section \<open>Response generation (response_generator.py)\<close>

text \<open>The template tables of \<^verbatim>\<open>ResponseGenerator.__init__\<close>.\<close>

definition response_templates :: "((DialogueAct \<times> ConversationState) \<times> string list) list" where
  "response_templates =
     [((DA_GREETING, INITIAL),
         [''Hello! I'm your personal assistant. How can I help you today?'',
          ''Hi there! What can I do for you?'',
          ''Greetings! How may I assist you?'']),
      ((DA_GREETING, IN_PROGRESS),
         [''Hello again! How can I help you further?'',
          ''Hi! What else can I assist you with?'',
          ''Welcome back! What would you like to know?'']),
      ((DA_QUESTION, IN_PROGRESS),
         [''That's a great question. Let me think about that...'',
          ''I'd be happy to help with that question.'',
          ''Let me see if I can answer that for you.'']),
      ((DA_REQUEST, IN_PROGRESS),
         [''I'll help you with that request.'',
          ''Sure, I can assist with that.'',
          ''Let me take care of that for you.'']),
      ((DA_CLARIFICATION, ASKING_CLARIFICATION),
         [''I apologize for any confusion. Let me clarify that for you.'',
          ''Let me explain that more clearly.'',
          ''I see you need more information. Here's a better explanation.'']),
      ((DA_CONFIRMATION, SEEKING_CONFIRMATION),
         [''Thanks for confirming!'',
          ''Great, I'll proceed with that.'',
          ''Perfect, that's helpful to know.'']),
      ((DA_ACKNOWLEDGMENT, IN_PROGRESS),
         [''I'm glad that was helpful!'',
          ''You're welcome! Is there anything else I can help with?'',
          ''Happy to assist! What else would you like to know?'']),
      ((DA_CLOSING, CLOSING),
         [''Goodbye! Have a wonderful day!'',
          ''It was great chatting with you. Take care!'',
          ''See you later! Feel free to come back anytime.'']),
      ((DA_ERROR, ERROR),
         [''I'm sorry, I didn't quite understand that. Could you rephrase?'',
          ''I'm having trouble understanding. Could you try again?'',
          ''I'm not sure what you mean. Can you explain differently?''])]"

definition response_fallback_templates :: "string list" where
  "response_fallback_templates =
     [''I understand. What else would you like to know?'',
      ''Thanks for sharing that. How can I help you further?'',
      ''I see. Is there anything specific you'd like me to help with?'',
      ''That's interesting. What would you like to do next?'',
      ''I'm here to help. What else can I assist you with?'']"

text \<open>\<^verbatim>\<open>_enhance_response\<close> (the context argument is not read).\<close>

definition enhance_response :: "string \<Rightarrow> string \<Rightarrow> string" where
  "enhance_response template llm_response =
     (if py_in ''{llm_response}'' template
      then py_replace template ''{llm_response}'' llm_response
      else if llm_response \<noteq> []
      then (if py_endswith template ''...''
            then take (length template - 3) template @ llm_response
            else if py_endswith template ''.'' \<or> py_endswith template ''!''
                    \<or> py_endswith template ''?''
            then template @ '' '' @ llm_response
            else template @ ''. '' @ llm_response)
      else template)"

text \<open>\<^verbatim>\<open>generate_response\<close>\<close>

definition generate_response ::
  "string \<Rightarrow> string \<Rightarrow> ConversationStateManager \<Rightarrow> DialogueAct \<Rightarrow> world
     \<Rightarrow> (py_error + string) \<times> world" where
  "generate_response user_input llm_response state_mgr act w =
     (let ctx = get_context state_mgr;
          template_key = (act, state ctx);
          templates = (case map_of response_templates template_key of
                         Some ts \<Rightarrow> ts | None \<Rightarrow> response_fallback_templates)
      in case random_choice templates w of
           (Inl e, w1) \<Rightarrow> (Inl e, w1)
         | (Inr template, w1) \<Rightarrow> (Inr (enhance_response template llm_response), w1))"

section \<open>The conversation interface (interface.py)\<close>

text \<open>
  An entry of the private history: the dictionary \<^verbatim>\<open>{"role": ..., "content": ...}\<close>.
\<close>

record message =
  role :: string
  content :: string

text \<open>
  The attributes of an \<^verbatim>\<open>EnhancedConversationInterface\<close> that change or are read as data.
  Its recognizer, detector and generators are the module-level instances, which hold only
  their fixed tables.
\<close>

record EnhancedConversationInterface =
  state_manager :: ConversationStateManager
  conversation_history :: "message list"
  ambiguity_threshold :: rat

text \<open>\<^verbatim>\<open>EnhancedConversationInterface.__init__\<close>\<close>

definition new_interface :: "string \<Rightarrow> world \<Rightarrow> EnhancedConversationInterface \<times> world" where
  "new_interface uid w =
     (let (m, w1) = new_manager uid w
      in (\<lparr>state_manager = m, conversation_history = [], ambiguity_threshold = fl (6 / 10)\<rparr>, w1))"

text \<open>\<^verbatim>\<open>get_conversation_context\<close>: a dictionary of six entries.\<close>

definition get_conversation_context :: "EnhancedConversationInterface \<Rightarrow> py_dict" where
  "get_conversation_context iface =
     (let ctx = get_context (state_manager iface)
      in [(''state'', PStr (state_value (state ctx))),
          (''dialogue_act'', PStr (act_value (dialogue_act ctx))),
          (''topic'', PStr (topic ctx)),
          (''turn_count'', PInt (turn_count ctx)),
          (''last_user_input'', PStr (last_user_input ctx)),
          (''last_agent_response'', PStr (last_agent_response ctx))])"

text \<open>
  \<^verbatim>\<open>_update_conversation_state\<close>. In the last branch of the chain no method of the state
  manager is called.
\<close>

definition update_conversation_state ::
  "DialogueAct \<Rightarrow> ConversationStateManager \<Rightarrow> world \<Rightarrow> ConversationStateManager \<times> world" where
  "update_conversation_state act m w =
     (let current_state = state (get_context m);
          trig = ''dialogue_act:'' @ act_value act
      in if act = DA_GREETING
         then (if current_state = INITIAL
               then (let ((b, m'), w') = update_state GREETING trig m w in (m', w'))
               else (let ((b, m'), w') = update_state IN_PROGRESS trig m w in (m', w')))
         else if act = DA_CLOSING
         then (let ((b, m'), w') = update_state CLOSING trig m w in (m', w'))
         else if act = DA_CLARIFICATION
         then (let ((b, m'), w') = update_state ASKING_CLARIFICATION trig m w in (m', w'))
         else if act = DA_CONFIRMATION
         then (let ((b, m'), w') = update_state SEEKING_CONFIRMATION trig m w in (m', w'))
         else if act \<in> set [DA_QUESTION, DA_REQUEST]
         then (let ((b, m'), w') = update_state PROVIDING_INFORMATION trig m w in (m', w'))
         else if current_state = INITIAL
         then (let ((b, m'), w') = update_state IN_PROGRESS trig m w in (m', w'))
         else (m, w))"

text \<open>The fallback table of \<^verbatim>\<open>_generate_template_response\<close>.\<close>

definition template_fallbacks :: "(DialogueAct \<times> string list) list" where
  "template_fallbacks =
     [(DA_GREETING, [''Hello! How can I help you today?'']),
      (DA_QUESTION, [''That's an interesting question.'']),
      (DA_REQUEST, [''I'll help you with that.'']),
      (DA_STATEMENT, [''I see. Tell me more.'']),
      (DA_CLOSING, [''Goodbye! Have a great day!'']),
      (DA_ERROR, [''I'm sorry, I didn't understand that.''])]"

text \<open>
  \<^verbatim>\<open>_generate_template_response\<close>: \<^verbatim>\<open>if templates:\<close> holds for a list that is found and
  not empty.
\<close>

definition generate_template_response ::
  "DialogueAct \<Rightarrow> ConversationStateManager \<Rightarrow> world \<Rightarrow> (py_error + string) \<times> world" where
  "generate_template_response act m w =
     (let ctx = get_context m;
          template_key = (act, state ctx);
          templates = map_of response_templates template_key
      in case templates of
           Some (t # ts) \<Rightarrow> random_choice (t # ts) w
         | _ \<Rightarrow>
             random_choice
               (case map_of template_fallbacks act of
                  Some ts \<Rightarrow> ts
                | None \<Rightarrow> [''I'm here to help. What can I do for you?''])
               w)"

text \<open>
  The response of the clarification branch of \<^verbatim>\<open>process_input\<close>: the one question as it
  is, or else the numbered list of the questions under its heading.
\<close>

definition numbered_questions :: "string list \<Rightarrow> string list" where
  "numbered_questions questions =
     map (\<lambda>(i, q). py_str (int i + 1) @ ''. '' @ q) (enumerate 0 questions)"

definition clarification_response :: "string list \<Rightarrow> string" where
  "clarification_response questions =
     (if length questions = 1 then questions ! 0
      else ''I'd like to clarify a few things:'' @ [CHR 0x0A]
           @ py_join [CHR 0x0A] (numbered_questions questions))"

text \<open>
  \<^verbatim>\<open>process_input\<close>. The result is the returned string or the exception raised, with the
  interface and the world as the call leaves them. An \<^verbatim>\<open>llm_response\<close> counts in the
  \<^verbatim>\<open>if\<close> when it is neither \<^verbatim>\<open>None\<close> nor empty.
\<close>

definition process_input ::
  "string \<Rightarrow> string option \<Rightarrow> EnhancedConversationInterface \<Rightarrow> world
     \<Rightarrow> (py_error + string) \<times> EnhancedConversationInterface \<times> world" where
  "process_input user_input llm_response iface w =
     (let ((b1, m1), w1) =
            update_context [Set_last_user_input user_input,
                            Set_turn_count (turn_count (get_context (state_manager iface)) + 1)]
              (state_manager iface) w;
          (act, conf) = recognize_act user_input;
          ((b2, m2), w2) = update_dialogue_act act m1 w1;
          ambiguities = detect_ambiguities user_input;
          high_confidence_ambiguities =
            filter (\<lambda>amb. confidence amb \<ge> ambiguity_threshold iface) ambiguities;
          (r, m3, w3) =
            (if high_confidence_ambiguities \<noteq> []
             then (case generate_multiple_questions high_confidence_ambiguities 2
                          (Some (get_conversation_context (iface\<lparr>state_manager := m2\<rparr>))) w2 of
                     (Inl e, w') \<Rightarrow> (Inl e, m2, w')
                   | (Inr questions, w') \<Rightarrow>
                       (let enhanced_response = clarification_response questions;
                            ((b, m'), w'') = update_state ASKING_CLARIFICATION
                                               ''ambiguity_detected'' m2 w'
                        in (Inr enhanced_response, m', w'')))
             else (let (m', w') = update_conversation_state act m2 w2
                   in case (case llm_response of
                              Some l \<Rightarrow> if l \<noteq> [] then generate_response user_input l m' act w'
                                        else generate_template_response act m' w'
                            | None \<Rightarrow> generate_template_response act m' w') of
                        (Inl e, w'') \<Rightarrow> (Inl e, m', w'')
                      | (Inr enhanced_response, w'') \<Rightarrow> (Inr enhanced_response, m', w'')))
      in case r of
           Inl e \<Rightarrow> (Inl e, iface\<lparr>state_manager := m3\<rparr>, w3)
         | Inr enhanced_response \<Rightarrow>
             (let ((b4, m4), w4) = update_context [Set_last_agent_response enhanced_response] m3 w3
              in (Inr enhanced_response,
                  iface\<lparr>state_manager := m4,
                        conversation_history :=
                          conversation_history iface
                          @ [\<lparr>role = ''user'', content = user_input\<rparr>,
                             \<lparr>role = ''assistant'', content = enhanced_response\<rparr>]\<rparr>,
                  w4)))"

text \<open>\<^verbatim>\<open>EnhancedConversationInterface.reset_conversation\<close>\<close>

definition reset_interface ::
  "EnhancedConversationInterface \<Rightarrow> world \<Rightarrow> EnhancedConversationInterface \<times> world" where
  "reset_interface iface w =
     (let (m, w1) = reset_conversation (state_manager iface) w
      in (iface\<lparr>state_manager := m, conversation_history := []\<rparr>, w1))"

text \<open>
  A sequence of \<^verbatim>\<open>process_input\<close> calls, each with its input and optional LLM response;
  an exception ends the sequence, as it would the caller's loop.
\<close>

fun process_inputs ::
  "(string \<times> string option) list \<Rightarrow> EnhancedConversationInterface \<Rightarrow> world
     \<Rightarrow> (py_error + string list) \<times> EnhancedConversationInterface \<times> world" where
  "process_inputs [] iface w = (Inr [], iface, w)"
| "process_inputs ((user_input, llm_response) # rest) iface w =
     (case process_input user_input llm_response iface w of
        (Inl e, iface', w') \<Rightarrow> (Inl e, iface', w')
      | (Inr response, iface', w') \<Rightarrow>
          (case process_inputs rest iface' w' of
             (Inl e, iface'', w'') \<Rightarrow> (Inl e, iface'', w'')
           | (Inr responses, iface'', w'') \<Rightarrow> (Inr (response # responses), iface'', w'')))"

text \<open>
  The table of section 4.5.1 of the specification, as a function of the dialogue act and
  the current state, to compare \<^verbatim>\<open>_update_conversation_state\<close> with.
\<close>

fun next_state :: "DialogueAct \<Rightarrow> ConversationState \<Rightarrow> ConversationState" where
  "next_state DA_GREETING s = (if s = INITIAL then GREETING else IN_PROGRESS)"
| "next_state DA_CLOSING s = CLOSING"
| "next_state DA_CLARIFICATION s = ASKING_CLARIFICATION"
| "next_state DA_CONFIRMATION s = SEEKING_CONFIRMATION"
| "next_state DA_QUESTION s = PROVIDING_INFORMATION"
| "next_state DA_REQUEST s = PROVIDING_INFORMATION"
| "next_state act s = (if s = INITIAL then IN_PROGRESS else s)"

section \<open>Serialization of the state manager (state.py)\<close>

text \<open>
  \<^verbatim>\<open>datetime.isoformat()\<close> of a naive datetime: \<^verbatim>\<open>YYYY-MM-DDTHH:MM:SS\<close>, followed by
  \<^verbatim>\<open>.ffffff\<close> when the microsecond is not zero. \<open>zero_pad n k\<close> is \<open>k\<close> in decimal, filled
  with zeros on the left to \<open>n\<close> characters.
\<close>

definition zero_pad :: "nat \<Rightarrow> nat \<Rightarrow> string" where
  "zero_pad n k = replicate (n - length (str_nat k)) CHR ''0'' @ str_nat k"

definition isoformat :: "datetime \<Rightarrow> string" where
  "isoformat dt =
     zero_pad 4 (year dt) @ ''-'' @ zero_pad 2 (month dt) @ ''-'' @ zero_pad 2 (day dt) @ ''T''
     @ zero_pad 2 (hour dt) @ '':'' @ zero_pad 2 (minute dt) @ '':'' @ zero_pad 2 (second dt)
     @ (if microsecond dt = 0 then [] else ''.'' @ zero_pad 6 (microsecond dt))"

text \<open>
  The ranges that every \<^verbatim>\<open>datetime\<close> object keeps (its constructor raises ValueError
  outside them).
\<close>

definition is_leap :: "nat \<Rightarrow> bool" where
  "is_leap y = (y mod 4 = 0 \<and> (y mod 100 \<noteq> 0 \<or> y mod 400 = 0))"

definition days_in_month :: "nat \<Rightarrow> nat \<Rightarrow> nat" where
  "days_in_month y m =
     (if m = 2 then (if is_leap y then 29 else 28)
      else if m = 4 \<or> m = 6 \<or> m = 9 \<or> m = 11 then 30 else 31)"

definition valid_datetime :: "datetime \<Rightarrow> bool" where
  "valid_datetime dt =
     (1 \<le> year dt \<and> year dt \<le> 9999 \<and> 1 \<le> month dt \<and> month dt \<le> 12
      \<and> 1 \<le> day dt \<and> day dt \<le> days_in_month (year dt) (month dt)
      \<and> hour dt < 24 \<and> minute dt < 60 \<and> second dt < 60 \<and> microsecond dt < 1000000)"

text \<open>Reading a run of decimal digits of a given width from the front of a string.\<close>

definition digit_val :: "char \<Rightarrow> nat option" where
  "digit_val c = map_of (zip ''0123456789'' [0 ..< 10]) c"

fun parse_digits :: "string \<Rightarrow> nat \<Rightarrow> nat option" where
  "parse_digits [] acc = Some acc"
| "parse_digits (c # cs) acc =
     (case digit_val c of None \<Rightarrow> None | Some d \<Rightarrow> parse_digits cs (10 * acc + d))"

definition take_number :: "nat \<Rightarrow> string \<Rightarrow> (nat \<times> string) option" where
  "take_number n s =
     (if length s < n then None
      else case parse_digits (take n s) 0 of
             None \<Rightarrow> None
           | Some k \<Rightarrow> Some (k, drop n s))"

definition take_char :: "char \<Rightarrow> string \<Rightarrow> string option" where
  "take_char c s = (case s of [] \<Rightarrow> None | x # xs \<Rightarrow> if x = c then Some xs else None)"

text \<open>
  \<^verbatim>\<open>datetime.fromisoformat(s)\<close> on the two shapes that \<open>isoformat\<close> writes for a naive
  datetime, with the range checks of the constructor; any character may stand for the
  \<^verbatim>\<open>T\<close>. The other strings that \<^verbatim>\<open>fromisoformat\<close> reads (a date alone, a shortened time, a
  UTC offset) are not modelled: for them this function answers ValueError.
\<close>

definition parse_fraction :: "string \<Rightarrow> (nat \<times> string) option" where
  "parse_fraction s =
     (if s = [] then Some (0, [])
      else do { s1 \<leftarrow> take_char CHR ''.'' s; take_number 6 s1 })"

definition parse_datetime :: "string \<Rightarrow> datetime option" where
  "parse_datetime s =
     do { (y, s1) \<leftarrow> take_number 4 s;
          s2 \<leftarrow> take_char CHR ''-'' s1;
          (mo, s3) \<leftarrow> take_number 2 s2;
          s4 \<leftarrow> take_char CHR ''-'' s3;
          (d, s5) \<leftarrow> take_number 2 s4;
          s6 \<leftarrow> (if s5 = [] then None else Some (tl s5));
          (h, s7) \<leftarrow> take_number 2 s6;
          s8 \<leftarrow> take_char CHR '':'' s7;
          (mi, s9) \<leftarrow> take_number 2 s8;
          s10 \<leftarrow> take_char CHR '':'' s9;
          (sec, s11) \<leftarrow> take_number 2 s10;
          (us, s12) \<leftarrow> parse_fraction s11;
          (if s12 = []
           then Some \<lparr>year = y, month = mo, day = d, hour = h, minute = mi, second = sec,
                      microsecond = us\<rparr>
           else None) }"

definition fromisoformat :: "string \<Rightarrow> py_error + datetime" where
  "fromisoformat s =
     (case parse_datetime s of
        None \<Rightarrow> Inl ValueError
      | Some dt \<Rightarrow> if valid_datetime dt then Inr dt else Inl ValueError)"

text \<open>
  \<^verbatim>\<open>ConversationState(value)\<close> and \<^verbatim>\<open>DialogueAct(value)\<close>: the member with that tag;
  ValueError when there is none.
\<close>

definition state_of_value :: "string \<Rightarrow> ConversationState option" where
  "state_of_value v =
     find (\<lambda>s. state_value s = v)
       [INITIAL, GREETING, IN_PROGRESS, ASKING_CLARIFICATION, PROVIDING_INFORMATION,
        SEEKING_CONFIRMATION, CLOSING, ERROR]"

definition act_of_value :: "string \<Rightarrow> DialogueAct option" where
  "act_of_value v = find (\<lambda>a. act_value a = v) all_dialogue_acts"

text \<open>\<^verbatim>\<open>to_dict\<close>: the dictionary of the fourteen fields of the context.\<close>

definition to_dict :: "ConversationStateManager \<Rightarrow> py_dict" where
  "to_dict m =
     (let c = mgr_context m
      in [(''user_id'', PStr (user_id c)),
          (''conversation_id'', PStr (conversation_id c)),
          (''state'', PStr (state_value (state c))),
          (''previous_state'', PStr (state_value (previous_state c))),
          (''dialogue_act'', PStr (act_value (dialogue_act c))),
          (''topic'', PStr (topic c)),
          (''entities'', PList (entities c)),
          (''user_intent'', PStr (user_intent c)),
          (''last_user_input'', PStr (last_user_input c)),
          (''last_agent_response'', PStr (last_agent_response c)),
          (''turn_count'', PInt (turn_count c)),
          (''created_at'', PStr (isoformat (created_at c))),
          (''updated_at'', PStr (isoformat (updated_at c))),
          (''metadata'', PDict (metadata c))])"

text \<open>
  Reading an entry of the dictionary: KeyError when the key is missing. The readers below
  also give the value its type in the context record; a value of another type, which the
  code would store as it is, is answered with TypeError here (ValueError where the code
  passes it to an enumeration).
\<close>

definition get_item :: "py_dict \<Rightarrow> string \<Rightarrow> py_error + pyval" where
  "get_item d k = (case map_of d k of None \<Rightarrow> Inl KeyError | Some v \<Rightarrow> Inr v)"

definition get_str :: "py_dict \<Rightarrow> string \<Rightarrow> py_error + string" where
  "get_str d k = (case get_item d k of Inl e \<Rightarrow> Inl e | Inr (PStr s) \<Rightarrow> Inr s
                  | Inr _ \<Rightarrow> Inl TypeError)"

definition get_int :: "py_dict \<Rightarrow> string \<Rightarrow> py_error + int" where
  "get_int d k = (case get_item d k of Inl e \<Rightarrow> Inl e | Inr (PInt i) \<Rightarrow> Inr i
                  | Inr _ \<Rightarrow> Inl TypeError)"

definition get_list :: "py_dict \<Rightarrow> string \<Rightarrow> py_error + pyval list" where
  "get_list d k = (case get_item d k of Inl e \<Rightarrow> Inl e | Inr (PList xs) \<Rightarrow> Inr xs
                   | Inr _ \<Rightarrow> Inl TypeError)"

definition get_dict :: "py_dict \<Rightarrow> string \<Rightarrow> py_error + py_dict" where
  "get_dict d k = (case get_item d k of Inl e \<Rightarrow> Inl e | Inr (PDict kvs) \<Rightarrow> Inr kvs
                   | Inr _ \<Rightarrow> Inl TypeError)"

definition get_state :: "py_dict \<Rightarrow> string \<Rightarrow> py_error + ConversationState" where
  "get_state d k =
     (case get_item d k of
        Inl e \<Rightarrow> Inl e
      | Inr (PStr s) \<Rightarrow> (case state_of_value s of None \<Rightarrow> Inl ValueError | Some x \<Rightarrow> Inr x)
      | Inr _ \<Rightarrow> Inl ValueError)"

definition get_act :: "py_dict \<Rightarrow> string \<Rightarrow> py_error + DialogueAct" where
  "get_act d k =
     (case get_item d k of
        Inl e \<Rightarrow> Inl e
      | Inr (PStr s) \<Rightarrow> (case act_of_value s of None \<Rightarrow> Inl ValueError | Some x \<Rightarrow> Inr x)
      | Inr _ \<Rightarrow> Inl ValueError)"

definition get_datetime :: "py_dict \<Rightarrow> string \<Rightarrow> py_error + datetime" where
  "get_datetime d k =
     (case get_item d k of
        Inl e \<Rightarrow> Inl e
      | Inr (PStr s) \<Rightarrow> fromisoformat s
      | Inr _ \<Rightarrow> Inl TypeError)"

text \<open>
  One assignment \<^verbatim>\<open>manager.context.field = ...\<close> of \<^verbatim>\<open>from_dict\<close>: the first exception
  ends the method.
\<close>

definition assign ::
  "(py_error + 'a) \<Rightarrow> ('a \<Rightarrow> ConversationContext \<Rightarrow> ConversationContext)
     \<Rightarrow> (py_error + ConversationContext) \<Rightarrow> (py_error + ConversationContext)" where
  "assign v upd r =
     (case r of Inl e \<Rightarrow> Inl e
      | Inr c \<Rightarrow> (case v of Inl e \<Rightarrow> Inl e | Inr x \<Rightarrow> Inr (upd x c)))"

text \<open>
  \<^verbatim>\<open>from_dict\<close>: a new manager for \<^verbatim>\<open>data["user_id"]\<close> (with an id and timestamps of its
  own), whose context fields are then assigned one by one, in the order of the code.
\<close>

definition from_dict ::
  "py_dict \<Rightarrow> world \<Rightarrow> (py_error + ConversationStateManager) \<times> world" where
  "from_dict data w =
     (case get_str data ''user_id'' of
        Inl e \<Rightarrow> (Inl e, w)
      | Inr uid \<Rightarrow>
          (let (manager, w1) = new_manager uid w;
               r0 = Inr (mgr_context manager);
               r1 = assign (get_str data ''conversation_id'') (\<lambda>v c. c\<lparr>conversation_id := v\<rparr>) r0;
               r2 = assign (get_state data ''state'') (\<lambda>v c. c\<lparr>state := v\<rparr>) r1;
               r3 = assign (get_state data ''previous_state'') (\<lambda>v c. c\<lparr>previous_state := v\<rparr>) r2;
               r4 = assign (get_act data ''dialogue_act'') (\<lambda>v c. c\<lparr>dialogue_act := v\<rparr>) r3;
               r5 = assign (get_str data ''topic'') (\<lambda>v c. c\<lparr>topic := v\<rparr>) r4;
               r6 = assign (get_list data ''entities'') (\<lambda>v c. c\<lparr>entities := v\<rparr>) r5;
               r7 = assign (get_str data ''user_intent'') (\<lambda>v c. c\<lparr>user_intent := v\<rparr>) r6;
               r8 = assign (get_str data ''last_user_input'') (\<lambda>v c. c\<lparr>last_user_input := v\<rparr>) r7;
               r9 = assign (get_str data ''last_agent_response'')
                      (\<lambda>v c. c\<lparr>last_agent_response := v\<rparr>) r8;
               r10 = assign (get_int data ''turn_count'') (\<lambda>v c. c\<lparr>turn_count := v\<rparr>) r9;
               r11 = assign (get_datetime data ''created_at'') (\<lambda>v c. c\<lparr>created_at := v\<rparr>) r10;
               r12 = assign (get_datetime data ''updated_at'') (\<lambda>v c. c\<lparr>updated_at := v\<rparr>) r11;
               r13 = assign (get_dict data ''metadata'') (\<lambda>v c. c\<lparr>metadata := v\<rparr>) r12
           in case r13 of
                Inl e \<Rightarrow> (Inl e, w1)
              | Inr c \<Rightarrow> (Inr (manager\<lparr>mgr_context := c\<rparr>), w1)))"

text \<open>Two calls of \<^verbatim>\<open>update_state\<close> in a row with the same arguments.\<close>

definition update_state_twice ::
  "ConversationState \<Rightarrow> string \<Rightarrow> ConversationStateManager \<Rightarrow> world
     \<Rightarrow> (bool \<times> ConversationStateManager) \<times> world" where
  "update_state_twice s trig m w =
     (let ((b1, m1), w1) = update_state s trig m w in update_state s trig m1 w1)"

text \<open>A concrete clock, generator and id source, and a call sequence, to run the model on.\<close>

definition example_time :: datetime where
  "example_time = \<lparr>year = 2024, month = 1, day = 15, hour = 10, minute = 30, second = 0,
                    microsecond = 0\<rparr>"

definition example_world :: world where
  "example_world = \<lparr>clock = (\<lambda>n. example_time\<lparr>second := n mod 60\<rparr>), clock_reads = 0,
                     rng = (\<lambda>n. n), rng_draws = 0,
                     uuids = (\<lambda>n. ''3f2b8a52-0c1d-4e6f-9a7b-5d4c3b2a1f00''), uuid_draws = 0\<rparr>"

definition example_calls :: "manager_call list" where
  "example_calls =
     [Update_state GREETING ''t1'', Update_state IN_PROGRESS ''t2'',
      Update_dialogue_act DA_QUESTION, Update_state PROVIDING_INFORMATION ''t3'',
      Update_state PROVIDING_INFORMATION ''t4'', Update_state IN_PROGRESS ''t5'',
      Update_context [Set_topic ''weather'', Unknown_field ''mood'' PNone],
      Update_state CLOSING ''t6'', Update_state IN_PROGRESS ''t7'',
      Update_state ASKING_CLARIFICATION ''t8'', Update_state IN_PROGRESS ''t9'',
      Update_state SEEKING_CONFIRMATION ''t10'', Update_state IN_PROGRESS ''t11'',
      Update_state ERROR ''t12'', Update_state IN_PROGRESS ''t13'']"

definition example_manager :: ConversationStateManager where
  "example_manager = fst (new_manager ''alice'' example_world)"

definition example_world1 :: world where
  "example_world1 = snd (new_manager ''alice'' example_world)"

definition example_run :: "ConversationStateManager \<times> world" where
  "example_run = do_calls example_calls example_manager example_world1"

definition example_interface :: EnhancedConversationInterface where
  "example_interface = fst (new_interface ''alice'' example_world)"

definition example_world2 :: world where
  "example_world2 = snd (new_interface ''alice'' example_world)"

section \<open>Evaluation of the character classes\<close>

text \<open>
  The decision trees agree with the definitions on all 256 characters; from here on they
  are the equations by which concrete text is evaluated.
\<close>

lemma isspace_bits_all:
  "\<forall>b0 b1 b2 b3 b4 b5 b6 b7.
     py_isspace (Char b0 b1 b2 b3 b4 b5 b6 b7) = isspace_bits b0 b1 b2 b3 b4 b5 b6 b7"
  by code_simp

lemma py_lower_char_bits_all:
  "\<forall>b0 b1 b2 b3 b4 b5 b6 b7.
     py_lower_char (Char b0 b1 b2 b3 b4 b5 b6 b7) =
       Char b0 b1 b2 b3 b4 (b5 \<or> isupper_bits b0 b1 b2 b3 b4 b5 b6 b7) b6 b7"
  by code_simp

lemma is_word_bits_all:
  "\<forall>b0 b1 b2 b3 b4 b5 b6 b7.
     is_word_char (Char b0 b1 b2 b3 b4 b5 b6 b7) = is_word_bits b0 b1 b2 b3 b4 b5 b6 b7"
  by code_simp

lemma py_isspace_code [code]:
  "py_isspace (Char b0 b1 b2 b3 b4 b5 b6 b7) = isspace_bits b0 b1 b2 b3 b4 b5 b6 b7"
  using isspace_bits_all by blast

lemma py_lower_char_code [code]:
  "py_lower_char (Char b0 b1 b2 b3 b4 b5 b6 b7) =
     Char b0 b1 b2 b3 b4 (b5 \<or> isupper_bits b0 b1 b2 b3 b4 b5 b6 b7) b6 b7"
  using py_lower_char_bits_all by blast

lemma is_word_char_code [code]:
  "is_word_char (Char b0 b1 b2 b3 b4 b5 b6 b7) = is_word_bits b0 b1 b2 b3 b4 b5 b6 b7"
  using is_word_bits_all by blast

section \<open>Values of the doubles\<close>

text \<open>
  Rounding on some numbers, with the values that Python gives: \<^verbatim>\<open>1 / 3\<close>, \<^verbatim>\<open>0.001\<close>, \<^verbatim>\<open>-0.1\<close>,
  \<^verbatim>\<open>0.1 + 0.2\<close>, and the two ties \<^verbatim>\<open>float(2 ** 53 + 1)\<close> and \<^verbatim>\<open>float(2 ** 53 + 3)\<close>, which go to
  the even significand.
\<close>

lemma round_double_examples:
  "round_double (1 / 3) = 6004799503160661 / 18014398509481984"
  "round_double (1 / 1000) = 1152921504606847 / 1152921504606846976"
  "round_double (- 1 / 10) = - (3602879701896397 / 36028797018963968)"
  "fadd (fl (1 / 10)) (fl (2 / 10)) = 1351079888211149 / 4503599627370496"
  "round_double 9007199254740993 = 9007199254740992"
  "round_double 9007199254740995 = 9007199254740996"
  "round_double 3 = 3"
  by code_simp+

text \<open>
  The literals of the detector as doubles: \<^verbatim>\<open>0.1\<close> is \<open>3602879701896397 / 2 ^ 55\<close>, as
  \<^verbatim>\<open>(0.1).as_integer_ratio()\<close> gives it, and so on.
\<close>

lemma double_literals:
  "fl 0 = 0"
  "fl 1 = 1"
  "fl (1 / 10) = 3602879701896397 / 36028797018963968"
  "fl (2 / 10) = 3602879701896397 / 18014398509481984"
  "fl (5 / 10) = 1 / 2"
  "fl (6 / 10) = 5404319552844595 / 9007199254740992"
  "fl (7 / 10) = 3152519739159347 / 4503599627370496"
  "fl (8 / 10) = 3602879701896397 / 4503599627370496"
  by code_simp+

text \<open>The adjustments \<^verbatim>\<open>0.0 + 0.1\<close>, \<^verbatim>\<open>0.0 - 0.2\<close> and \<^verbatim>\<open>0.0 + 0.1 - 0.2\<close>, all exact.\<close>

lemma double_adjustments:
  "fadd 0 (3602879701896397 / 36028797018963968) = 3602879701896397 / 36028797018963968"
  "fsub 0 (3602879701896397 / 18014398509481984) = - (3602879701896397 / 18014398509481984)"
  "fsub (3602879701896397 / 36028797018963968) (3602879701896397 / 18014398509481984)
     = - (3602879701896397 / 36028797018963968)"
  by code_simp+

text \<open>The sums of a base confidence and an adjustment.\<close>

lemma double_sums_5:
  "fadd (1 / 2) 0 = 1 / 2"
  "fadd (1 / 2) (3602879701896397 / 36028797018963968) = 5404319552844595 / 9007199254740992"
  "fadd (1 / 2) (- (3602879701896397 / 18014398509481984)) = 5404319552844595 / 18014398509481984"
  "fadd (1 / 2) (- (3602879701896397 / 36028797018963968)) = 3602879701896397 / 9007199254740992"
  by code_simp+

lemma double_sums_6:
  "fadd (5404319552844595 / 9007199254740992) 0 = 5404319552844595 / 9007199254740992"
  "fadd (5404319552844595 / 9007199254740992) (3602879701896397 / 36028797018963968)
     = 3152519739159347 / 4503599627370496"
  "fadd (5404319552844595 / 9007199254740992) (- (3602879701896397 / 18014398509481984))
     = 7205759403792793 / 18014398509481984"
  "fadd (5404319552844595 / 9007199254740992) (- (3602879701896397 / 36028797018963968)) = 1 / 2"
  by code_simp+

lemma double_sums_7:
  "fadd (3152519739159347 / 4503599627370496) 0 = 3152519739159347 / 4503599627370496"
  "fadd (3152519739159347 / 4503599627370496) (3602879701896397 / 36028797018963968)
     = 7205759403792793 / 9007199254740992"
  "fadd (3152519739159347 / 4503599627370496) (- (3602879701896397 / 18014398509481984))
     = 9007199254740991 / 18014398509481984"
  "fadd (3152519739159347 / 4503599627370496) (- (3602879701896397 / 36028797018963968))
     = 5404319552844595 / 9007199254740992"
  by code_simp+

lemma double_sums_8:
  "fadd (3602879701896397 / 4503599627370496) 0 = 3602879701896397 / 4503599627370496"
  "fadd (3602879701896397 / 4503599627370496) (3602879701896397 / 36028797018963968)
     = 8106479329266893 / 9007199254740992"
  "fadd (3602879701896397 / 4503599627370496) (- (3602879701896397 / 18014398509481984))
     = 1351079888211149 / 2251799813685248"
  "fadd (3602879701896397 / 4503599627370496) (- (3602879701896397 / 36028797018963968))
     = 6305039478318695 / 9007199254740992"
  by code_simp+

lemmas double_sums = double_sums_5 double_sums_6 double_sums_7 double_sums_8

text \<open>
  The sum \<^verbatim>\<open>0.7 + 0.1\<close> is the double below \<^verbatim>\<open>0.8\<close>, \<^verbatim>\<open>0.8 - 0.2\<close> the double above \<^verbatim>\<open>0.6\<close>,
  and \<^verbatim>\<open>0.7 - 0.2\<close> the double below \<^verbatim>\<open>0.5\<close>.
\<close>

lemma double_sums_inexact:
  "fadd (fl (7 / 10)) (fadd (fl 0) (fl (1 / 10))) < fl (8 / 10)"
  "fl (7 / 10) < fadd (fl (7 / 10)) (fadd (fl 0) (fl (1 / 10)))"
  "fl (6 / 10) < fadd (fl (8 / 10)) (fsub (fl 0) (fl (2 / 10)))"
  "fadd (fl (7 / 10)) (fsub (fl 0) (fl (2 / 10))) < fl (5 / 10)"
  unfolding double_literals double_adjustments double_sums by simp_all

text \<open>
  The values of \<^verbatim>\<open>_calculate_confidence\<close>, by type, end of question and length of the text:
  the equation by which the detector is evaluated on a concrete text.
\<close>

lemma calculate_confidence_table [code]:
  "calculate_confidence ty mt tlow =
     (let at_end = (py_endswith tlow mt \<and> py_in ''?'' tlow); short = (length tlow < 10)
      in case ty of
           ENTITY_AMBIGUITY \<Rightarrow>
             (if at_end then (if short then 5404319552844595 / 9007199254740992
                              else 7205759403792793 / 9007199254740992)
              else (if short then 9007199254740991 / 18014398509481984
                    else 3152519739159347 / 4503599627370496))
         | SCOPE_AMBIGUITY \<Rightarrow>
             (if at_end then (if short then 1 / 2 else 3152519739159347 / 4503599627370496)
              else (if short then 7205759403792793 / 18014398509481984
                    else 5404319552844595 / 9007199254740992))
         | INTENT_AMBIGUITY \<Rightarrow>
             (if at_end then (if short then 6305039478318695 / 9007199254740992
                              else 8106479329266893 / 9007199254740992)
              else (if short then 1351079888211149 / 2251799813685248
                    else 3602879701896397 / 4503599627370496))
         | TEMPORAL_AMBIGUITY \<Rightarrow>
             (if at_end then (if short then 1 / 2 else 3152519739159347 / 4503599627370496)
              else (if short then 7205759403792793 / 18014398509481984
                    else 5404319552844595 / 9007199254740992))
         | QUANTIFIER_AMBIGUITY \<Rightarrow>
             (if at_end then (if short then 3602879701896397 / 9007199254740992
                              else 5404319552844595 / 9007199254740992)
              else (if short then 5404319552844595 / 18014398509481984 else 1 / 2))
         | REFERENCE_AMBIGUITY \<Rightarrow>
             (if at_end then (if short then 5404319552844595 / 9007199254740992
                              else 7205759403792793 / 9007199254740992)
              else (if short then 9007199254740991 / 18014398509481984
                    else 3152519739159347 / 4503599627370496))
         | CONTEXT_AMBIGUITY \<Rightarrow>
             (if at_end then (if short then 1 / 2 else 3152519739159347 / 4503599627370496)
              else (if short then 7205759403792793 / 18014398509481984
                    else 5404319552844595 / 9007199254740992)))"
proof -
  let ?e = "py_endswith tlow mt \<and> py_in ''?'' tlow"
  let ?s = "length tlow < 10"
  show ?thesis
    unfolding calculate_confidence_def Let_def
    by (cases ty; cases ?e; cases ?s;
        simp only: base_confidence.simps AmbiguityType.case if_True if_False simp_thms
                   double_literals double_adjustments double_sums;
        simp)
qed

section \<open>Properties of the state manager\<close>

lemma update_state_noop:
  "s = state (mgr_context m) \<Longrightarrow> update_state s trig m w = ((False, m), w)"
  by (simp add: update_state_def)

lemma update_state_accept_history:
  assumes "s \<noteq> state (mgr_context m)"
  shows "state_history (snd (fst (update_state s trig m w))) =
           (let h = state_history m @ [\<lparr>from_state = state (mgr_context m), to_state = s,
                                         trigger = trig, timestamp = fst (datetime_now w)\<rparr>]
            in if length h > max_history_length m then slice_last (max_history_length m) h else h)"
    and "fst (fst (update_state s trig m w))"
    and "state (mgr_context (snd (fst (update_state s trig m w)))) = s"
  using assms by (simp_all add: update_state_def Let_def split: prod.splits)

lemma update_state_max:
  "max_history_length (snd (fst (update_state s trig m w))) = max_history_length m"
  by (simp add: update_state_def Let_def split: prod.splits)

lemma update_dialogue_act_frame:
  "state_history (snd (fst (update_dialogue_act a m w))) = state_history m"
  "max_history_length (snd (fst (update_dialogue_act a m w))) = max_history_length m"
  "state (mgr_context (snd (fst (update_dialogue_act a m w)))) = state (mgr_context m)"
  by (simp_all add: update_dialogue_act_def Let_def split: prod.splits)

lemma update_context_frame:
  "state_history (snd (fst (update_context kw m w))) = state_history m"
  "max_history_length (snd (fst (update_context kw m w))) = max_history_length m"
  by (simp_all add: update_context_def Let_def split: prod.splits)

lemma reset_conversation_frame:
  "state_history (fst (reset_conversation m w)) = []"
  "max_history_length (fst (reset_conversation m w)) = max_history_length m"
  by (simp_all add: reset_conversation_def Let_def split: prod.splits)

lemma new_manager_frame:
  "state_history (fst (new_manager uid w)) = []"
  "max_history_length (fst (new_manager uid w)) = 10"
  by (simp_all add: new_manager_def Let_def split: prod.splits)

lemma do_call_max:
  "max_history_length (fst (do_call c m w)) = max_history_length m"
  by (cases c)
     (simp_all add: update_state_max update_dialogue_act_frame update_context_frame
        reset_conversation_frame case_prod_beta)

lemma do_call_history:
  assumes "max_history_length m = 10" and "length (state_history m) \<le> 10"
  shows "state_history (fst (do_call c m w)) =
           (if c = Reset_conversation then []
            else let h = state_history m @ accepted c m w in drop (length h - 10) h)"
proof (cases c)
  case (Update_state s trig)
  show ?thesis
  proof (cases "s = state (mgr_context m)")
    case True
    then show ?thesis using Update_state assms by (simp add: update_state_noop)
  next
    case False
    then show ?thesis using Update_state assms
      by (simp add: update_state_accept_history Let_def slice_last_def case_prod_beta)
  qed
qed (use assms in \<open>simp_all add: update_dialogue_act_frame update_context_frame
       reset_conversation_frame case_prod_beta\<close>)

text \<open>
  The history is the tail of the uncut log: its last \<open>min 10 k\<close> entries, where \<open>k\<close>
  counts the accepted transitions since the last reset.
\<close>

lemma history_is_recent_log:
  assumes "max_history_length m = 10"
      and "k0 \<le> length L0"
      and "state_history m = drop (length L0 - min 10 k0) L0"
  shows "state_history (fst (do_calls cs m w)) =
           (let L = L0 @ transition_log cs m w; k = since_reset cs m w k0
            in drop (length L - min 10 k) L)
         \<and> since_reset cs m w k0 \<le> length (L0 @ transition_log cs m w)
         \<and> max_history_length (fst (do_calls cs m w)) = 10"
  using assms
proof (induction cs arbitrary: m w L0 k0)
  case Nil
  then show ?case by simp
next
  case (Cons c cs)
  obtain m' w' where step: "do_call c m w = (m', w')" by (cases "do_call c m w")
  let ?L1 = "L0 @ accepted c m w"
  let ?k1 = "if c = Reset_conversation then 0 else k0 + length (accepted c m w)"
  have max': "max_history_length m' = 10"
    using do_call_max [of c m w] step Cons.prems(1) by simp
  have k1: "?k1 \<le> length ?L1" using Cons.prems(2) by simp
  have acc_len: "length (accepted c m w) \<le> 1" by (cases c) simp_all
  have len: "length (state_history m) \<le> 10" using Cons.prems(2,3) by simp
  have hist': "state_history m' = drop (length ?L1 - min 10 ?k1) ?L1"
  proof (cases "c = Reset_conversation")
    case True
    then show ?thesis using do_call_history [OF Cons.prems(1) len, of c w] step by simp
  next
    case False
    have "state_history m' = (let h = state_history m @ accepted c m w in drop (length h - 10) h)"
      using do_call_history [OF Cons.prems(1) len, of c w] step False by simp
    also have "\<dots> = drop (length ?L1 - min 10 ?k1) ?L1"
      using Cons.prems(2,3) False acc_len
      by (cases "accepted c m w") (auto simp: Let_def min_def)
    finally show ?thesis .
  qed
  from Cons.IH [OF max' k1 hist', of w']
  show ?case using step by (simp add: Let_def)
qed

text \<open>
  Claim C4, as amended. When the requested state is the current one, \<^verbatim>\<open>update_state\<close>
  returns false and changes nothing: the manager (history, state, previous state,
  \<^verbatim>\<open>updated_at\<close>) and the clock are as before. Of two calls in a row with the same
  target the second is always such a no-op, so the pair leaves the history as the first call
  left it: unchanged when the target was already the current state, and with one
  transition appended (then cut to the maximal length) otherwise.
\<close>

theorem update_state_same_state_noop:
  "(s = state (mgr_context m) \<longrightarrow> update_state s trig m w = ((False, m), w))
   \<and> (let ((b1, m1), w1) = update_state s trig m w
       in update_state_twice s trig m w = ((False, m1), w1)
          \<and> (s = state (mgr_context m) \<longrightarrow> \<not> b1 \<and> state_history m1 = state_history m)
          \<and> (s \<noteq> state (mgr_context m) \<longrightarrow>
               b1 \<and> state_history m1 =
                 (let h = state_history m @ [\<lparr>from_state = state (mgr_context m), to_state = s,
                                               trigger = trig, timestamp = fst (datetime_now w)\<rparr>]
                  in if length h > max_history_length m
                     then slice_last (max_history_length m) h else h)))"
proof -
  have same: "s = state (mgr_context m) \<longrightarrow> update_state s trig m w = ((False, m), w)"
    by (simp add: update_state_noop)
  obtain b1 m1 w1 where r1: "update_state s trig m w = ((b1, m1), w1)"
    by (metis surj_pair)
  have st1: "state (mgr_context m1) = s"
  proof (cases "s = state (mgr_context m)")
    case True
    then show ?thesis using r1 by (simp add: update_state_noop)
  next
    case False
    then show ?thesis using update_state_accept_history(3) [OF False, of trig w] r1 by simp
  qed
  have r2: "update_state_twice s trig m w = ((False, m1), w1)"
    using st1 r1 by (simp add: update_state_twice_def update_state_noop)
  have a: "s = state (mgr_context m) \<longrightarrow> \<not> b1 \<and> state_history m1 = state_history m"
    using r1 by (auto simp: update_state_noop)
  have b: "s \<noteq> state (mgr_context m) \<longrightarrow>
               b1 \<and> state_history m1 =
                 (let h = state_history m @ [\<lparr>from_state = state (mgr_context m), to_state = s,
                                               trigger = trig, timestamp = fst (datetime_now w)\<rparr>]
                  in if length h > max_history_length m
                     then slice_last (max_history_length m) h else h)"
    using update_state_accept_history(1,2) [of s m trig w] r1 by auto
  show ?thesis using same r1 r2 a b by simp
qed

theorem update_state_same_state_noop_witness:
  "INITIAL = state (mgr_context example_manager)
   \<and> update_state INITIAL ''again'' example_manager example_world1
       = ((False, example_manager), example_world1)
   \<and> GREETING \<noteq> state (mgr_context example_manager)
   \<and> state_history (snd (fst (update_state_twice GREETING ''hello'' example_manager example_world1)))
       = [\<lparr>from_state = INITIAL, to_state = GREETING, trigger = ''hello'',
            timestamp = example_time\<lparr>second := 2\<rparr>\<rparr>]"
proof -
  have h: "state (mgr_context example_manager) = INITIAL"
          "state_history example_manager = []"
          "max_history_length example_manager = 10"
          "fst (datetime_now example_world1) = example_time\<lparr>second := 2\<rparr>"
    by (simp_all add: example_manager_def example_world1_def example_world_def new_manager_def
          new_context_def generate_conversation_id_def datetime_now_def)
  show ?thesis
    using update_state_same_state_noop [of INITIAL example_manager "''again''" example_world1]
          update_state_same_state_noop [of GREETING example_manager "''hello''" example_world1] h
    by (simp add: case_prod_beta)
qed

text \<open>
  Claim C4 as stated fails in its last part: on a fresh manager, whose state is INITIAL, two
  calls of \<^verbatim>\<open>update_state\<close> in a row with target INITIAL append no history entry, not one.
\<close>

theorem update_state_twice_counterexample:
  "state (mgr_context example_manager) = INITIAL
   \<and> state_history example_manager = []
   \<and> state_history (snd (fst (update_state_twice INITIAL ''again'' example_manager example_world1))) = []
   \<and> length (state_history (snd (fst (update_state_twice INITIAL ''again'' example_manager
                                         example_world1))))
       \<noteq> length (state_history example_manager) + 1"
  by (simp add: update_state_twice_def update_state_def example_manager_def example_world1_def
        example_world_def new_manager_def new_context_def generate_conversation_id_def
        datetime_now_def)

text \<open>
  Claim C5. After any sequence of \<^verbatim>\<open>update_state\<close>, \<^verbatim>\<open>update_dialogue_act\<close>,
  \<^verbatim>\<open>update_context\<close> and \<^verbatim>\<open>reset_conversation\<close> calls on a freshly constructed manager,
  the history has at most 10 entries and is the tail of the uncut log of accepted
  transitions: its last \<open>min 10 k\<close> entries in order, \<open>k\<close> being the number accepted since the
  last reset. When the history is full, the next accepted transition drops the oldest entry
  and is appended at the end.
\<close>

theorem history_bounded_fifo:
  "let (m0, w0) = new_manager uid w;
       (m, w') = do_calls cs m0 w0;
       L = transition_log cs m0 w0;
       k = since_reset cs m0 w0 0
   in length (state_history m) \<le> 10
      \<and> state_history m = drop (length L - min 10 k) L
      \<and> (\<forall>s trig. s \<noteq> state (mgr_context m) \<longrightarrow> length (state_history m) = 10 \<longrightarrow>
            state_history (snd (fst (update_state s trig m w'))) =
              tl (state_history m) @ [\<lparr>from_state = state (mgr_context m), to_state = s,
                                        trigger = trig, timestamp = fst (datetime_now w')\<rparr>])"
proof -
  obtain m0 w0 where n: "new_manager uid w = (m0, w0)" by (cases "new_manager uid w")
  obtain m w' where r: "do_calls cs m0 w0 = (m, w')" by (cases "do_calls cs m0 w0")
  have m0: "max_history_length m0 = 10" "state_history m0 = []"
    using new_manager_frame [of uid w] n by simp_all
  have inv: "state_history m =
           (let L = transition_log cs m0 w0; k = since_reset cs m0 w0 0
            in drop (length L - min 10 k) L)"
    and k: "since_reset cs m0 w0 0 \<le> length (transition_log cs m0 w0)"
    and mx: "max_history_length m = 10"
    using history_is_recent_log [of m0 0 "[]" cs w0] m0 r by simp_all
  have len: "length (state_history m) \<le> 10"
    using inv k by (simp add: Let_def)
  have evict: "state_history (snd (fst (update_state s trig m w'))) =
              tl (state_history m) @ [\<lparr>from_state = state (mgr_context m), to_state = s,
                                        trigger = trig, timestamp = fst (datetime_now w')\<rparr>]"
    if "s \<noteq> state (mgr_context m)" "length (state_history m) = 10" for s trig
    using update_state_accept_history(1) [OF that(1), of trig w'] that(2) mx
    by (cases "state_history m") (simp_all add: Let_def slice_last_def)
  show ?thesis using n r inv len evict by (simp add: Let_def)
qed

theorem history_bounded_fifo_witness:
  "ERROR \<noteq> state (mgr_context (fst example_run))
   \<and> length (state_history (fst example_run)) = 10
   \<and> state_history (snd (fst (update_state ERROR ''t14'' (fst example_run) (snd example_run)))) =
       tl (state_history (fst example_run)) @
         [\<lparr>from_state = state (mgr_context (fst example_run)), to_state = ERROR,
           trigger = ''t14'', timestamp = fst (datetime_now (snd example_run))\<rparr>]"
proof -
  have h1: "ERROR \<noteq> state (mgr_context (fst example_run))"
    by (simp add: example_run_def example_manager_def example_world1_def example_calls_def
          new_manager_def new_context_def generate_conversation_id_def datetime_now_def
          update_state_def update_context_def update_dialogue_act_def slice_last_def)
  have h2: "length (state_history (fst example_run)) = 10"
    by (simp add: example_run_def example_manager_def example_world1_def example_calls_def
          new_manager_def new_context_def generate_conversation_id_def datetime_now_def
          update_state_def update_context_def update_dialogue_act_def slice_last_def)
  show ?thesis
    using history_bounded_fifo [of "''alice''" example_world example_calls] h1 h2
    by (simp add: example_run_def example_manager_def example_world1_def Let_def case_prod_beta)
qed

section \<open>Properties of the dialogue act recognizer\<close>

lemma fullmatch_imp_search: "re_fullmatch p t \<Longrightarrow> re_search p t"
  by (cases "rmatch p (None, t)") (simp_all add: re_fullmatch_def re_search_def)

lemma score_first_match:
  "calculate_pattern_score t ps =
     (case find (\<lambda>p. re_search p t) ps of
        None \<Rightarrow> 0
      | Some p \<Rightarrow> if re_fullmatch p t then 9 / 10 else 7 / 10)"
  by (induction ps) simp_all

lemma score_values: "calculate_pattern_score t ps \<in> {0, 7 / 10, 9 / 10}"
  by (induction ps) simp_all

lemma score_none: "\<forall>p\<in>set ps. \<not> re_search p t \<Longrightarrow> calculate_pattern_score t ps = 0"
  by (induction ps) simp_all

lemma score_partial:
  "\<exists>p\<in>set ps. re_search p t \<Longrightarrow> \<forall>p\<in>set ps. \<not> re_fullmatch p t
     \<Longrightarrow> calculate_pattern_score t ps = 7 / 10"
  by (induction ps) auto

lemma score_full: "calculate_pattern_score t ps = 9 / 10 \<Longrightarrow> \<exists>p\<in>set ps. re_fullmatch p t"
  by (induction ps) (auto split: if_splits)

lemma recognize_loop_result:
  "recognize_loop tbl t (b, bs) = (a, sc) \<Longrightarrow>
     (a = b \<and> sc = bs \<and> (\<forall>(a', ps')\<in>set tbl. calculate_pattern_score t ps' \<le> bs))
     \<or> (\<exists>pre ps post. tbl = pre @ (a, ps) # post \<and> sc = calculate_pattern_score t ps
            \<and> bs < sc
            \<and> (\<forall>(a', ps')\<in>set pre. calculate_pattern_score t ps' < sc)
            \<and> (\<forall>(a', ps')\<in>set post. calculate_pattern_score t ps' \<le> sc))"
proof (induction tbl arbitrary: b bs)
  case Nil
  then show ?case by simp
next
  case (Cons entry tbl)
  obtain act ps where entry: "entry = (act, ps)" by (cases entry)
  let ?s = "calculate_pattern_score t ps"
  show ?case
  proof (cases "?s > bs")
    case True
    then have "recognize_loop tbl t (act, ?s) = (a, sc)"
      using Cons.prems entry by simp
    from Cons.IH [OF this] show ?thesis
    proof
      assume h: "a = act \<and> sc = ?s \<and> (\<forall>(a', ps')\<in>set tbl. calculate_pattern_score t ps' \<le> ?s)"
      have "entry # tbl = [] @ (a, ps) # tbl" using entry h by simp
      moreover have "sc = ?s" "bs < sc" using h True by simp_all
      moreover have "\<forall>(a', ps')\<in>set tbl. calculate_pattern_score t ps' \<le> sc" using h by simp
      ultimately show ?thesis by (intro disjI2 exI [of _ "[]"] exI [of _ ps] exI [of _ tbl]) simp
    next
      assume "\<exists>pre ps0 post. tbl = pre @ (a, ps0) # post \<and> sc = calculate_pattern_score t ps0
            \<and> ?s < sc
            \<and> (\<forall>(a', ps')\<in>set pre. calculate_pattern_score t ps' < sc)
            \<and> (\<forall>(a', ps')\<in>set post. calculate_pattern_score t ps' \<le> sc)"
      then obtain pre ps0 post where h: "tbl = pre @ (a, ps0) # post"
          "sc = calculate_pattern_score t ps0" "?s < sc"
          "\<forall>(a', ps')\<in>set pre. calculate_pattern_score t ps' < sc"
          "\<forall>(a', ps')\<in>set post. calculate_pattern_score t ps' \<le> sc"
        by blast
      have "entry # tbl = (entry # pre) @ (a, ps0) # post" using h(1) by simp
      moreover have "bs < sc" using True h(3) by simp
      moreover have "\<forall>(a', ps')\<in>set (entry # pre). calculate_pattern_score t ps' < sc"
        using h(3,4) entry by simp
      ultimately show ?thesis using h(2,5)
        by (intro disjI2 exI [of _ "entry # pre"] exI [of _ ps0] exI [of _ post]) simp
    qed
  next
    case False
    then have "recognize_loop tbl t (b, bs) = (a, sc)"
      using Cons.prems entry by simp
    from Cons.IH [OF this] show ?thesis
    proof
      assume "a = b \<and> sc = bs \<and> (\<forall>(a', ps')\<in>set tbl. calculate_pattern_score t ps' \<le> bs)"
      then show ?thesis using False entry by simp
    next
      assume "\<exists>pre ps0 post. tbl = pre @ (a, ps0) # post \<and> sc = calculate_pattern_score t ps0
            \<and> bs < sc
            \<and> (\<forall>(a', ps')\<in>set pre. calculate_pattern_score t ps' < sc)
            \<and> (\<forall>(a', ps')\<in>set post. calculate_pattern_score t ps' \<le> sc)"
      then obtain pre ps0 post where h: "tbl = pre @ (a, ps0) # post"
          "sc = calculate_pattern_score t ps0" "bs < sc"
          "\<forall>(a', ps')\<in>set pre. calculate_pattern_score t ps' < sc"
          "\<forall>(a', ps')\<in>set post. calculate_pattern_score t ps' \<le> sc"
        by blast
      have "entry # tbl = (entry # pre) @ (a, ps0) # post" using h(1) by simp
      moreover have "\<forall>(a', ps')\<in>set (entry # pre). calculate_pattern_score t ps' < sc"
        using h(3,4) entry False by auto
      ultimately show ?thesis using h(2,3,5)
        by (intro disjI2 exI [of _ "entry # pre"] exI [of _ ps0] exI [of _ post]) simp
    qed
  qed
qed

lemma recognize_loop_range:
  assumes "recognize_loop tbl t (b, bs) = (a, sc)" and "0 \<le> bs"
  shows "(a = b \<and> sc = bs) \<or> (a \<in> fst ` set tbl \<and> sc \<in> {7 / 10, 9 / 10} \<and> bs < sc)"
  using recognize_loop_result [OF assms(1)]
proof (elim disjE exE conjE)
  fix pre ps post
  assume h: "tbl = pre @ (a, ps) # post" "sc = calculate_pattern_score t ps" "bs < sc"
  have "sc \<in> {7 / 10, 9 / 10}" using h(2,3) assms(2) score_values [of t ps] by auto
  moreover have "a \<in> fst ` set tbl" using h(1) by force
  ultimately show ?thesis using h(3) by simp
qed simp

text \<open>
  Claim C7, as amended. The score of an act is decided by the first of its patterns, in
  table order, that is found in the text: 0.9 if that pattern also matches the whole text,
  0.7 if it does not, and 0.0 if no pattern is found. So the score is 0.0 when no pattern
  is found, 0.7 when some pattern is found and none matches the whole text, and 0.9 only
  if some pattern matches the whole text (a pattern that matches the whole text is also
  found in it). For a text whose lowercased trimmed form \<open>t\<close> is not empty,
  \<^verbatim>\<open>recognize_act\<close> returns (STATEMENT, 0.1) when no act scores above 0.1, and otherwise
  the first act of the table whose score is the highest, with that score.
\<close>

theorem pattern_score_first_match:
  "calculate_pattern_score t ps =
     (case find (\<lambda>p. re_search p t) ps of
        None \<Rightarrow> 0
      | Some p \<Rightarrow> if re_fullmatch p t then 9 / 10 else 7 / 10)
   \<and> ((\<forall>p\<in>set ps. \<not> re_search p t) \<longrightarrow> calculate_pattern_score t ps = 0)
   \<and> ((\<exists>p\<in>set ps. re_search p t) \<and> (\<forall>p\<in>set ps. \<not> re_fullmatch p t)
        \<longrightarrow> calculate_pattern_score t ps = 7 / 10)
   \<and> (calculate_pattern_score t ps = 9 / 10 \<longrightarrow> (\<exists>p\<in>set ps. re_fullmatch p t))
   \<and> (\<forall>p\<in>set ps. re_fullmatch p t \<longrightarrow> re_search p t)
   \<and> (py_strip (py_lower text) = t \<and> t \<noteq> [] \<longrightarrow>
        (let (a, sc) = recognize_act text
         in ((\<forall>(a', ps')\<in>set dialogue_patterns. calculate_pattern_score t ps' \<le> 1 / 10)
               \<longrightarrow> (a, sc) = (DA_STATEMENT, 1 / 10))
            \<and> ((\<exists>(a', ps')\<in>set dialogue_patterns. 1 / 10 < calculate_pattern_score t ps')
               \<longrightarrow> (\<exists>pre ps0 post.
                      dialogue_patterns = pre @ (a, ps0) # post
                      \<and> sc = calculate_pattern_score t ps0
                      \<and> (\<forall>(a', ps')\<in>set pre. calculate_pattern_score t ps' < sc)
                      \<and> (\<forall>(a', ps')\<in>set post. calculate_pattern_score t ps' \<le> sc)))))"
proof -
  have rec: "(let (a, sc) = recognize_act text
         in ((\<forall>(a', ps')\<in>set dialogue_patterns. calculate_pattern_score t ps' \<le> 1 / 10)
               \<longrightarrow> (a, sc) = (DA_STATEMENT, 1 / 10))
            \<and> ((\<exists>(a', ps')\<in>set dialogue_patterns. 1 / 10 < calculate_pattern_score t ps')
               \<longrightarrow> (\<exists>pre ps0 post.
                      dialogue_patterns = pre @ (a, ps0) # post
                      \<and> sc = calculate_pattern_score t ps0
                      \<and> (\<forall>(a', ps')\<in>set pre. calculate_pattern_score t ps' < sc)
                      \<and> (\<forall>(a', ps')\<in>set post. calculate_pattern_score t ps' \<le> sc))))"
    if t: "py_strip (py_lower text) = t" "t \<noteq> []"
  proof -
    obtain a sc where r: "recognize_act text = (a, sc)" by (cases "recognize_act text")
    then have loop: "recognize_loop dialogue_patterns t (DA_STATEMENT, 1 / 10) = (a, sc)"
      using t by (simp add: recognize_act_def)
    from recognize_loop_result [OF loop] show ?thesis
    proof
      assume "a = DA_STATEMENT \<and> sc = 1 / 10
              \<and> (\<forall>(a', ps')\<in>set dialogue_patterns. calculate_pattern_score t ps' \<le> 1 / 10)"
      then have "(\<forall>(a', ps')\<in>set dialogue_patterns. calculate_pattern_score t ps' \<le> 1 / 10)
                   \<longrightarrow> (a, sc) = (DA_STATEMENT, 1 / 10)"
            and "\<not> (\<exists>(a', ps')\<in>set dialogue_patterns. 1 / 10 < calculate_pattern_score t ps')"
        by (simp, fastforce simp: not_less)
      then show ?thesis unfolding r Let_def prod.case by blast
    next
      assume "\<exists>pre ps post. dialogue_patterns = pre @ (a, ps) # post
                \<and> sc = calculate_pattern_score t ps \<and> 1 / 10 < sc
                \<and> (\<forall>(a', ps')\<in>set pre. calculate_pattern_score t ps' < sc)
                \<and> (\<forall>(a', ps')\<in>set post. calculate_pattern_score t ps' \<le> sc)"
      then obtain pre ps0 post where h: "dialogue_patterns = pre @ (a, ps0) # post"
          "sc = calculate_pattern_score t ps0" "1 / 10 < sc"
          "\<forall>(a', ps')\<in>set pre. calculate_pattern_score t ps' < sc"
          "\<forall>(a', ps')\<in>set post. calculate_pattern_score t ps' \<le> sc"
        by blast
      have "(a, ps0) \<in> set dialogue_patterns" by (metis h(1) in_set_conv_decomp)
      then have mem: "(a, ps0) \<in> set dialogue_patterns" .
      have "\<not> (\<forall>(a', ps')\<in>set dialogue_patterns. calculate_pattern_score t ps' \<le> 1 / 10)"
      proof
        assume "\<forall>(a', ps')\<in>set dialogue_patterns. calculate_pattern_score t ps' \<le> 1 / 10"
        with mem have "calculate_pattern_score t ps0 \<le> 1 / 10" by fastforce
        then show False using h(2,3) by simp
      qed
      moreover have "\<exists>pre ps0 post.
                      dialogue_patterns = pre @ (a, ps0) # post
                      \<and> sc = calculate_pattern_score t ps0
                      \<and> (\<forall>(a', ps')\<in>set pre. calculate_pattern_score t ps' < sc)
                      \<and> (\<forall>(a', ps')\<in>set post. calculate_pattern_score t ps' \<le> sc)"
        using h by blast
      ultimately show ?thesis unfolding r Let_def prod.case by blast
    qed
  qed
  show ?thesis
    using score_first_match [of t ps] score_none [of ps t] score_partial [of ps t]
      score_full [of t ps] fullmatch_imp_search [of _ t] rec
    by blast
qed

theorem pattern_score_first_match_witness:
  "(\<exists>p\<in>set (patterns_of DA_GREETING). re_search p ''hello there'')
   \<and> \<not> (\<exists>p\<in>set (patterns_of DA_GREETING). re_fullmatch p ''hello there'')
   \<and> calculate_pattern_score ''hello there'' (patterns_of DA_GREETING) = 7 / 10
   \<and> py_strip (py_lower ''Hello there'') = ''hello there''
   \<and> (\<exists>(a', ps')\<in>set dialogue_patterns. 1 / 10 < calculate_pattern_score ''hello there'' ps')
   \<and> (\<exists>pre ps0 post.
          dialogue_patterns = pre @ (fst (recognize_act ''Hello there''), ps0) # post
          \<and> snd (recognize_act ''Hello there'') = calculate_pattern_score ''hello there'' ps0
          \<and> (\<forall>(a', ps')\<in>set pre. calculate_pattern_score ''hello there'' ps'
                                    < snd (recognize_act ''Hello there''))
          \<and> (\<forall>(a', ps')\<in>set post. calculate_pattern_score ''hello there'' ps'
                                     \<le> snd (recognize_act ''Hello there'')))"
proof -
  note T = pattern_score_first_match
             [of "''hello there''" "patterns_of DA_GREETING" "''Hello there''"]
  have h1: "\<exists>p\<in>set (patterns_of DA_GREETING). re_search p ''hello there''"
    by code_simp
  have h2: "\<not> (\<exists>p\<in>set (patterns_of DA_GREETING). re_fullmatch p ''hello there'')"
    by code_simp
  have h3: "py_strip (py_lower ''Hello there'') = ''hello there''"
    by code_simp
  have h4: "\<exists>(a', ps')\<in>set dialogue_patterns.
              1 / 10 < calculate_pattern_score ''hello there'' ps'"
    by code_simp
  have s: "calculate_pattern_score ''hello there'' (patterns_of DA_GREETING) = 7 / 10"
    using T h1 h2 by blast
  have "py_strip (py_lower ''Hello there'') = ''hello there'' \<and> ''hello there'' \<noteq> []"
    using h3 by simp
  then have r: "\<exists>pre ps0 post.
          dialogue_patterns = pre @ (fst (recognize_act ''Hello there''), ps0) # post
          \<and> snd (recognize_act ''Hello there'') = calculate_pattern_score ''hello there'' ps0
          \<and> (\<forall>(a', ps')\<in>set pre. calculate_pattern_score ''hello there'' ps'
                                    < snd (recognize_act ''Hello there''))
          \<and> (\<forall>(a', ps')\<in>set post. calculate_pattern_score ''hello there'' ps'
                                     \<le> snd (recognize_act ''Hello there''))"
    using T h4 by (simp add: case_prod_beta)
  show ?thesis using h1 h2 h3 h4 s r by blast
qed

text \<open>
  Claim C7 as stated fails: for the text \<^verbatim>\<open>so what?\<close> the third QUESTION pattern
  (\<^verbatim>\<open>.*\?$\<close>) matches the whole text, yet the score of QUESTION is 0.7, since the first
  pattern is found in the text without matching all of it and the loop returns there.
\<close>

theorem pattern_score_counterexample:
  "py_strip (py_lower ''so what?'') = ''so what?''
   \<and> re_fullmatch (patterns_of DA_QUESTION ! 2) ''so what?''
   \<and> calculate_pattern_score ''so what?'' (patterns_of DA_QUESTION) = 7 / 10
   \<and> recognize_act ''so what?'' = (DA_QUESTION, 7 / 10)"
  by code_simp

text \<open>
  Claim C8. \<^verbatim>\<open>recognize_act\<close> is a total function of the text with no error result. When the
  lowercased trimmed text is empty it returns exactly (ERROR, 0.0); otherwise it returns a
  member of the enumeration other than ERROR, with a confidence between 0 and 1 (one of
  0.1, 0.7 and 0.9).
\<close>

theorem recognize_act_total:
  "(py_strip (py_lower text) = [] \<longrightarrow> recognize_act text = (DA_ERROR, 0))
   \<and> (py_strip (py_lower text) \<noteq> [] \<longrightarrow>
        fst (recognize_act text) \<in> set all_dialogue_acts
        \<and> 0 \<le> snd (recognize_act text) \<and> snd (recognize_act text) \<le> 1
        \<and> fst (recognize_act text) \<noteq> DA_ERROR
        \<and> snd (recognize_act text) \<in> {1 / 10, 7 / 10, 9 / 10})"
proof -
  have "fst (recognize_act text) \<in> set all_dialogue_acts"
    by (cases "fst (recognize_act text)") (simp_all add: all_dialogue_acts_def)
  moreover have "fst (recognize_act text) \<noteq> DA_ERROR
        \<and> snd (recognize_act text) \<in> {1 / 10, 7 / 10, 9 / 10}"
    if ne: "py_strip (py_lower text) \<noteq> []"
  proof -
    obtain a sc where r: "recognize_act text = (a, sc)" by (cases "recognize_act text")
    then have loop: "recognize_loop dialogue_patterns (py_strip (py_lower text))
                       (DA_STATEMENT, 1 / 10) = (a, sc)"
      using ne by (simp add: recognize_act_def)
    have "fst ` set dialogue_patterns =
            {DA_GREETING, DA_CLOSING, DA_QUESTION, DA_REQUEST, DA_CONFIRMATION,
             DA_CLARIFICATION, DA_ACKNOWLEDGMENT}"
      by (simp add: dialogue_patterns_def)
    then have "b \<noteq> DA_ERROR" if "b \<in> fst ` set dialogue_patterns" for b
      using that by auto
    then show ?thesis using recognize_loop_range [OF loop] r by fastforce
  qed
  ultimately show ?thesis by (auto simp: recognize_act_def)
qed

theorem recognize_act_total_witness:
  "py_strip (py_lower ''   '') = [] \<and> recognize_act ''   '' = (DA_ERROR, 0)
   \<and> py_strip (py_lower '' Hello there'') \<noteq> []
   \<and> 0 \<le> snd (recognize_act '' Hello there'') \<and> snd (recognize_act '' Hello there'') \<le> 1"
proof -
  have h1: "py_strip (py_lower ''   '') = []" by code_simp
  have h2: "py_strip (py_lower '' Hello there'') \<noteq> []" by code_simp
  show ?thesis
    using recognize_act_total [of "''   ''"] recognize_act_total [of "'' Hello there''"] h1 h2
    by simp
qed

section \<open>Properties of the ambiguity detector\<close>

lemma calculate_confidence_range:
  "0 \<le> calculate_confidence ty mt tlow \<and> calculate_confidence ty mt tlow \<le> 1"
  by (simp add: calculate_confidence_def Let_def double_literals(1,2))

lemma create_confidence_range:
  "0 \<le> confidence (create_ambiguity_detection ty sp text tlow)
   \<and> confidence (create_ambiguity_detection ty sp text tlow) \<le> 1"
  using calculate_confidence_range
  by (simp add: create_ambiguity_detection_def Let_def case_prod_beta)

lemma pattern_confidence_range:
  "a \<in> set (detect_pattern_ambiguities text tlow) \<Longrightarrow> 0 \<le> confidence a \<and> confidence a \<le> 1"
  using create_confidence_range
  by (auto simp: detect_pattern_ambiguities_def)

lemma keyword_confidence_range:
  "a \<in> set (detect_keyword_ambiguities tlow) \<Longrightarrow> 0 \<le> confidence a \<and> confidence a \<le> 1"
  unfolding detect_keyword_ambiguities_def Let_def double_literals
  by (auto split: if_splits)

lemma dialogue_confidence_range:
  "detect_dialogue_act_ambiguity text = Some a \<Longrightarrow> 0 \<le> confidence a \<and> confidence a \<le> 1"
  unfolding detect_dialogue_act_ambiguity_def Let_def double_literals
  by (auto split: if_splits)

lemma collect_confidence_range:
  "a \<in> set (collect_ambiguities text) \<Longrightarrow> 0 \<le> confidence a \<and> confidence a \<le> 1"
  using pattern_confidence_range keyword_confidence_range dialogue_confidence_range
  by (auto simp: collect_ambiguities_def Let_def split: option.splits)

text \<open>The loop keeps, after the entries it already has, the first entry of each new key.\<close>

lemma remove_duplicates_loop_distinct:
  "distinct (map pos_key unique) \<Longrightarrow> pos_key ` set unique \<subseteq> seen
     \<Longrightarrow> distinct (map pos_key (remove_duplicates_loop xs seen unique))"
  by (induction xs seen unique rule: remove_duplicates_loop.induct) auto

lemma remove_duplicates_loop_first:
  "a \<in> set (remove_duplicates_loop xs seen unique) \<Longrightarrow>
     a \<in> set unique
     \<or> (\<exists>pre post. xs = pre @ a # post \<and> pos_key a \<notin> seen \<and> pos_key a \<notin> pos_key ` set pre)"
proof (induction xs seen unique rule: remove_duplicates_loop.induct)
  case (1 seen unique)
  then show ?case by simp
next
  case (2 x rest seen unique)
  show ?case
  proof (cases "pos_key x \<notin> seen")
    case True
    then have "a \<in> set (remove_duplicates_loop rest (insert (pos_key x) seen) (unique @ [x]))"
      using "2.prems" by simp
    from "2.IH"(1) [OF True this] show ?thesis
    proof (elim disjE exE conjE)
      assume "a \<in> set (unique @ [x])"
      then show ?thesis using True by (auto intro: exI [of _ "[]"])
    next
      fix pre post
      assume "rest = pre @ a # post" "pos_key a \<notin> insert (pos_key x) seen"
             "pos_key a \<notin> pos_key ` set pre"
      then have "x # rest = (x # pre) @ a # post \<and> pos_key a \<notin> seen
                 \<and> pos_key a \<notin> pos_key ` set (x # pre)"
        by auto
      then show ?thesis by blast
    qed
  next
    case False
    then have "a \<in> set (remove_duplicates_loop rest seen unique)"
      using "2.prems" by simp
    from "2.IH"(2) [OF False this] show ?thesis
    proof (elim disjE exE conjE)
      assume "a \<in> set unique"
      then show ?thesis by simp
    next
      fix pre post
      assume h: "rest = pre @ a # post" "pos_key a \<notin> seen" "pos_key a \<notin> pos_key ` set pre"
      then have "pos_key a \<noteq> pos_key x" using False by auto
      then have "x # rest = (x # pre) @ a # post \<and> pos_key a \<notin> seen
                 \<and> pos_key a \<notin> pos_key ` set (x # pre)"
        using h by auto
      then show ?thesis by blast
    qed
  qed
qed

lemma remove_duplicates_loop_keeps:
  "set unique \<subseteq> set (remove_duplicates_loop xs seen unique)"
  by (induction xs seen unique rule: remove_duplicates_loop.induct) auto

lemma remove_duplicates_loop_keys:
  "pos_key ` set xs \<subseteq> seen \<union> pos_key ` set (remove_duplicates_loop xs seen unique)"
proof (induction xs seen unique rule: remove_duplicates_loop.induct)
  case (1 seen unique)
  then show ?case by simp
next
  case (2 x rest seen unique)
  show ?case
  proof (cases "pos_key x \<notin> seen")
    case True
    have "x \<in> set (remove_duplicates_loop rest (insert (pos_key x) seen) (unique @ [x]))"
      using remove_duplicates_loop_keeps [of "unique @ [x]" rest "insert (pos_key x) seen"]
      by auto
    then show ?thesis using "2.IH"(1) [OF True] True by auto
  next
    case False
    then show ?thesis using "2.IH"(2) [OF False] by auto
  qed
qed

lemma remove_duplicates_subset:
  "set (remove_duplicates xs) \<subseteq> set xs"
proof
  fix a
  assume "a \<in> set (remove_duplicates xs)"
  then obtain pre post where "xs = pre @ a # post"
    using remove_duplicates_loop_first [of a xs "{}" "[]"]
    by (auto simp: remove_duplicates_def)
  then show "a \<in> set xs" by simp
qed

lemma sort_by_confidence_sorted:
  "sorted_wrt (\<lambda>a b. confidence b \<le> confidence a) (sort_by_confidence xs)"
proof -
  have "sorted (map (\<lambda>a. - confidence a) (sort_by_confidence xs))"
    unfolding sort_by_confidence_def by (rule sorted_sort_key)
  then show ?thesis by (simp add: sorted_map)
qed

lemma sort_by_confidence_set: "set (sort_by_confidence xs) = set xs"
  by (simp add: sort_by_confidence_def)

lemma sort_by_confidence_distinct:
  "distinct (map pos_key (sort_by_confidence xs)) = distinct (map pos_key xs)"
proof -
  have "mset (map pos_key (sort_by_confidence xs)) = mset (map pos_key xs)"
    by (simp add: sort_by_confidence_def)
  then show ?thesis by (rule mset_eq_imp_distinct_iff)
qed

text \<open>
  The order is that of the doubles. In \<^verbatim>\<open>how about it? this\<close> the ENTITY detection of
  \<^verbatim>\<open>this\<close> has the confidence \<^verbatim>\<open>0.7 + 0.1\<close>, which is \<^verbatim>\<open>0.7999999999999999\<close>, and comes
  after the INTENT detection of confidence \<^verbatim>\<open>0.8\<close> although it is found before it.
\<close>

lemma detect_how_about_it_this:
  "map (\<lambda>a. (amb_type a, confidence a, position a)) (collect_ambiguities ''how about it? this'')
     = [(ENTITY_AMBIGUITY, fl (7 / 10), (10, 12)),
        (ENTITY_AMBIGUITY, fadd (fl (7 / 10)) (fl (1 / 10)), (14, 18)),
        (INTENT_AMBIGUITY, fl (8 / 10), (0, 9)),
        (REFERENCE_AMBIGUITY, fl (7 / 10), (10, 13))]"
  "map (\<lambda>a. (amb_type a, confidence a, position a)) (detect_ambiguities ''how about it? this'')
     = [(INTENT_AMBIGUITY, fl (8 / 10), (0, 9)),
        (ENTITY_AMBIGUITY, fadd (fl (7 / 10)) (fl (1 / 10)), (14, 18)),
        (ENTITY_AMBIGUITY, fl (7 / 10), (10, 12)),
        (REFERENCE_AMBIGUITY, fl (7 / 10), (10, 13))]"
  by code_simp+

text \<open>
  Claim C9. For every text, the list that \<^verbatim>\<open>detect_ambiguities\<close> returns is sorted by
  confidence, largest first; no two of its elements have the same key (start, end, type);
  every confidence lies between 0 and 1. Each element is the first one with its key in the
  list of all detections (so of two detections with the same key the later one is
  dropped), and every key of that list is kept.
\<close>

theorem detect_ambiguities_sorted_unique:
  "sorted_wrt (\<lambda>a b. confidence b \<le> confidence a) (detect_ambiguities text)
   \<and> distinct (map pos_key (detect_ambiguities text))
   \<and> (\<forall>a\<in>set (detect_ambiguities text). 0 \<le> confidence a \<and> confidence a \<le> 1)
   \<and> (\<forall>a\<in>set (detect_ambiguities text).
         \<exists>pre post. collect_ambiguities text = pre @ a # post
                    \<and> pos_key a \<notin> pos_key ` set pre)
   \<and> pos_key ` set (detect_ambiguities text) = pos_key ` set (collect_ambiguities text)"
proof -
  let ?raw = "collect_ambiguities text"
  have set_eq: "set (detect_ambiguities text) = set (remove_duplicates ?raw)"
    by (simp add: detect_ambiguities_def sort_by_confidence_set)
  have srt: "sorted_wrt (\<lambda>a b. confidence b \<le> confidence a) (detect_ambiguities text)"
    by (simp add: detect_ambiguities_def sort_by_confidence_sorted)
  have dst: "distinct (map pos_key (detect_ambiguities text))"
    using remove_duplicates_loop_distinct [of "[]" "{}" ?raw]
    by (simp add: detect_ambiguities_def sort_by_confidence_distinct remove_duplicates_def)
  have rng: "\<forall>a\<in>set (detect_ambiguities text). 0 \<le> confidence a \<and> confidence a \<le> 1"
    using set_eq remove_duplicates_subset [of ?raw] collect_confidence_range [of _ "text"]
    by blast
  have fst: "\<forall>a\<in>set (detect_ambiguities text).
         \<exists>pre post. ?raw = pre @ a # post \<and> pos_key a \<notin> pos_key ` set pre"
    using set_eq remove_duplicates_loop_first [of _ ?raw "{}" "[]"]
    by (auto simp: remove_duplicates_def)
  have "pos_key ` set ?raw \<subseteq> pos_key ` set (remove_duplicates ?raw)"
    using remove_duplicates_loop_keys [of ?raw "{}" "[]"] by (simp add: remove_duplicates_def)
  then have keys: "pos_key ` set (detect_ambiguities text) = pos_key ` set ?raw"
    using set_eq remove_duplicates_subset [of ?raw] by blast
  show ?thesis using srt dst rng fst keys by blast
qed

theorem detect_ambiguities_sorted_unique_witness:
  "detect_ambiguities ''can you say what?'' \<noteq> []
   \<and> 0 \<le> confidence (hd (detect_ambiguities ''can you say what?''))
   \<and> confidence (hd (detect_ambiguities ''can you say what?'')) \<le> 1
   \<and> length (collect_ambiguities ''can you say what?'') = 2
   \<and> length (detect_ambiguities ''can you say what?'') = 1
   \<and> (\<exists>pre post. collect_ambiguities ''can you say what?''
                       = pre @ hd (detect_ambiguities ''can you say what?'') # post
                    \<and> pos_key (hd (detect_ambiguities ''can you say what?''))
                        \<notin> pos_key ` set pre)"
proof -
  have len: "length (collect_ambiguities ''can you say what?'') = 2"
            "length (detect_ambiguities ''can you say what?'') = 1"
    by code_simp+
  then have ne: "detect_ambiguities ''can you say what?'' \<noteq> []" by auto
  then have "hd (detect_ambiguities ''can you say what?'')
               \<in> set (detect_ambiguities ''can you say what?'')"
    by simp
  then show ?thesis
    using detect_ambiguities_sorted_unique [of "''can you say what?''"] len ne by blast
qed

section \<open>Properties of the question generator and the interface\<close>

lemma random_choice_Inr:
  "xs \<noteq> [] \<Longrightarrow> \<exists>x w'. random_choice xs w = (Inr x, w') \<and> x \<in> set xs"
  by (simp add: random_choice_def)

lemma question_templates_nonempty:
  "(case map_of question_templates ty of Some ts \<Rightarrow> ts | None \<Rightarrow> question_fallback_templates) \<noteq> []"
  by (cases ty) (simp_all add: question_templates_def)

lemma response_templates_nonempty:
  "(case map_of response_templates key of Some ts \<Rightarrow> ts | None \<Rightarrow> response_fallback_templates) \<noteq> []"
proof (cases "map_of response_templates key")
  case None
  then show ?thesis by (simp add: response_fallback_templates_def)
next
  case (Some ts)
  then have "(key, ts) \<in> set response_templates" by (rule map_of_SomeD)
  then have "ts \<noteq> []" by (auto simp: response_templates_def)
  then show ?thesis using Some by simp
qed

lemma template_fallbacks_nonempty:
  "(case map_of template_fallbacks act of Some ts \<Rightarrow> ts
    | None \<Rightarrow> [''I'm here to help. What can I do for you?'']) \<noteq> []"
  by (cases act) (simp_all add: template_fallbacks_def)

text \<open>The questions that can be asked about an ambiguity of a given type, framed or not.\<close>

lemma add_context_to_question_Inr:
  "\<exists>q w'. add_context_to_question question ctx w = (Inr q, w')
          \<and> q \<in> (\<lambda>f. py_replace f ''{question}'' question)
                 ` set (case map_of contextual_templates ''default'' of
                           Some ts \<Rightarrow> ts | None \<Rightarrow> [''{question}''])"
proof -
  let ?ts = "case map_of contextual_templates ''default'' of
               Some ts \<Rightarrow> ts | None \<Rightarrow> [''{question}'']"
  have "?ts \<noteq> []" by (simp add: contextual_templates_def)
  from random_choice_Inr [OF this, of w] obtain f w' where
    "random_choice ?ts w = (Inr f, w')" "f \<in> set ?ts" by blast
  then show ?thesis by (auto simp: add_context_to_question_def Let_def)
qed

lemma generate_response_Inr:
  "\<exists>r w'. generate_response user_input l m act w = (Inr r, w')"
proof -
  let ?ts = "case map_of response_templates (act, state (get_context m)) of
               Some ts \<Rightarrow> ts | None \<Rightarrow> response_fallback_templates"
  from random_choice_Inr [OF response_templates_nonempty, of "(act, state (get_context m))" w]
  obtain t w' where "random_choice ?ts w = (Inr t, w')" by blast
  then show ?thesis by (simp add: generate_response_def Let_def)
qed

lemma generate_template_response_Inr:
  "\<exists>r w'. generate_template_response act m w = (Inr r, w')"
proof -
  let ?fb = "case map_of template_fallbacks act of Some ts \<Rightarrow> ts
             | None \<Rightarrow> [''I'm here to help. What can I do for you?'']"
  show ?thesis
  proof (cases "map_of response_templates (act, state (get_context m))")
    case None
    from random_choice_Inr [OF template_fallbacks_nonempty, of act w]
    show ?thesis using None by (auto simp: generate_template_response_def Let_def)
  next
    case (Some ts)
    show ?thesis
    proof (cases ts)
      case Nil
      from random_choice_Inr [OF template_fallbacks_nonempty, of act w]
      show ?thesis using Some Nil by (auto simp: generate_template_response_def Let_def)
    next
      case (Cons t ts')
      from random_choice_Inr [of "t # ts'" w]
      show ?thesis using Some Cons by (auto simp: generate_template_response_def Let_def)
    qed
  qed
qed

lemma generate_clarification_question_Inr:
  assumes "ctx = Some kvs" and "kvs \<noteq> []"
  shows "\<exists>q w'. generate_clarification_question a ctx w = (Inr q, w')
                \<and> q \<in> set (question_pool (amb_type a))"
proof -
  let ?ts = "case map_of question_templates (amb_type a) of
               Some ts \<Rightarrow> ts | None \<Rightarrow> question_fallback_templates"
  from random_choice_Inr [OF question_templates_nonempty, of "amb_type a" w]
  obtain t w1 where t: "random_choice ?ts w = (Inr t, w1)" "t \<in> set ?ts" by blast
  from add_context_to_question_Inr [of t kvs w1]
  obtain q w2 where q: "add_context_to_question t kvs w1 = (Inr q, w2)"
      "q \<in> (\<lambda>f. py_replace f ''{question}'' t)
             ` set (case map_of contextual_templates ''default'' of
                      Some ts \<Rightarrow> ts | None \<Rightarrow> [''{question}''])"
    by blast
  have "q \<in> set (question_pool (amb_type a))"
    using t(2) q(2) by (auto simp: question_pool_def)
  moreover have "generate_clarification_question a ctx w = (Inr q, w2)"
    using assms t(1) q(1)
    by (simp add: generate_clarification_question_def Let_def dict_truthy_def
          customize_template_def)
  ultimately show ?thesis by blast
qed

lemma generate_questions_loop_Inr:
  assumes "ctx = Some kvs" and "kvs \<noteq> []"
  shows "\<exists>qs w'. generate_questions_loop as ctx acc w = (Inr (acc @ qs), w')
                 \<and> list_all2 (\<lambda>a q. q \<in> set (question_pool (amb_type a))) as qs"
proof (induction as arbitrary: acc w)
  case Nil
  then show ?case by simp
next
  case (Cons a as)
  from generate_clarification_question_Inr [OF assms, of a w]
  obtain q w1 where q: "generate_clarification_question a ctx w = (Inr q, w1)"
      "q \<in> set (question_pool (amb_type a))" by blast
  from Cons.IH [of "acc @ [q]" w1]
  obtain qs w2 where qs: "generate_questions_loop as ctx (acc @ [q]) w1 = (Inr ((acc @ [q]) @ qs), w2)"
      "list_all2 (\<lambda>a q. q \<in> set (question_pool (amb_type a))) as qs" by blast
  have "generate_questions_loop (a # as) ctx acc w = (Inr (acc @ (q # qs)), w2)"
    using q(1) qs(1) by simp
  moreover have "list_all2 (\<lambda>a q. q \<in> set (question_pool (amb_type a))) (a # as) (q # qs)"
    using q(2) qs(2) by simp
  ultimately show ?case by blast
qed

lemma generate_multiple_questions_Inr:
  assumes "ctx = Some kvs" and "kvs \<noteq> []"
  shows "\<exists>qs w'. generate_multiple_questions high n ctx w = (Inr qs, w')
                 \<and> list_all2 (\<lambda>a q. q \<in> set (question_pool (amb_type a)))
                      (take n (sort_by_confidence high)) qs"
  using generate_questions_loop_Inr [OF assms, of "take n (sort_by_confidence high)" "[]" w]
  by (simp add: generate_multiple_questions_def Let_def)

lemma get_conversation_context_nonempty: "get_conversation_context iface \<noteq> []"
  by (simp add: get_conversation_context_def Let_def)

text \<open>What the single steps of \<^verbatim>\<open>process_input\<close> do to the manager.\<close>

lemma update_context_turn:
  "update_context [Set_last_user_input u, Set_turn_count n] m w =
     ((True, m\<lparr>mgr_context := (mgr_context m)\<lparr>last_user_input := u, turn_count := n,
                                              updated_at := fst (datetime_now w)\<rparr>\<rparr>),
      snd (datetime_now w))"
  by (simp add: update_context_def Let_def case_prod_beta)

lemma update_context_response:
  "update_context [Set_last_agent_response r] m w =
     ((True, m\<lparr>mgr_context := (mgr_context m)\<lparr>last_agent_response := r,
                                              updated_at := fst (datetime_now w)\<rparr>\<rparr>),
      snd (datetime_now w))"
  by (simp add: update_context_def Let_def case_prod_beta)

lemma update_dialogue_act_fields:
  "dialogue_act (mgr_context (snd (fst (update_dialogue_act a m w)))) = a"
  "turn_count (mgr_context (snd (fst (update_dialogue_act a m w)))) = turn_count (mgr_context m)"
  by (simp_all add: update_dialogue_act_def Let_def case_prod_beta)

lemma update_state_fields:
  "state (mgr_context (snd (fst (update_state s trig m w)))) = s"
  "turn_count (mgr_context (snd (fst (update_state s trig m w)))) = turn_count (mgr_context m)"
  "dialogue_act (mgr_context (snd (fst (update_state s trig m w)))) = dialogue_act (mgr_context m)"
  by (simp_all add: update_state_def Let_def case_prod_beta)

lemma update_state_history_cases:
  "state_history (snd (fst (update_state s trig m w))) =
     (if s = state (mgr_context m) then state_history m
      else (let h = state_history m @ [\<lparr>from_state = state (mgr_context m), to_state = s,
                                         trigger = trig, timestamp = fst (datetime_now w)\<rparr>]
            in if length h > max_history_length m then slice_last (max_history_length m) h
               else h))"
  by (simp add: update_state_def Let_def case_prod_beta)

lemma update_state_max_history:
  "max_history_length (snd (fst (update_state s trig m w))) = max_history_length m"
  by (simp add: update_state_def Let_def case_prod_beta)

text \<open>The manager after the first two steps of \<^verbatim>\<open>process_input\<close>.\<close>

lemma process_input_prepare:
  "\<exists>b1 m1 w1 b2 m2 w2.
     update_context [Set_last_user_input u,
                     Set_turn_count (turn_count (get_context (state_manager iface)) + 1)]
       (state_manager iface) w = ((b1, m1), w1)
     \<and> update_dialogue_act (fst (recognize_act u)) m1 w1 = ((b2, m2), w2)
     \<and> state (mgr_context m2) = state (mgr_context (state_manager iface))
     \<and> state_history m2 = state_history (state_manager iface)
     \<and> max_history_length m2 = max_history_length (state_manager iface)
     \<and> turn_count (mgr_context m2) = turn_count (mgr_context (state_manager iface)) + 1
     \<and> dialogue_act (mgr_context m2) = fst (recognize_act u)"
proof -
  let ?m = "state_manager iface"
  let ?m1 = "?m\<lparr>mgr_context := (mgr_context ?m)\<lparr>last_user_input := u,
                 turn_count := turn_count (get_context ?m) + 1,
                 updated_at := fst (datetime_now w)\<rparr>\<rparr>"
  let ?w1 = "snd (datetime_now w)"
  have s1: "update_context [Set_last_user_input u, Set_turn_count (turn_count (get_context ?m) + 1)]
              ?m w = ((True, ?m1), ?w1)"
    by (rule update_context_turn)
  obtain b2 m2 w2 where s2: "update_dialogue_act (fst (recognize_act u)) ?m1 ?w1 = ((b2, m2), w2)"
    by (metis surj_pair)
  have "state (mgr_context m2) = state (mgr_context ?m)"
       "state_history m2 = state_history ?m"
       "max_history_length m2 = max_history_length ?m"
       "turn_count (mgr_context m2) = turn_count (mgr_context ?m) + 1"
       "dialogue_act (mgr_context m2) = fst (recognize_act u)"
    using update_dialogue_act_frame [of "fst (recognize_act u)" ?m1 ?w1]
          update_dialogue_act_fields [of "fst (recognize_act u)" ?m1 ?w1] s2
    by (simp_all add: get_context_def)
  then show ?thesis using s1 s2 by blast
qed

lemma process_input_ambiguous:
  assumes high: "filter (\<lambda>amb. ambiguity_threshold iface \<le> confidence amb)
                   (detect_ambiguities u) = high"
      and ne: "high \<noteq> []"
  shows "\<exists>questions iface' w' t.
     process_input u l iface w = (Inr (clarification_response questions), iface', w')
     \<and> list_all2 (\<lambda>a q. q \<in> set (question_pool (amb_type a)))
          (take 2 (sort_by_confidence high)) questions
     \<and> conversation_history iface' =
         conversation_history iface
         @ [\<lparr>role = ''user'', content = u\<rparr>,
            \<lparr>role = ''assistant'', content = clarification_response questions\<rparr>]
     \<and> ambiguity_threshold iface' = ambiguity_threshold iface
     \<and> state (mgr_context (state_manager iface')) = ASKING_CLARIFICATION
     \<and> turn_count (mgr_context (state_manager iface'))
         = turn_count (mgr_context (state_manager iface)) + 1
     \<and> dialogue_act (mgr_context (state_manager iface')) = fst (recognize_act u)
     \<and> last_agent_response (mgr_context (state_manager iface'))
         = clarification_response questions
     \<and> max_history_length (state_manager iface') = max_history_length (state_manager iface)
     \<and> state_history (state_manager iface') =
         (if state (mgr_context (state_manager iface)) = ASKING_CLARIFICATION
          then state_history (state_manager iface)
          else (let h = state_history (state_manager iface)
                        @ [\<lparr>from_state = state (mgr_context (state_manager iface)),
                             to_state = ASKING_CLARIFICATION,
                             trigger = ''ambiguity_detected'', timestamp = t\<rparr>]
                in if length h > max_history_length (state_manager iface)
                   then slice_last (max_history_length (state_manager iface)) h else h))"
proof -
  let ?m = "state_manager iface"
  from process_input_prepare [of u iface w]
  obtain b1 m1 w1 b2 m2 w2 where
    s1: "update_context [Set_last_user_input u,
                         Set_turn_count (turn_count (get_context ?m) + 1)] ?m w = ((b1, m1), w1)"
    and s2: "update_dialogue_act (fst (recognize_act u)) m1 w1 = ((b2, m2), w2)"
    and f2: "state (mgr_context m2) = state (mgr_context ?m)"
            "state_history m2 = state_history ?m"
            "max_history_length m2 = max_history_length ?m"
            "turn_count (mgr_context m2) = turn_count (mgr_context ?m) + 1"
            "dialogue_act (mgr_context m2) = fst (recognize_act u)"
    by blast
  let ?ctx = "Some (get_conversation_context (iface\<lparr>state_manager := m2\<rparr>))"
  from generate_multiple_questions_Inr
         [where ctx = ?ctx and kvs = "get_conversation_context (iface\<lparr>state_manager := m2\<rparr>)"
            and high = high and n = 2 and w = w2, OF refl get_conversation_context_nonempty]
  obtain questions w3 where
    gq: "generate_multiple_questions high 2 ?ctx w2 = (Inr questions, w3)"
    and pool: "list_all2 (\<lambda>a q. q \<in> set (question_pool (amb_type a)))
                 (take 2 (sort_by_confidence high)) questions"
    by blast
  let ?r = "clarification_response questions"
  obtain b3 m3 w4 where s3: "update_state ASKING_CLARIFICATION ''ambiguity_detected'' m2 w3
                               = ((b3, m3), w4)"
    by (metis surj_pair)
  have f3: "state (mgr_context m3) = ASKING_CLARIFICATION"
           "turn_count (mgr_context m3) = turn_count (mgr_context ?m) + 1"
           "dialogue_act (mgr_context m3) = fst (recognize_act u)"
           "max_history_length m3 = max_history_length ?m"
    using update_state_fields [of ASKING_CLARIFICATION "''ambiguity_detected''" m2 w3]
          update_state_max_history [of ASKING_CLARIFICATION "''ambiguity_detected''" m2 w3]
          s3 f2
    by simp_all
  have h3: "state_history m3 =
         (if state (mgr_context ?m) = ASKING_CLARIFICATION
          then state_history ?m
          else (let h = state_history ?m
                        @ [\<lparr>from_state = state (mgr_context ?m),
                             to_state = ASKING_CLARIFICATION,
                             trigger = ''ambiguity_detected'',
                             timestamp = fst (datetime_now w3)\<rparr>]
                in if length h > max_history_length ?m
                   then slice_last (max_history_length ?m) h else h))"
    using update_state_history_cases [of ASKING_CLARIFICATION "''ambiguity_detected''" m2 w3]
          s3 f2
    by (auto simp: Let_def)
  let ?m4 = "m3\<lparr>mgr_context := (mgr_context m3)\<lparr>last_agent_response := ?r,
                                                   updated_at := fst (datetime_now w4)\<rparr>\<rparr>"
  let ?iface' = "iface\<lparr>state_manager := ?m4,
                        conversation_history :=
                          conversation_history iface
                          @ [\<lparr>role = ''user'', content = u\<rparr>,
                             \<lparr>role = ''assistant'', content = ?r\<rparr>]\<rparr>"
  have run: "process_input u l iface w = (Inr ?r, ?iface', snd (datetime_now w4))"
    using s1 s2 gq s3 high ne
    by (simp add: process_input_def Let_def update_context_response case_prod_beta)
  show ?thesis
    using run pool f3 h3
    by (intro exI [of _ questions] exI [of _ ?iface'] exI [of _ "snd (datetime_now w4)"]
          exI [of _ "fst (datetime_now w3)"]) simp
qed

lemma update_conversation_state_eq:
  "update_conversation_state act m w =
     (if act \<in> {DA_STATEMENT, DA_ACKNOWLEDGMENT, DA_ERROR} \<and> state (mgr_context m) \<noteq> INITIAL
      then (m, w)
      else (let ((b, m'), w') = update_state (next_state act (state (mgr_context m)))
                                  (''dialogue_act:'' @ act_value act) m w
            in (m', w')))"
  by (cases act) (simp_all add: update_conversation_state_def get_context_def Let_def)

lemma update_conversation_state_fields:
  "state (mgr_context (fst (update_conversation_state act m w)))
     = next_state act (state (mgr_context m))"
  "turn_count (mgr_context (fst (update_conversation_state act m w))) = turn_count (mgr_context m)"
  "dialogue_act (mgr_context (fst (update_conversation_state act m w)))
     = dialogue_act (mgr_context m)"
  "max_history_length (fst (update_conversation_state act m w)) = max_history_length m"
  by (cases act; simp add: update_conversation_state_eq update_state_fields
        update_state_max_history case_prod_beta)+

lemma process_input_clear:
  assumes clear: "filter (\<lambda>amb. ambiguity_threshold iface \<le> confidence amb)
                    (detect_ambiguities u) = []"
  shows "\<exists>r iface' w'.
     process_input u l iface w = (Inr r, iface', w')
     \<and> conversation_history iface' =
         conversation_history iface
         @ [\<lparr>role = ''user'', content = u\<rparr>, \<lparr>role = ''assistant'', content = r\<rparr>]
     \<and> ambiguity_threshold iface' = ambiguity_threshold iface
     \<and> state (mgr_context (state_manager iface'))
         = next_state (fst (recognize_act u)) (state (mgr_context (state_manager iface)))
     \<and> turn_count (mgr_context (state_manager iface'))
         = turn_count (mgr_context (state_manager iface)) + 1
     \<and> dialogue_act (mgr_context (state_manager iface')) = fst (recognize_act u)
     \<and> last_agent_response (mgr_context (state_manager iface')) = r
     \<and> max_history_length (state_manager iface') = max_history_length (state_manager iface)"
proof -
  let ?m = "state_manager iface"
  let ?act = "fst (recognize_act u)"
  from process_input_prepare [of u iface w]
  obtain b1 m1 w1 b2 m2 w2 where
    s1: "update_context [Set_last_user_input u,
                         Set_turn_count (turn_count (get_context ?m) + 1)] ?m w = ((b1, m1), w1)"
    and s2: "update_dialogue_act ?act m1 w1 = ((b2, m2), w2)"
    and f2: "state (mgr_context m2) = state (mgr_context ?m)"
            "state_history m2 = state_history ?m"
            "max_history_length m2 = max_history_length ?m"
            "turn_count (mgr_context m2) = turn_count (mgr_context ?m) + 1"
            "dialogue_act (mgr_context m2) = ?act"
    by blast
  obtain m3 w3 where s3: "update_conversation_state ?act m2 w2 = (m3, w3)"
    by (metis surj_pair)
  have f3: "state (mgr_context m3) = next_state ?act (state (mgr_context ?m))"
           "turn_count (mgr_context m3) = turn_count (mgr_context ?m) + 1"
           "dialogue_act (mgr_context m3) = ?act"
           "max_history_length m3 = max_history_length ?m"
    using update_conversation_state_fields [of ?act m2 w2] s3 f2 by simp_all
  let ?gen = "case l of
                Some x \<Rightarrow> if x \<noteq> [] then generate_response u x m3 ?act w3
                          else generate_template_response ?act m3 w3
              | None \<Rightarrow> generate_template_response ?act m3 w3"
  have "\<exists>r w4. ?gen = (Inr r, w4)"
    using generate_response_Inr [of u _ m3 ?act w3] generate_template_response_Inr [of ?act m3 w3]
    by (cases l) auto
  then obtain r w4 where s4: "?gen = (Inr r, w4)" by blast
  let ?m4 = "m3\<lparr>mgr_context := (mgr_context m3)\<lparr>last_agent_response := r,
                                                   updated_at := fst (datetime_now w4)\<rparr>\<rparr>"
  let ?iface' = "iface\<lparr>state_manager := ?m4,
                        conversation_history :=
                          conversation_history iface
                          @ [\<lparr>role = ''user'', content = u\<rparr>,
                             \<lparr>role = ''assistant'', content = r\<rparr>]\<rparr>"
  have run: "process_input u l iface w = (Inr r, ?iface', snd (datetime_now w4))"
    using s1 s2 s3 s4 clear
    by (cases l)
       (auto simp: process_input_def Let_def update_context_response case_prod_beta
          split: if_splits)
  show ?thesis
    using run f3
    by (intro exI [of _ r] exI [of _ ?iface'] exI [of _ "snd (datetime_now w4)"]) simp
qed

text \<open>Both branches together: what every call of \<^verbatim>\<open>process_input\<close> does.\<close>

lemma process_input_turn:
  "\<exists>r iface' w'.
     process_input u l iface w = (Inr r, iface', w')
     \<and> conversation_history iface' =
         conversation_history iface
         @ [\<lparr>role = ''user'', content = u\<rparr>, \<lparr>role = ''assistant'', content = r\<rparr>]
     \<and> turn_count (mgr_context (state_manager iface'))
         = turn_count (mgr_context (state_manager iface)) + 1"
proof (cases "filter (\<lambda>amb. ambiguity_threshold iface \<le> confidence amb)
                (detect_ambiguities u) = []")
  case True
  from process_input_clear [OF True, of l w] show ?thesis by blast
next
  case False
  from process_input_ambiguous [OF refl False, of l w] show ?thesis by blast
qed

lemma process_inputs_count:
  "\<exists>rs iface' w'.
     process_inputs calls iface w = (Inr rs, iface', w')
     \<and> length rs = length calls
     \<and> turn_count (mgr_context (state_manager iface'))
         = turn_count (mgr_context (state_manager iface)) + int (length calls)
     \<and> length (conversation_history iface')
         = length (conversation_history iface) + 2 * length calls"
proof (induction calls arbitrary: iface w)
  case Nil
  then show ?case by simp
next
  case (Cons c calls)
  obtain u l where c: "c = (u, l)" by (cases c)
  from process_input_turn [of u l iface w]
  obtain r iface1 w1 where
    p: "process_input u l iface w = (Inr r, iface1, w1)"
    and h: "conversation_history iface1 =
              conversation_history iface
              @ [\<lparr>role = ''user'', content = u\<rparr>, \<lparr>role = ''assistant'', content = r\<rparr>]"
    and t: "turn_count (mgr_context (state_manager iface1))
              = turn_count (mgr_context (state_manager iface)) + 1"
    by blast
  from Cons.IH [of iface1 w1]
  obtain rs iface2 w2 where
    ps: "process_inputs calls iface1 w1 = (Inr rs, iface2, w2)"
    and n: "length rs = length calls"
    and t2: "turn_count (mgr_context (state_manager iface2))
               = turn_count (mgr_context (state_manager iface1)) + int (length calls)"
    and h2: "length (conversation_history iface2)
               = length (conversation_history iface1) + 2 * length calls"
    by blast
  have "process_inputs (c # calls) iface w = (Inr (r # rs), iface2, w2)"
    using c p ps by simp
  then show ?case using n t t2 h h2 by simp
qed

lemma new_interface_fresh:
  "turn_count (mgr_context (state_manager (fst (new_interface uid w)))) = 0"
  "conversation_history (fst (new_interface uid w)) = []"
  "state (mgr_context (state_manager (fst (new_interface uid w)))) = INITIAL"
  "state_history (state_manager (fst (new_interface uid w))) = []"
  "max_history_length (state_manager (fst (new_interface uid w))) = 10"
  "ambiguity_threshold (fst (new_interface uid w)) = fl (6 / 10)"
  by (simp_all add: new_interface_def new_manager_def new_context_def Let_def case_prod_beta)

lemma reset_interface_fresh:
  "turn_count (mgr_context (state_manager (fst (reset_interface iface w)))) = 0"
  "conversation_history (fst (reset_interface iface w)) = []"
  "state (mgr_context (state_manager (fst (reset_interface iface w)))) = INITIAL"
  "state_history (state_manager (fst (reset_interface iface w))) = []"
  by (simp_all add: reset_interface_def reset_conversation_def new_context_def Let_def
        case_prod_beta)

text \<open>
  The recognizer and the detector on three concrete inputs. In the third, the INTENT
  detection of confidence \<^verbatim>\<open>0.8\<close> comes before the two ENTITY detections of confidence
  \<^verbatim>\<open>0.7 + 0.1\<close>, which is \<^verbatim>\<open>0.7999999999999999\<close>.
\<close>

lemma detect_hello: "detect_ambiguities ''Hello!'' = []"
  by code_simp

lemma recognize_hello: "recognize_act ''Hello!'' = (DA_GREETING, 7 / 10)"
  by code_simp

lemma detect_task:
  "map (\<lambda>a. (amb_type a, confidence a, position a))
     (detect_ambiguities ''Please help me with this task'') = [(ENTITY_AMBIGUITY, fl (7 / 10), (20, 24))]"
  by code_simp

lemma recognize_task: "recognize_act ''Please help me with this task'' = (DA_REQUEST, 7 / 10)"
  by code_simp

lemma detect_it_how_about_it:
  "map (\<lambda>a. (amb_type a, confidence a, position a)) (detect_ambiguities ''it? how about it'')
     = [(INTENT_AMBIGUITY, fl (8 / 10), (4, 13)),
        (ENTITY_AMBIGUITY, fadd (fl (7 / 10)) (fl (1 / 10)), (0, 2)),
        (ENTITY_AMBIGUITY, fadd (fl (7 / 10)) (fl (1 / 10)), (14, 16)),
        (REFERENCE_AMBIGUITY, fl (7 / 10), (0, 3))]"
  by code_simp

lemma detect_it_how_about_it_high:
  "\<exists>a\<in>set (detect_ambiguities ''it? how about it''). fl (6 / 10) \<le> confidence a"
  by code_simp

lemma detect_it_how_about_it_top:
  "map amb_type
     (take 2 (sort_by_confidence
                (filter (\<lambda>a. fl (6 / 10) \<le> confidence a)
                   (detect_ambiguities ''it? how about it''))))
     = [INTENT_AMBIGUITY, ENTITY_AMBIGUITY]"
  by code_simp

lemma pool_nonempty: "list_all (\<lambda>q. q \<noteq> []) (question_pool ENTITY_AMBIGUITY)"
  by code_simp

lemma clarification_response_two:
  "clarification_response [q0, q1] =
     ''I'd like to clarify a few things:'' @ [CHR 0x0A] @ ''1. '' @ q0 @ [CHR 0x0A] @ ''2. '' @ q1"
proof -
  have "str_nat 1 = ''1''" "str_nat 2 = ''2''"
    by (subst str_nat.simps, simp add: digit_char_def)+
  then show ?thesis
    by (simp add: clarification_response_def numbered_questions_def py_str_def)
qed

text \<open>
  Claim C1. Let the threshold be the double \<^verbatim>\<open>0.6\<close> and let the detector return, for the
  input, at least one detection of confidence at least \<^verbatim>\<open>0.6\<close>. Then \<^verbatim>\<open>process_input\<close> returns
  normally; the question generator has produced one or two questions (two when there are
  at least two such detections), for the detections of highest confidence in the order of
  the doubles, each one a framed template for the type of its detection; the response
  is the one question as it is, or the heading \<^verbatim>\<open>I'd like to clarify a few things:\<close>
  followed by the two questions numbered 1 and 2; after the call the state is
  ASKING_CLARIFICATION; and the history is unchanged when the state was
  ASKING_CLARIFICATION before the call, and otherwise has got the transition from the
  former state with the trigger \<^verbatim>\<open>ambiguity_detected\<close> appended (and been cut to its
  maximal length).
\<close>

theorem process_input_asks_clarification:
  assumes "ambiguity_threshold iface = fl (6 / 10)"
      and "\<exists>a\<in>set (detect_ambiguities user_input). fl (6 / 10) \<le> confidence a"
  shows "\<exists>questions iface' w' t.
     process_input user_input llm_response iface w =
       (Inr (if length questions = 1 then questions ! 0
             else ''I'd like to clarify a few things:'' @ [CHR 0x0A]
                  @ ''1. '' @ questions ! 0 @ [CHR 0x0A] @ ''2. '' @ questions ! 1),
        iface', w')
     \<and> (length questions = 1 \<or> length questions = 2)
     \<and> length questions
         = min 2 (length (filter (\<lambda>a. fl (6 / 10) \<le> confidence a) (detect_ambiguities user_input)))
     \<and> list_all2 (\<lambda>a q. q \<in> set (question_pool (amb_type a)))
          (take 2 (sort_by_confidence
                     (filter (\<lambda>a. fl (6 / 10) \<le> confidence a) (detect_ambiguities user_input))))
          questions
     \<and> state (mgr_context (state_manager iface')) = ASKING_CLARIFICATION
     \<and> state_history (state_manager iface') =
         (if state (mgr_context (state_manager iface)) = ASKING_CLARIFICATION
          then state_history (state_manager iface)
          else (let h = state_history (state_manager iface)
                        @ [\<lparr>from_state = state (mgr_context (state_manager iface)),
                             to_state = ASKING_CLARIFICATION,
                             trigger = ''ambiguity_detected'', timestamp = t\<rparr>]
                in if length h > max_history_length (state_manager iface)
                   then slice_last (max_history_length (state_manager iface)) h else h))"
proof -
  let ?high = "filter (\<lambda>a. fl (6 / 10) \<le> confidence a) (detect_ambiguities user_input)"
  have high: "filter (\<lambda>amb. ambiguity_threshold iface \<le> confidence amb)
                (detect_ambiguities user_input) = ?high"
    by (simp only: assms(1))
  have ne: "?high \<noteq> []"
    using assms(2) by (auto simp: filter_empty_conv)
  from process_input_ambiguous [OF high ne, of llm_response w]
  obtain questions iface' w' t where
    run: "process_input user_input llm_response iface w
            = (Inr (clarification_response questions), iface', w')"
    and pool: "list_all2 (\<lambda>a q. q \<in> set (question_pool (amb_type a)))
                 (take 2 (sort_by_confidence ?high)) questions"
    and st: "state (mgr_context (state_manager iface')) = ASKING_CLARIFICATION"
    and hist: "state_history (state_manager iface') =
         (if state (mgr_context (state_manager iface)) = ASKING_CLARIFICATION
          then state_history (state_manager iface)
          else (let h = state_history (state_manager iface)
                        @ [\<lparr>from_state = state (mgr_context (state_manager iface)),
                             to_state = ASKING_CLARIFICATION,
                             trigger = ''ambiguity_detected'', timestamp = t\<rparr>]
                in if length h > max_history_length (state_manager iface)
                   then slice_last (max_history_length (state_manager iface)) h else h))"
    by blast
  have len: "length questions = min 2 (length ?high)"
    using list_all2_lengthD [OF pool] by (simp add: sort_by_confidence_def min.commute)
  define n where "n = length ?high"
  have "0 < n" using ne by (simp add: n_def)
  moreover have "length questions = min 2 n" using len by (simp only: n_def)
  ultimately have len12: "length questions = 1 \<or> length questions = 2"
    by (cases "2 \<le> n") (simp_all add: min_def)
  have resp: "clarification_response questions =
          (if length questions = 1 then questions ! 0
           else ''I'd like to clarify a few things:'' @ [CHR 0x0A]
                @ ''1. '' @ questions ! 0 @ [CHR 0x0A] @ ''2. '' @ questions ! 1)"
  proof (cases "length questions = 1")
    case True
    then show ?thesis by (simp add: clarification_response_def)
  next
    case False
    then have "length questions = 2" using len12 by simp
    then obtain q0 q1 where "questions = [q0, q1]"
      by (metis (no_types) One_nat_def Suc_1 length_0_conv length_Suc_conv)
    then show ?thesis using clarification_response_two [of q0 q1] by simp
  qed
  show ?thesis
    using run pool st hist len len12 unfolding resp
    by (intro exI [of _ questions] exI [of _ iface'] exI [of _ w'] exI [of _ t]) simp
qed

theorem process_input_asks_clarification_witness:
  "ambiguity_threshold example_interface = fl (6 / 10)
   \<and> (\<exists>a\<in>set (detect_ambiguities ''it? how about it''). fl (6 / 10) \<le> confidence a)
   \<and> (\<exists>q0 q1.
         fst (process_input ''it? how about it'' None example_interface example_world2) =
           Inr (''I'd like to clarify a few things:'' @ [CHR 0x0A]
                @ ''1. '' @ q0 @ [CHR 0x0A] @ ''2. '' @ q1)
         \<and> q0 \<in> set (question_pool INTENT_AMBIGUITY)
         \<and> q1 \<in> set (question_pool ENTITY_AMBIGUITY))
   \<and> state (mgr_context (state_manager
               (fst (snd (process_input ''it? how about it'' None example_interface
                            example_world2))))) = ASKING_CLARIFICATION"
proof -
  let ?T = "''it? how about it''"
  let ?top = "take 2 (sort_by_confidence
                        (filter (\<lambda>a. fl (6 / 10) \<le> confidence a) (detect_ambiguities ?T)))"
  have h1: "ambiguity_threshold example_interface = fl (6 / 10)"
    by (simp only: example_interface_def new_interface_fresh)
  note h2 = detect_it_how_about_it_high
  from process_input_asks_clarification [OF h1 h2, of None example_world2]
  obtain questions iface' w' t where
    run: "process_input ?T None example_interface example_world2 =
       (Inr (if length questions = 1 then questions ! 0
             else ''I'd like to clarify a few things:'' @ [CHR 0x0A]
                  @ ''1. '' @ questions ! 0 @ [CHR 0x0A] @ ''2. '' @ questions ! 1),
        iface', w')"
    and pool: "list_all2 (\<lambda>a q. q \<in> set (question_pool (amb_type a))) ?top questions"
    and st: "state (mgr_context (state_manager iface')) = ASKING_CLARIFICATION"
    by blast
  obtain a0 a1 where top: "?top = [a0, a1]"
      and ty: "amb_type a0 = INTENT_AMBIGUITY" "amb_type a1 = ENTITY_AMBIGUITY"
    using detect_it_how_about_it_top by (auto simp only: map_eq_Cons_conv list.map_disc_iff)
  from pool obtain q0 q1 where q: "questions = [q0, q1]"
      "q0 \<in> set (question_pool INTENT_AMBIGUITY)" "q1 \<in> set (question_pool ENTITY_AMBIGUITY)"
    unfolding top using ty by (auto simp: list_all2_Cons1)
  have "fst (process_input ?T None example_interface example_world2) =
           Inr (''I'd like to clarify a few things:'' @ [CHR 0x0A]
                @ ''1. '' @ q0 @ [CHR 0x0A] @ ''2. '' @ q1)"
    using run q(1) by simp
  then show ?thesis using h1 h2 run st q(2,3) by force
qed

text \<open>
  Claim C3. The state after \<^verbatim>\<open>_update_conversation_state\<close> is the function
  \<open>next_state\<close> of the dialogue act and the state before: GREETING gives GREETING from
  INITIAL and IN_PROGRESS from any other state, CLOSING gives CLOSING, CLARIFICATION gives
  ASKING_CLARIFICATION, CONFIRMATION gives SEEKING_CONFIRMATION, QUESTION and REQUEST
  give PROVIDING_INFORMATION, and any other act gives IN_PROGRESS from INITIAL and leaves
  any other state as it is. In that last case nothing is called: manager and clock are
  unchanged. In every other case the effect is that of one \<^verbatim>\<open>update_state\<close> call with
  that target and the trigger \<^verbatim>\<open>dialogue_act:\<close> followed by the act's tag. When no
  detection reaches the threshold, the state after \<^verbatim>\<open>process_input\<close> is \<open>next_state\<close> of
  the recognized act and the state before the call.
\<close>

theorem update_conversation_state_table:
  "state (mgr_context (fst (update_conversation_state act m w)))
     = next_state act (state (mgr_context m))
   \<and> (act \<in> {DA_STATEMENT, DA_ACKNOWLEDGMENT, DA_ERROR} \<and> state (mgr_context m) \<noteq> INITIAL
        \<longrightarrow> update_conversation_state act m w = (m, w))
   \<and> (act \<notin> {DA_STATEMENT, DA_ACKNOWLEDGMENT, DA_ERROR} \<or> state (mgr_context m) = INITIAL
        \<longrightarrow> update_conversation_state act m w =
              (let ((b, m'), w') = update_state (next_state act (state (mgr_context m)))
                                     (''dialogue_act:'' @ act_value act) m w
               in (m', w')))
   \<and> (filter (\<lambda>amb. ambiguity_threshold iface \<le> confidence amb)
         (detect_ambiguities user_input) = []
        \<longrightarrow> state (mgr_context (state_manager
                     (fst (snd (process_input user_input llm_response iface w0)))))
              = next_state (fst (recognize_act user_input))
                  (state (mgr_context (state_manager iface))))"
proof -
  have "state (mgr_context (state_manager
                     (fst (snd (process_input user_input llm_response iface w0)))))
              = next_state (fst (recognize_act user_input))
                  (state (mgr_context (state_manager iface)))"
    if "filter (\<lambda>amb. ambiguity_threshold iface \<le> confidence amb)
          (detect_ambiguities user_input) = []"
    using process_input_clear [OF that, of llm_response w0] by auto
  then show ?thesis
    using update_conversation_state_fields(1) [of act m w]
          update_conversation_state_eq [of act m w]
    by (simp only:) simp
qed

theorem update_conversation_state_table_witness:
  "DA_STATEMENT \<in> {DA_STATEMENT, DA_ACKNOWLEDGMENT, DA_ERROR}
   \<and> state (mgr_context (fst example_run)) \<noteq> INITIAL
   \<and> update_conversation_state DA_STATEMENT (fst example_run) (snd example_run) = example_run
   \<and> filter (\<lambda>amb. ambiguity_threshold example_interface \<le> confidence amb)
        (detect_ambiguities ''Hello!'') = []
   \<and> state (mgr_context (state_manager
               (fst (snd (process_input ''Hello!'' None example_interface example_world2)))))
       = GREETING"
proof -
  have h1: "state (mgr_context (fst example_run)) \<noteq> INITIAL"
    by (simp add: example_run_def example_manager_def example_world1_def example_calls_def
          new_manager_def new_context_def generate_conversation_id_def datetime_now_def
          update_state_def update_context_def update_dialogue_act_def slice_last_def)
  have h2: "filter (\<lambda>amb. ambiguity_threshold example_interface \<le> confidence amb)
              (detect_ambiguities ''Hello!'') = []"
    by (simp only: detect_hello filter.simps)
  have h3: "state (mgr_context (state_manager example_interface)) = INITIAL"
    by (simp only: example_interface_def new_interface_fresh)
  note T1 = update_conversation_state_table
              [of DA_STATEMENT "fst example_run" "snd example_run" example_interface
                  "''Hello!''" None example_world2]
  have a: "update_conversation_state DA_STATEMENT (fst example_run) (snd example_run)
             = example_run"
    using T1 h1 by simp
  have b: "state (mgr_context (state_manager
               (fst (snd (process_input ''Hello!'' None example_interface example_world2)))))
       = GREETING"
    using T1 h2 h3 by (simp add: recognize_hello)
  show ?thesis using h1 h2 a b by simp
qed

text \<open>
  Claim C10. Every call of \<^verbatim>\<open>process_input\<close> returns normally, adds one to the turn count
  and appends two entries to the interface's history: the input under the role
  \<^verbatim>\<open>user\<close>, then the returned response under the role \<^verbatim>\<open>assistant\<close>. After \<open>n\<close> calls
  on a newly constructed interface, or on one that has just been reset, the turn count is
  \<open>n\<close> and the history has \<open>2 n\<close> entries.
\<close>

theorem process_input_counts_turn:
  "(\<exists>r iface' w'.
      process_input user_input llm_response iface w = (Inr r, iface', w')
      \<and> turn_count (mgr_context (state_manager iface'))
          = turn_count (mgr_context (state_manager iface)) + 1
      \<and> conversation_history iface' =
          conversation_history iface
          @ [\<lparr>role = ''user'', content = user_input\<rparr>, \<lparr>role = ''assistant'', content = r\<rparr>])
   \<and> (\<exists>rs iface' w'.
        process_inputs calls (fst (new_interface uid w0)) (snd (new_interface uid w0))
          = (Inr rs, iface', w')
        \<and> length rs = length calls
        \<and> turn_count (mgr_context (state_manager iface')) = int (length calls)
        \<and> length (conversation_history iface') = 2 * length calls)
   \<and> (\<exists>rs iface' w'.
        process_inputs calls (fst (reset_interface iface0 w1)) (snd (reset_interface iface0 w1))
          = (Inr rs, iface', w')
        \<and> length rs = length calls
        \<and> turn_count (mgr_context (state_manager iface')) = int (length calls)
        \<and> length (conversation_history iface') = 2 * length calls)"
proof -
  have a: "\<exists>rs iface' w'.
        process_inputs calls (fst (new_interface uid w0)) (snd (new_interface uid w0))
          = (Inr rs, iface', w')
        \<and> length rs = length calls
        \<and> turn_count (mgr_context (state_manager iface')) = int (length calls)
        \<and> length (conversation_history iface') = 2 * length calls"
    using process_inputs_count [of calls "fst (new_interface uid w0)" "snd (new_interface uid w0)"]
    by (simp add: new_interface_fresh)
  have b: "\<exists>rs iface' w'.
        process_inputs calls (fst (reset_interface iface0 w1)) (snd (reset_interface iface0 w1))
          = (Inr rs, iface', w')
        \<and> length rs = length calls
        \<and> turn_count (mgr_context (state_manager iface')) = int (length calls)
        \<and> length (conversation_history iface') = 2 * length calls"
    using process_inputs_count [of calls "fst (reset_interface iface0 w1)"
                                  "snd (reset_interface iface0 w1)"]
    by (simp add: reset_interface_fresh)
  show ?thesis
    using process_input_turn [of user_input llm_response iface w] a b by blast
qed

text \<open>
  Claim C2 as stated fails. For the input \<^verbatim>\<open>Please help me with this task\<close> the act is
  REQUEST, but the first ENTITY pattern finds the word \<^verbatim>\<open>this\<close> at positions 20 to 24,
  with confidence 0.7, which is above the threshold 0.6. On a fresh interface the call
  therefore asks for clarification: the state becomes ASKING_CLARIFICATION, not
  PROVIDING_INFORMATION, and the response is a clarification question.
\<close>

theorem help_with_this_task_counterexample:
  "fst (recognize_act ''Please help me with this task'') = DA_REQUEST
   \<and> amb_type (hd (detect_ambiguities ''Please help me with this task'')) = ENTITY_AMBIGUITY
   \<and> position (hd (detect_ambiguities ''Please help me with this task'')) = (20, 24)
   \<and> confidence (hd (detect_ambiguities ''Please help me with this task'')) = fl (7 / 10)
   \<and> ambiguity_threshold example_interface = fl (6 / 10)
   \<and> state (mgr_context (state_manager example_interface)) = INITIAL
   \<and> state (mgr_context (state_manager
        (fst (snd (process_input ''Please help me with this task'' None example_interface
                     example_world2))))) = ASKING_CLARIFICATION
   \<and> fst (process_input ''Please help me with this task'' None example_interface example_world2)
       = Inr ''I want to make sure I understand correctly. Could you be more specific about what you're referring to?''"
  by code_simp

text \<open>
  Claim C2, as amended. On a fresh conversation, whatever the clock and the random
  generator, \<^verbatim>\<open>process_input\<close> with the input \<^verbatim>\<open>Please help me with this task\<close> and no
  LLM response recognizes the act REQUEST (score 0.7), detects one ambiguity, of type
  ENTITY and confidence 0.7, takes the clarification branch, and returns a non-empty
  question from the pool of framed ENTITY questions; the state becomes
  ASKING_CLARIFICATION, with the single transition from INITIAL recorded under the trigger
  \<^verbatim>\<open>ambiguity_detected\<close>.
\<close>

theorem help_with_this_task_asks_clarification:
  "recognize_act ''Please help me with this task'' = (DA_REQUEST, 7 / 10)
   \<and> map (\<lambda>a. (amb_type a, confidence a, position a))
        (detect_ambiguities ''Please help me with this task'')
       = [(ENTITY_AMBIGUITY, fl (7 / 10), (20, 24))]
   \<and> (\<exists>q iface' w' t.
        process_input ''Please help me with this task'' None
          (fst (new_interface uid w)) (snd (new_interface uid w)) = (Inr q, iface', w')
        \<and> q \<in> set (question_pool ENTITY_AMBIGUITY)
        \<and> q \<noteq> []
        \<and> dialogue_act (mgr_context (state_manager iface')) = DA_REQUEST
        \<and> state (mgr_context (state_manager iface')) = ASKING_CLARIFICATION
        \<and> state_history (state_manager iface')
            = [\<lparr>from_state = INITIAL, to_state = ASKING_CLARIFICATION,
                 trigger = ''ambiguity_detected'', timestamp = t\<rparr>])"
proof -
  let ?T = "''Please help me with this task''"
  let ?i = "fst (new_interface uid w)"
  let ?high = "filter (\<lambda>amb. ambiguity_threshold ?i \<le> confidence amb) (detect_ambiguities ?T)"
  obtain a where d: "detect_ambiguities ?T = [a]"
      and a: "amb_type a = ENTITY_AMBIGUITY" "confidence a = fl (7 / 10)"
    using detect_task by auto
  have le: "fl (6 / 10) \<le> fl (7 / 10)"
    unfolding double_literals by simp
  have high: "?high = [a]"
    using d a(2) le by (simp only: new_interface_fresh filter.simps if_True)
  from process_input_ambiguous [OF high, of None "snd (new_interface uid w)"]
  obtain questions iface' w' t where
    run: "process_input ?T None ?i (snd (new_interface uid w))
            = (Inr (clarification_response questions), iface', w')"
    and pool: "list_all2 (\<lambda>a q. q \<in> set (question_pool (amb_type a)))
                 (take 2 (sort_by_confidence [a])) questions"
    and st: "state (mgr_context (state_manager iface')) = ASKING_CLARIFICATION"
    and da: "dialogue_act (mgr_context (state_manager iface')) = fst (recognize_act ?T)"
    and hist: "state_history (state_manager iface') =
         (if state (mgr_context (state_manager ?i)) = ASKING_CLARIFICATION
          then state_history (state_manager ?i)
          else (let h = state_history (state_manager ?i)
                        @ [\<lparr>from_state = state (mgr_context (state_manager ?i)),
                             to_state = ASKING_CLARIFICATION,
                             trigger = ''ambiguity_detected'', timestamp = t\<rparr>]
                in if length h > max_history_length (state_manager ?i)
                   then slice_last (max_history_length (state_manager ?i)) h else h))"
    by auto
  from pool obtain q where q: "questions = [q]" "q \<in> set (question_pool ENTITY_AMBIGUITY)"
    using a(1) by (auto simp: sort_by_confidence_def list_all2_Cons1)
  have qne: "q \<noteq> []"
    using pool_nonempty q(2) by (auto simp: list_all_iff)
  have r: "clarification_response questions = q"
    using q(1) by (simp add: clarification_response_def)
  have h: "state_history (state_manager iface')
            = [\<lparr>from_state = INITIAL, to_state = ASKING_CLARIFICATION,
                 trigger = ''ambiguity_detected'', timestamp = t\<rparr>]"
    using hist by (simp add: new_interface_fresh)
  have "\<exists>q iface' w' t.
        process_input ?T None ?i (snd (new_interface uid w)) = (Inr q, iface', w')
        \<and> q \<in> set (question_pool ENTITY_AMBIGUITY)
        \<and> q \<noteq> []
        \<and> dialogue_act (mgr_context (state_manager iface')) = DA_REQUEST
        \<and> state (mgr_context (state_manager iface')) = ASKING_CLARIFICATION
        \<and> state_history (state_manager iface')
            = [\<lparr>from_state = INITIAL, to_state = ASKING_CLARIFICATION,
                 trigger = ''ambiguity_detected'', timestamp = t\<rparr>]"
    using run r q(2) qne da st h recognize_task by auto
  then show ?thesis using recognize_task detect_task by blast
qed

section \<open>Properties of the serialization\<close>

lemma digit_val_digits:
  "list_all (\<lambda>d. digit_val (digit_char d) = Some d) [0 ..< 10]"
  by code_simp

lemma digit_val_digit_char: "d < 10 \<Longrightarrow> digit_val (digit_char d) = Some d"
  using digit_val_digits by (simp add: list_all_iff)

lemma parse_digits_append:
  "parse_digits (xs @ ys) acc = Option.bind (parse_digits xs acc) (parse_digits ys)"
  by (induction xs arbitrary: acc) (simp_all split: option.splits)

lemma parse_digits_str_nat:
  "parse_digits (str_nat k) acc = Some (acc * 10 ^ length (str_nat k) + k)"
proof (induction k arbitrary: acc rule: str_nat.induct)
  case (1 n)
  show ?case
  proof (cases "n < 10")
    case True
    then show ?thesis
      by (subst (1 2) str_nat.simps) (simp add: digit_val_digit_char)
  next
    case False
    have d: "digit_val (digit_char (n mod 10)) = Some (n mod 10)"
      by (simp add: digit_val_digit_char)
    have s: "str_nat n = str_nat (n div 10) @ [digit_char (n mod 10)]"
      using False by (subst str_nat.simps) simp
    show ?thesis
      using "1.IH" [OF False, of acc] d
      by (simp add: s parse_digits_append algebra_simps)
  qed
qed

lemma parse_digits_zeros:
  "parse_digits (replicate m CHR ''0'' @ ds) acc = parse_digits ds (acc * 10 ^ m)"
proof (induction m arbitrary: acc)
  case 0
  then show ?case by simp
next
  case (Suc m)
  have "digit_val CHR ''0'' = Some 0"
    using digit_val_digit_char [of 0] by (simp add: digit_char_def)
  then show ?case using Suc [of "10 * acc"] by (simp add: algebra_simps)
qed

lemma parse_digits_zero_pad: "parse_digits (zero_pad n k) 0 = Some k"
  by (simp add: zero_pad_def parse_digits_zeros parse_digits_str_nat)

lemma length_str_nat: "0 < n \<Longrightarrow> k < 10 ^ n \<Longrightarrow> length (str_nat k) \<le> n"
proof (induction k arbitrary: n rule: str_nat.induct)
  case (1 k)
  show ?case
  proof (cases "k < 10")
    case True
    then show ?thesis using "1.prems"(1) by (subst str_nat.simps) simp
  next
    case False
    then obtain n' where n: "n = Suc n'" using "1.prems"(1) by (cases n) simp_all
    have "0 < n'" using False "1.prems"(2) n by (cases n') simp_all
    moreover have "k div 10 < 10 ^ n'" using "1.prems"(2) n by (simp add: less_mult_imp_div_less)
    ultimately have "length (str_nat (k div 10)) \<le> n'" using "1.IH" [OF False] by simp
    then show ?thesis using False n by (subst str_nat.simps) simp
  qed
qed

lemma length_zero_pad: "0 < n \<Longrightarrow> k < 10 ^ n \<Longrightarrow> length (zero_pad n k) = n"
  using length_str_nat [of n k] by (simp add: zero_pad_def)

lemma take_number_zero_pad:
  "0 < n \<Longrightarrow> k < 10 ^ n \<Longrightarrow> take_number n (zero_pad n k @ rest) = Some (k, rest)"
  using length_zero_pad [of n k]
  by (simp add: take_number_def parse_digits_zero_pad)

lemma take_char_Cons: "take_char c (c # rest) = Some rest"
  by (simp add: take_char_def)

lemma parse_fraction_isoformat:
  "us < 1000000 \<Longrightarrow>
     parse_fraction (if us = 0 then [] else ''.'' @ zero_pad 6 us) = Some (us, [])"
  using take_number_zero_pad [of 6 us "[]"]
  by (simp add: parse_fraction_def take_char_Cons)

lemma parse_datetime_isoformat:
  assumes "valid_datetime dt"
  shows "parse_datetime (isoformat dt) = Some dt"
proof -
  have r: "year dt < 10 ^ 4" "month dt < 10 ^ 2" "day dt < 10 ^ 2" "hour dt < 10 ^ 2"
          "minute dt < 10 ^ 2" "second dt < 10 ^ 2" "microsecond dt < 1000000"
    using assms by (auto simp: valid_datetime_def days_in_month_def split: if_splits)
  show ?thesis
    unfolding isoformat_def parse_datetime_def
    using r parse_fraction_isoformat [of "microsecond dt"]
    by (simp add: take_number_zero_pad take_char_Cons del: One_nat_def)
qed

lemma fromisoformat_isoformat:
  "valid_datetime dt \<Longrightarrow> fromisoformat (isoformat dt) = Inr dt"
  by (simp add: fromisoformat_def parse_datetime_isoformat)

lemma state_of_value_state_value: "state_of_value (state_value s) = Some s"
  by (cases s) (simp_all add: state_of_value_def)

lemma act_of_value_act_value: "act_of_value (act_value a) = Some a"
  by (cases a) (simp_all add: act_of_value_def all_dialogue_acts_def)

lemma get_item_to_dict:
  "get_str (to_dict m) ''user_id'' = Inr (user_id (mgr_context m))"
  "get_str (to_dict m) ''conversation_id'' = Inr (conversation_id (mgr_context m))"
  "get_state (to_dict m) ''state'' = Inr (state (mgr_context m))"
  "get_state (to_dict m) ''previous_state'' = Inr (previous_state (mgr_context m))"
  "get_act (to_dict m) ''dialogue_act'' = Inr (dialogue_act (mgr_context m))"
  "get_str (to_dict m) ''topic'' = Inr (topic (mgr_context m))"
  "get_list (to_dict m) ''entities'' = Inr (entities (mgr_context m))"
  "get_str (to_dict m) ''user_intent'' = Inr (user_intent (mgr_context m))"
  "get_str (to_dict m) ''last_user_input'' = Inr (last_user_input (mgr_context m))"
  "get_str (to_dict m) ''last_agent_response'' = Inr (last_agent_response (mgr_context m))"
  "get_int (to_dict m) ''turn_count'' = Inr (turn_count (mgr_context m))"
  "get_dict (to_dict m) ''metadata'' = Inr (metadata (mgr_context m))"
  by (simp_all add: to_dict_def Let_def get_item_def get_str_def get_state_def get_act_def
        get_list_def get_int_def get_dict_def state_of_value_state_value
        act_of_value_act_value)

lemma get_datetime_to_dict:
  "valid_datetime (created_at (mgr_context m)) \<Longrightarrow>
     get_datetime (to_dict m) ''created_at'' = Inr (created_at (mgr_context m))"
  "valid_datetime (updated_at (mgr_context m)) \<Longrightarrow>
     get_datetime (to_dict m) ''updated_at'' = Inr (updated_at (mgr_context m))"
  by (simp_all add: to_dict_def Let_def get_item_def get_datetime_def fromisoformat_isoformat)

text \<open>
  Claim C6. For every manager whose two timestamps are datetime values (within the ranges
  of the calendar), \<^verbatim>\<open>from_dict(to_dict(m))\<close> returns normally a manager whose context
  equals that of \<open>m\<close> in every field: the enumerations come back from their string tags,
  the timestamps from their ISO-8601 strings, and the entity list and the metadata are
  handed over as they are. Hence \<^verbatim>\<open>to_dict(from_dict(to_dict(m)))\<close> is \<^verbatim>\<open>to_dict(m)\<close>.
\<close>

theorem to_dict_from_dict_roundtrip:
  assumes "valid_datetime (created_at (mgr_context m))"
      and "valid_datetime (updated_at (mgr_context m))"
  shows "\<exists>m' w'. from_dict (to_dict m) w = (Inr m', w')
                 \<and> mgr_context m' = mgr_context m
                 \<and> to_dict m' = to_dict m"
proof -
  obtain manager w1 where n: "new_manager (user_id (mgr_context m)) w = (manager, w1)"
    by (cases "new_manager (user_id (mgr_context m)) w")
  have u: "user_id (mgr_context manager) = user_id (mgr_context m)"
    using n by (auto simp: new_manager_def new_context_def Let_def split: prod.splits)
  let ?c = "(mgr_context manager)
              \<lparr>conversation_id := conversation_id (mgr_context m),
                 state := state (mgr_context m),
                 previous_state := previous_state (mgr_context m),
                 dialogue_act := dialogue_act (mgr_context m),
                 topic := topic (mgr_context m),
                 entities := entities (mgr_context m),
                 user_intent := user_intent (mgr_context m),
                 last_user_input := last_user_input (mgr_context m),
                 last_agent_response := last_agent_response (mgr_context m),
                 turn_count := turn_count (mgr_context m),
                 created_at := created_at (mgr_context m),
                 updated_at := updated_at (mgr_context m),
                 metadata := metadata (mgr_context m)\<rparr>"
  have run: "from_dict (to_dict m) w = (Inr (manager\<lparr>mgr_context := ?c\<rparr>), w1)"
    using n assms
    by (simp add: from_dict_def get_item_to_dict get_datetime_to_dict assign_def Let_def)
  have c: "?c = mgr_context m"
    using u by (cases "mgr_context m", cases "mgr_context manager") simp
  have "to_dict (manager\<lparr>mgr_context := ?c\<rparr>) = to_dict m"
    unfolding c by (simp add: to_dict_def)
  then show ?thesis using run c by simp
qed

theorem to_dict_from_dict_roundtrip_witness:
  "valid_datetime (created_at (mgr_context (fst example_run)))
   \<and> valid_datetime (updated_at (mgr_context (fst example_run)))
   \<and> (\<exists>m' w'. from_dict (to_dict (fst example_run)) (snd example_run) = (Inr m', w')
                 \<and> mgr_context m' = mgr_context (fst example_run)
                 \<and> to_dict m' = to_dict (fst example_run))"
proof -
  have h1: "valid_datetime (created_at (mgr_context (fst example_run)))"
    by (simp add: example_run_def example_manager_def example_world1_def example_calls_def
          example_world_def example_time_def valid_datetime_def days_in_month_def
          new_manager_def new_context_def generate_conversation_id_def datetime_now_def
          update_state_def update_context_def update_dialogue_act_def slice_last_def)
  have h2: "valid_datetime (updated_at (mgr_context (fst example_run)))"
    by (simp add: example_run_def example_manager_def example_world1_def example_calls_def
          example_world_def example_time_def valid_datetime_def days_in_month_def
          new_manager_def new_context_def generate_conversation_id_def datetime_now_def
          update_state_def update_context_def update_dialogue_act_def slice_last_def)
  show ?thesis
    using to_dict_from_dict_roundtrip [OF h1 h2, of "snd example_run"] h1 h2 by simp
qed

end
